(* ===== verification/Prelude.thy ===== *)
theory Prelude
  imports Main "HOL-Library.Word"
begin

text \<open>
  Shared vocabulary of the hospital-records development: the types that name the
  values the program stores (SQLite INTEGER columns as 64-bit words, row ids as
  natural numbers), the collections of simplification rules the component theories
  fill, and generic lemmas on lists and association lists that several components use.
\<close>

section \<open>Types of the model\<close>

text \<open>An SQLite \<open>INTEGER\<close> value is a 64-bit two's complement integer.\<close>

type_synonym sqlint = "64 word"

text \<open>A row id of an \<open>INTEGER PRIMARY KEY AUTOINCREMENT\<close> column.\<close>

type_synonym rowid = nat

text \<open>A row of a table as SQLite returns it: the row id and the other columns.\<close>

type_synonym 'r keyed = "rowid \<times> 'r"

section \<open>Rule collections\<close>

named_theorems py_simps "evaluation rules of the Python built-ins of the model"
named_theorems table_simps "evaluation rules of the SQL table operations"
named_theorems handler_simps "unfolding rules of the Tk callbacks"

section \<open>Generic lemmas\<close>

text \<open>Association lists whose keys are strictly increasing: the shape of a rowid table.\<close>

abbreviation keys_sorted :: "('k::linorder \<times> 'v) list \<Rightarrow> bool" where
  "keys_sorted xs \<equiv> sorted_wrt (<) (map fst xs)"

lemma dropWhile_none [simp]: "\<forall>x \<in> set s. \<not> P x \<Longrightarrow> dropWhile P s = s"
  by (induction s) auto

lemma set_map_filter_iff:
  "y \<in> set (List.map_filter f xs) \<longleftrightarrow> (\<exists>x \<in> set xs. f x = Some y)"
  by (induction xs) (auto split: option.splits)

lemma map_filter_append [simp]:
  "List.map_filter f (xs @ ys) = List.map_filter f xs @ List.map_filter f ys"
  by (induction xs) (auto split: option.splits)

lemma keys_sorted_distinct [intro]:
  "keys_sorted xs \<Longrightarrow> distinct (map fst xs)"
  by (simp add: strict_sorted_iff)

lemma keys_sorted_snoc [simp]:
  "keys_sorted (xs @ [(k, v)]) \<longleftrightarrow> keys_sorted xs \<and> (\<forall>j \<in> fst ` set xs. j < k)"
  by (auto simp: sorted_wrt_append)

lemma keys_sorted_filter [intro]:
  "keys_sorted xs \<Longrightarrow> keys_sorted (filter P xs)"
proof (induction xs)
  case Nil
  then show ?case by simp
next
  case (Cons x xs)
  then show ?case by auto
qed

lemma map_fst_map_snd_update [simp]:
  "map fst (map (\<lambda>(k, v). (k, f k v)) xs) = map fst xs"
  by (induction xs) auto

lemma map_update_absent_key [simp]:
  "i \<notin> fst ` set xs \<Longrightarrow> map (\<lambda>(k, v). (k, if k = i then g v else v)) xs = xs"
  by (induction xs) auto

lemma map_update_same_key:
  "(\<forall>u. (i, u) \<in> set xs \<longrightarrow> u = v) \<Longrightarrow> map (\<lambda>(k, u). (k, if k = i then v else u)) xs = xs"
  by (induction xs) auto

lemma map_of_filter_key [simp]:
  "map_of (filter (\<lambda>(k, v). k \<noteq> i) xs) = (map_of xs)(i := None)"
  by (induction xs) (auto simp: fun_eq_iff)

lemma map_of_map_update [simp]:
  "map_of (map (\<lambda>(k, v). (k, if k = i then g v else v)) xs) =
     (map_of xs)(i := map_option g (map_of xs i))"
  by (induction xs) (auto simp: fun_eq_iff)

lemma map_of_snoc_fresh [simp]:
  "k \<notin> fst ` set xs \<Longrightarrow> map_of (xs @ [(k, v)]) = (map_of xs)(k \<mapsto> v)"
  by (induction xs) (auto simp: fun_eq_iff map_of_eq_None_iff)

text \<open>Filtering out one key commutes with a \<open>map_filter\<close> that keeps keys.\<close>

lemma map_filter_filter_key:
  "(\<And>a r. f a = Some r \<Longrightarrow> fst r = fst a) \<Longrightarrow>
   List.map_filter f (filter (\<lambda>(k, v). k \<noteq> i) xs) = filter (\<lambda>r. fst r \<noteq> i) (List.map_filter f xs)"
  by (induction xs) (auto simp: List.map_filter_def split: option.splits)

end
