(* ===== verification/Csv.thy ===== *)
theory Csv
  imports Prelude
begin

text \<open>
  The text \<open>csv.writer\<close> produces with its default dialect (\<open>excel\<close>: delimiter
  \<open>,\<close>, quote character \<open>"\<close> doubled inside quoted fields, \<open>QUOTE_MINIMAL\<close>,
  line terminator \<open>\r\n\<close>), as \<open>export_appointments_to_csv\<close> uses it
  (src/programa_hospital.py, lines 100--103), and a reader with the states of
  CPython's \<open>csv.reader\<close> (\<open>_csv.c\<close>: start of record, start of field, in field,
  in quoted field, quote in quoted field, end of line) used to state what the
  written text means.
\<close>

section \<open>Writer\<close>

definition csv_special :: "char \<Rightarrow> bool" where
  "csv_special c = (c = CHR '','' \<or> c = CHR 0x22 \<or> c = CHR 0x0D \<or> c = CHR 0x0A)"

definition csv_escape :: "char \<Rightarrow> string" where
  "csv_escape c = (if c = CHR 0x22 then [CHR 0x22, CHR 0x22] else [c])"

text \<open>\<open>QUOTE_MINIMAL\<close>: a field is quoted when it holds the delimiter, the quote
  character or a line-break character.\<close>

definition csv_field :: "string \<Rightarrow> string" where
  "csv_field s =
     (if list_ex csv_special s then CHR 0x22 # concat (map csv_escape s) @ [CHR 0x22] else s)"

fun csv_join :: "string list \<Rightarrow> string" where
  "csv_join [] = []"
| "csv_join [f] = csv_field f"
| "csv_join (f # fs) = csv_field f @ CHR '','' # csv_join fs"

definition csv_crlf :: string where
  "csv_crlf = [CHR 0x0D, CHR 0x0A]"

text \<open>\<open>writer.writerow\<close> and \<open>writer.writerows\<close>.\<close>

definition csv_row :: "string list \<Rightarrow> string" where
  "csv_row fs = csv_join fs @ csv_crlf"

definition csv_rows :: "string list list \<Rightarrow> string" where
  "csv_rows rs = concat (map csv_row rs)"

section \<open>Reader\<close>

datatype csv_state = RecordStart | FieldStart | InField | InQuoted | QuoteInQuoted | EatLF

text \<open>\<open>csv_scan st f row acc s\<close>: state, the field being read, the fields of the
  current record, the records read, the input. A line feed outside quotes ends the
  record, with or without a carriage return before it, as the lines of a file
  opened with \<open>newline=''\<close> end; so a writer that left a line feed in an
  unquoted field would split the record. The reader is strict where CPython's is
  lenient: a quote followed by anything but a quote, a comma or a line end, and a
  carriage return not followed by a line feed, are errors (\<open>None\<close>).\<close>

fun csv_scan :: "csv_state \<Rightarrow> string \<Rightarrow> string list \<Rightarrow> string list list \<Rightarrow> string \<Rightarrow> string list list option" where
  "csv_scan st f row acc [] = (if st = RecordStart then Some acc else None)"
| "csv_scan st f row acc (c # s) =
     (case st of
        InQuoted \<Rightarrow> if c = CHR 0x22 then csv_scan QuoteInQuoted f row acc s
                    else csv_scan InQuoted (f @ [c]) row acc s
      | QuoteInQuoted \<Rightarrow>
          if c = CHR 0x22 then csv_scan InQuoted (f @ [c]) row acc s
          else if c = CHR '','' then csv_scan FieldStart [] (row @ [f]) acc s
          else if c = CHR 0x0D then csv_scan EatLF [] (row @ [f]) acc s
          else if c = CHR 0x0A then csv_scan RecordStart [] [] (acc @ [row @ [f]]) s
          else None
      | EatLF \<Rightarrow> if c = CHR 0x0A then csv_scan RecordStart [] [] (acc @ [row]) s else None
      | InField \<Rightarrow>
          if c = CHR '','' then csv_scan FieldStart [] (row @ [f]) acc s
          else if c = CHR 0x0D then csv_scan EatLF [] (row @ [f]) acc s
          else if c = CHR 0x0A then csv_scan RecordStart [] [] (acc @ [row @ [f]]) s
          else csv_scan InField (f @ [c]) row acc s
      | _ \<Rightarrow>
          if c = CHR 0x22 then csv_scan InQuoted [] row acc s
          else if c = CHR '','' then csv_scan FieldStart [] (row @ [[]]) acc s
          else if c = CHR 0x0D then csv_scan EatLF [] (row @ [[]]) acc s
          else if c = CHR 0x0A then csv_scan RecordStart [] [] (acc @ [row @ [[]]]) s
          else csv_scan InField [c] row acc s)"

definition csv_read :: "string \<Rightarrow> string list list option" where
  "csv_read s = csv_scan RecordStart [] [] [] s"

text \<open>The state the reader enters on the character that ends a field.\<close>

definition csv_after :: "char \<Rightarrow> csv_state" where
  "csv_after c = (if c = CHR '','' then FieldStart else EatLF)"

section \<open>Lemmas\<close>

lemma csv_scan_unquoted:
  "\<not> list_ex csv_special xs \<Longrightarrow> csv_scan InField g row acc (xs @ s) = csv_scan InField (g @ xs) row acc s"
  by (induction xs arbitrary: g) (simp_all add: csv_special_def)

lemma csv_scan_quoted:
  "csv_scan InQuoted g row acc (concat (map csv_escape xs) @ CHR 0x22 # s) = csv_scan QuoteInQuoted (g @ xs) row acc s"
  by (induction xs arbitrary: g) (simp_all add: csv_escape_def)

lemma csv_scan_field:
  assumes "st = RecordStart \<or> st = FieldStart" and "c = CHR '','' \<or> c = CHR 0x0D"
  shows "csv_scan st [] row acc (csv_field f @ c # s) = csv_scan (csv_after c) [] (row @ [f]) acc s"
proof (cases "list_ex csv_special f")
  case True
  then show ?thesis using assms
    by (auto simp: csv_field_def csv_scan_quoted csv_after_def)
next
  case False
  show ?thesis
  proof (cases f)
    case Nil
    then show ?thesis using assms by (auto simp: csv_field_def csv_after_def)
  next
    case (Cons x xs)
    with False have "\<not> csv_special x" "\<not> list_ex csv_special xs" by simp_all
    then show ?thesis using assms Cons False
      by (auto simp: csv_field_def csv_after_def csv_scan_unquoted csv_special_def)
  qed
qed

lemma csv_scan_join:
  "fs \<noteq> [] \<Longrightarrow> st = RecordStart \<or> st = FieldStart \<Longrightarrow>
   csv_scan st [] row acc (csv_join fs @ CHR 0x0D # s) = csv_scan EatLF [] (row @ fs) acc s"
proof (induction fs arbitrary: st row rule: csv_join.induct)
  case (2 f)
  then show ?case using csv_scan_field [of st "CHR 0x0D"] by (simp add: csv_after_def)
next
  case (3 f g gs)
  have "csv_scan st [] row acc (csv_field f @ CHR '','' # csv_join (g # gs) @ CHR 0x0D # s) =
        csv_scan FieldStart [] (row @ [f]) acc (csv_join (g # gs) @ CHR 0x0D # s)"
    using csv_scan_field [of st "CHR '',''"] "3.prems"(2) by (simp add: csv_after_def)
  with "3.IH" [of FieldStart "row @ [f]"] show ?case by simp
qed simp

lemma csv_scan_rows:
  "list_all (\<lambda>r. r \<noteq> []) rs \<Longrightarrow> csv_scan RecordStart [] [] acc (csv_rows rs @ s) = csv_scan RecordStart [] [] (acc @ rs) s"
proof (induction rs arbitrary: acc)
  case (Cons r rs)
  then have "csv_scan RecordStart [] [] acc (csv_row r @ csv_rows rs @ s) =
             csv_scan RecordStart [] [] (acc @ [r]) (csv_rows rs @ s)"
    by (simp add: csv_row_def csv_crlf_def csv_scan_join)
  with Cons show ?case by (simp add: csv_rows_def)
qed (simp add: csv_rows_def)

lemma csv_read_rows: "list_all (\<lambda>r. r \<noteq> []) rs \<Longrightarrow> csv_read (csv_rows rs) = Some rs"
  using csv_scan_rows [of rs "[]" "[]"] by (simp add: csv_read_def)

end
