(* ===== verification/SqlTable.thy ===== *)
theory SqlTable
  imports Prelude
begin

text \<open>
  A table declared \<open>id INTEGER PRIMARY KEY AUTOINCREMENT\<close> (every table of
  \<open>setup_database\<close>, src/programa_hospital.py lines 14--37) and the statements
  the program runs on it: \<open>INSERT\<close> (the id chosen by SQLite), \<open>DELETE ... WHERE
  id = ?\<close>, \<open>UPDATE ... WHERE id = ?\<close>, \<open>SELECT * FROM t\<close> and
  \<open>SELECT * FROM t WHERE id = ?\<close>.

  The table is its rows in rowid order (the order of a full scan of a rowid table,
  which is what a \<open>SELECT\<close> without \<open>ORDER BY\<close> returns) and the value SQLite keeps
  for it in \<open>sqlite_sequence\<close>: the largest rowid the table has ever held.
  With \<open>AUTOINCREMENT\<close> a new row gets one more than the larger of that value and the
  largest rowid present; when that would pass \<open>2^63 - 1\<close> the insert fails with
  \<open>SQLITE_FULL\<close>. Deleted rowids are never handed out again.
\<close>

section \<open>Definitions\<close>

record 'r table =
  rows :: "'r keyed list"
  seq :: rowid

text \<open>The largest rowid, \<open>2^63 - 1\<close>.\<close>

definition max_rowid :: rowid where
  "max_rowid = 9223372036854775807"

text \<open>Errors raised by the database layer: \<open>sqlite3.OperationalError\<close> for
  \<open>SQLITE_FULL\<close> and for a \<open>LIKE\<close> pattern over the length limit, and the
  \<open>OverflowError\<close> of the \<open>sqlite3\<close> module when a Python \<open>int\<close> parameter does
  not fit a 64-bit INTEGER; \<open>sqlite3.DatabaseError\<close> ("file is not a database")
  and \<open>sqlite3.OperationalError\<close> ("unable to open database file") when the file
  \<open>hospital.db\<close> is not a database.\<close>

datatype sql_error = SqliteFull | PatternTooComplex | IntOverflow | NotADatabase | CannotOpen

definition empty_table :: "'r table" where
  "empty_table = \<lparr>rows = [], seq = 0\<rparr>"

primrec max_key :: "'r keyed list \<Rightarrow> rowid" where
  "max_key [] = 0"
| "max_key (x # xs) = max (fst x) (max_key xs)"

definition table_insert :: "'r \<Rightarrow> 'r table \<Rightarrow> sql_error + (rowid \<times> 'r table)" where
  "table_insert r t =
     (let m = max (seq t) (max_key (rows t))
      in if max_rowid \<le> m then Inl SqliteFull
         else Inr (Suc m, t\<lparr>rows := rows t @ [(Suc m, r)], seq := Suc m\<rparr>))"

definition table_delete :: "rowid \<Rightarrow> 'r table \<Rightarrow> 'r table" where
  "table_delete i t = t\<lparr>rows := filter (\<lambda>(k, v). k \<noteq> i) (rows t)\<rparr>"

definition table_update :: "rowid \<Rightarrow> ('r \<Rightarrow> 'r) \<Rightarrow> 'r table \<Rightarrow> 'r table" where
  "table_update i g t = t\<lparr>rows := map (\<lambda>(k, v). (k, if k = i then g v else v)) (rows t)\<rparr>"

definition table_lookup :: "'r table \<Rightarrow> rowid \<Rightarrow> 'r option" where
  "table_lookup t = map_of (rows t)"

definition table_ids :: "'r table \<Rightarrow> rowid set" where
  "table_ids t = fst ` set (rows t)"

text \<open>The invariant: rowids strictly increasing along the scan, positive, at most
  the sequence value, which is at most the largest rowid.\<close>

definition table_inv :: "'r table \<Rightarrow> bool" where
  "table_inv t =
     (keys_sorted (rows t) \<and> list_all (\<lambda>k. 0 < k \<and> k \<le> seq t) (map fst (rows t))
      \<and> seq t \<le> max_rowid)"

text \<open>The record store of the specification (section 4.1): a partial map from ids
  to records and the last id handed out; \<open>create\<close> hands out the next id unless the
  ids are exhausted, \<open>delete\<close> and \<open>update\<close> act on one id, and \<open>list_all\<close> lists
  the records in id order. \<open>abs_table\<close> reads a table as such a store.\<close>

record 'r store =
  store_map :: "rowid \<rightharpoonup> 'r"
  store_next :: rowid

definition store_create :: "'r \<Rightarrow> 'r store \<Rightarrow> (rowid \<times> 'r store) option" where
  "store_create r S =
     (if store_next S = max_rowid then None
      else Some (Suc (store_next S),
                 \<lparr>store_map = (store_map S)(Suc (store_next S) \<mapsto> r), store_next = Suc (store_next S)\<rparr>))"

definition store_delete :: "rowid \<Rightarrow> 'r store \<Rightarrow> 'r store" where
  "store_delete i S = S\<lparr>store_map := (store_map S)(i := None)\<rparr>"

definition store_update :: "rowid \<Rightarrow> 'r \<Rightarrow> 'r store \<Rightarrow> 'r store" where
  "store_update i r S =
     S\<lparr>store_map := (case store_map S i of None \<Rightarrow> store_map S | Some _ \<Rightarrow> (store_map S)(i \<mapsto> r))\<rparr>"

definition store_ids :: "'r store \<Rightarrow> rowid list" where
  "store_ids S = sorted_list_of_set (dom (store_map S))"

definition abs_table :: "'r table \<Rightarrow> 'r store" where
  "abs_table t = \<lparr>store_map = table_lookup t, store_next = seq t\<rparr>"

section \<open>Lemmas\<close>

lemma max_key_ge: "k \<in> fst ` set xs \<Longrightarrow> k \<le> max_key xs"
  by (induction xs) (auto simp: le_max_iff_disj)

lemma max_key_bound: "list_all (\<lambda>k. 0 < k \<and> k \<le> s) (map fst xs) \<Longrightarrow> max_key xs \<le> s"
  by (induction xs) auto

lemma max_key_le_seq [simp]: "table_inv t \<Longrightarrow> max_key (rows t) \<le> seq t"
  by (simp add: table_inv_def max_key_bound)

lemma table_inv_empty [table_simps]: "table_inv empty_table"
  by (simp add: table_inv_def empty_table_def)

lemma table_ids_le_seq: "table_inv t \<Longrightarrow> i \<in> table_ids t \<Longrightarrow> i \<le> seq t"
  by (auto simp: table_inv_def table_ids_def list_all_iff)

subsection \<open>Insert\<close>

text \<open>Under the invariant the new rowid is \<open>seq + 1\<close>, and the insert fails exactly
  when the sequence has reached the largest rowid.\<close>

lemma table_insert_eq [table_simps]:
  "table_inv t \<Longrightarrow>
   table_insert r t =
     (if seq t = max_rowid then Inl SqliteFull
      else Inr (Suc (seq t), t\<lparr>rows := rows t @ [(Suc (seq t), r)], seq := Suc (seq t)\<rparr>))"
  using max_key_le_seq [of t] by (auto simp: table_insert_def table_inv_def Let_def max_absorb1)

lemma table_insert_result:
  "table_insert r t = Inr (i, t') \<Longrightarrow>
   i = Suc (max (seq t) (max_key (rows t))) \<and> t' = t\<lparr>rows := rows t @ [(i, r)], seq := i\<rparr>"
  by (auto simp: table_insert_def Let_def split: if_splits)

lemma table_insert_fresh:
  assumes "table_insert r t = Inr (i, t')"
  shows "i \<notin> table_ids t \<and> seq t < i \<and> seq t' = i"
proof -
  from assms have i: "i = Suc (max (seq t) (max_key (rows t)))"
    and t': "t' = t\<lparr>rows := rows t @ [(i, r)], seq := i\<rparr>"
    by (simp_all add: table_insert_result)
  have "i \<notin> table_ids t"
  proof
    assume "i \<in> table_ids t"
    then have "i \<le> max_key (rows t)" by (simp add: table_ids_def max_key_ge)
    with i show False by simp
  qed
  with i t' show ?thesis by simp
qed

lemma table_insert_inv:
  assumes "table_inv t" and "table_insert r t = Inr (i, t')"
  shows "table_inv t'"
proof -
  from assms have i: "i = Suc (seq t)" and ne: "seq t \<noteq> max_rowid"
    and t': "t' = t\<lparr>rows := rows t @ [(i, r)], seq := i\<rparr>"
    by (auto simp: table_insert_eq split: if_splits)
  have "\<forall>j \<in> fst ` set (rows t). j < i"
    using assms(1) i by (auto simp: table_inv_def list_all_iff)
  with assms(1) i ne t' show ?thesis
    by (auto simp: table_inv_def list_all_iff sorted_wrt_append)
qed

lemma table_insert_lookup:
  "table_insert r t = Inr (i, t') \<Longrightarrow> table_lookup t' = (table_lookup t)(i \<mapsto> r)"
  using table_insert_fresh [of r t i t'] table_insert_result [of r t i t']
  by (simp add: table_lookup_def table_ids_def map_of_snoc_fresh del: map_of_append)

subsection \<open>Delete and update\<close>

lemma table_delete_inv: "table_inv t \<Longrightarrow> table_inv (table_delete i t)"
  by (auto simp: table_inv_def table_delete_def list_all_iff)

lemma table_delete_lookup [table_simps]:
  "table_lookup (table_delete i t) = (table_lookup t)(i := None)"
  by (simp add: table_delete_def table_lookup_def)

lemma table_update_inv: "table_inv t \<Longrightarrow> table_inv (table_update i g t)"
proof -
  assume inv: "table_inv t"
  have "map fst (rows (table_update i g t)) = map fst (rows t)"
    by (simp add: table_update_def del: map_map)
  moreover have "seq (table_update i g t) = seq t"
    by (simp add: table_update_def)
  ultimately show ?thesis using inv
    unfolding table_inv_def by simp
qed

lemma table_update_lookup [table_simps]:
  "table_lookup (table_update i g t) = (table_lookup t)(i := map_option g (table_lookup t i))"
  by (simp add: table_update_def table_lookup_def)

lemma table_seq_unchanged [table_simps]:
  "seq (table_delete i t) = seq t" "seq (table_update i g t) = seq t"
  by (simp_all add: table_delete_def table_update_def)

lemma table_update_absent:
  "i \<notin> table_ids t \<Longrightarrow> table_update i g t = t"
  by (simp add: table_update_def table_ids_def)

lemma table_delete_absent:
  "i \<notin> table_ids t \<Longrightarrow> table_delete i t = t"
proof -
  assume "i \<notin> table_ids t"
  then have "filter (\<lambda>(k, v). k \<noteq> i) (rows t) = rows t"
    by (intro filter_True) (force simp: table_ids_def)
  then show ?thesis by (simp add: table_delete_def)
qed

text \<open>Rewriting a row with its own value changes nothing.\<close>

lemma table_update_same:
  "table_inv t \<Longrightarrow> table_lookup t i = Some v \<Longrightarrow> table_update i (\<lambda>_. v) t = t"
proof -
  assume inv: "table_inv t" and lk: "table_lookup t i = Some v"
  have "distinct (map fst (rows t))" using inv by (auto simp: table_inv_def)
  then have "\<forall>u. (i, u) \<in> set (rows t) \<longrightarrow> u = v"
    using lk by (auto simp: table_lookup_def map_of_eq_Some_iff dest: eq_key_imp_eq_value)
  then have "map (\<lambda>(k, u). (k, if k = i then v else u)) (rows t) = rows t"
    by (rule map_update_same_key)
  then show ?thesis by (simp add: table_update_def)
qed

text \<open>C21. Under the table invariant the statements the program runs refine the
  specification's record store: an \<open>INSERT\<close> fails exactly when \<open>create\<close> has no id
  left and otherwise hands out the same id with the same resulting store; \<open>DELETE\<close>
  and \<open>UPDATE ... WHERE id = ?\<close> are \<open>delete\<close> and \<open>update\<close> (no row changes for a
  missing id); and a full scan lists the ids in increasing order.\<close>

theorem table_refines_store:
  assumes "table_inv t"
  shows "(case table_insert r t of
            Inl _ \<Rightarrow> store_create r (abs_table t) = None
          | Inr (i, t') \<Rightarrow> store_create r (abs_table t) = Some (i, abs_table t'))
         \<and> abs_table (table_delete i t) = store_delete i (abs_table t)
         \<and> abs_table (table_update i (\<lambda>_. r') t) = store_update i r' (abs_table t)
         \<and> map fst (rows t) = store_ids (abs_table t)"
proof (intro conjI)
  show "case table_insert r t of
            Inl _ \<Rightarrow> store_create r (abs_table t) = None
          | Inr (i, t') \<Rightarrow> store_create r (abs_table t) = Some (i, abs_table t')"
    using table_insert_lookup [of r t] assms
    by (auto simp: table_insert_eq abs_table_def store_create_def split: sum.split)
  show "abs_table (table_delete i t) = store_delete i (abs_table t)"
    by (simp add: abs_table_def store_delete_def table_simps)
  show "abs_table (table_update i (\<lambda>_. r') t) = store_update i r' (abs_table t)"
    by (auto simp: abs_table_def store_update_def table_simps split: option.split)
  have "sorted (map fst (rows t))" "distinct (map fst (rows t))"
    using assms by (auto simp: table_inv_def strict_sorted_iff)
  then show "map fst (rows t) = store_ids (abs_table t)"
    by (simp add: store_ids_def abs_table_def table_lookup_def dom_map_of_conv_image_fst
        sorted_list_of_set.idem_if_sorted_distinct flip: set_map)
qed

theorem table_refines_store_witness:
  "store_create ''d'' (abs_table \<lparr>rows = [(1 :: rowid, ''a''), (3, ''c'')], seq = 4\<rparr>) =
     Some (5, abs_table \<lparr>rows = [(1, ''a''), (3, ''c''), (5, ''d'')], seq = 5\<rparr>) \<and>
   abs_table (table_delete 3 \<lparr>rows = [(1 :: rowid, ''a''), (3, ''c'')], seq = 4\<rparr>) = store_delete 3 (abs_table \<lparr>rows = [(1 :: rowid, ''a''), (3, ''c'')], seq = 4\<rparr>) \<and>
   abs_table (table_update 3 (\<lambda>_. ''z'') \<lparr>rows = [(1 :: rowid, ''a''), (3, ''c'')], seq = 4\<rparr>) = store_update 3 ''z'' (abs_table \<lparr>rows = [(1 :: rowid, ''a''), (3, ''c'')], seq = 4\<rparr>) \<and>
   store_ids (abs_table \<lparr>rows = [(1 :: rowid, ''a''), (3, ''c'')], seq = 4\<rparr>) = [1, 3]"
  using table_refines_store [of "\<lparr>rows = [(1 :: rowid, ''a''), (3, ''c'')], seq = 4\<rparr>" "''d''" 3 "''z''"]
  by (simp add: table_inv_def table_insert_def max_rowid_def)

end
