(* ===== verification/PyStr.thy ===== *)
theory PyStr
  imports Prelude
begin

text \<open>
  The Python built-ins the form handlers apply to the text of a Tk entry:
  \<open>str.strip()\<close>, \<open>int(str)\<close>, \<open>str(int)\<close> (also as an f-string field) and
  \<open>str.split(":")[0]\<close>. A Python string is a sequence of code points; the model
  covers code points below 256, one \<open>char\<close> each (Latin-1), where the Unicode
  predicates \<open>isspace\<close> and \<open>isdecimal\<close> have the values written out below.
\<close>

section \<open>Character classes\<close>

text \<open>
  \<open>str.isspace\<close> on Latin-1: TAB, LF, VT, FF, CR, the separators 0x1C--0x1F,
  SPACE, NEL (0x85) and NO-BREAK SPACE (0xA0).
\<close>

definition py_isspace :: "char \<Rightarrow> bool" where
  "py_isspace c =
     (let n = (of_char c :: nat)
      in (9 \<le> n \<and> n \<le> 13) \<or> (28 \<le> n \<and> n \<le> 32) \<or> n = 133 \<or> n = 160)"

text \<open>The decimal digits (Unicode category Nd) of Latin-1 are the ASCII digits.\<close>

definition is_digit :: "char \<Rightarrow> bool" where
  "is_digit c = (let n = (of_char c :: nat) in 48 \<le> n \<and> n \<le> 57)"

definition digit_val :: "char \<Rightarrow> nat" where
  "digit_val c = of_char c - 48"

definition digit_char :: "nat \<Rightarrow> char" where
  "digit_char d = char_of (48 + d)"

section \<open>\<open>str.strip()\<close>\<close>

definition py_strip :: "string \<Rightarrow> string" where
  "py_strip s = rev (dropWhile py_isspace (rev (dropWhile py_isspace s)))"

section \<open>\<open>int(str)\<close> in base 10\<close>

text \<open>
  CPython's \<open>PyLong_FromString\<close> after the whitespace around the literal is
  skipped: an optional sign, then digits in groups separated by single underscores,
  with leading zeros allowed. \<open>scan_digits acc s\<close> is its digit loop after a digit
  has been read; \<open>None\<close> is the \<open>ValueError\<close>.
\<close>

fun scan_digits :: "nat \<Rightarrow> string \<Rightarrow> nat option" where
  "scan_digits acc [] = Some acc"
| "scan_digits acc (c # cs) =
     (if is_digit c then scan_digits (10 * acc + digit_val c) cs
      else if c = CHR ''_'' then
        (case cs of
           [] \<Rightarrow> None
         | d # ds \<Rightarrow> if is_digit d then scan_digits (10 * acc + digit_val d) ds else None)
      else None)"

text \<open>From Python 3.11, \<open>int\<close> refuses a decimal literal of more than
  \<open>sys.get_int_max_str_digits()\<close> digits (4300 by default) with \<open>ValueError\<close>.\<close>

definition int_max_str_digits :: nat where
  "int_max_str_digits = 4300"

fun py_digits :: "string \<Rightarrow> nat option" where
  "py_digits [] = None"
| "py_digits (c # cs) =
     (if is_digit c then
        (if int_max_str_digits < length (filter is_digit (c # cs)) then None
         else scan_digits (digit_val c) cs)
      else None)"

fun py_int_literal :: "string \<Rightarrow> int option" where
  "py_int_literal [] = None"
| "py_int_literal (c # cs) =
     (if c = CHR ''+'' then map_option int (py_digits cs)
      else if c = CHR ''-'' then map_option (\<lambda>n. - int n) (py_digits cs)
      else map_option int (py_digits (c # cs)))"

definition py_int :: "string \<Rightarrow> int option" where
  "py_int s = py_int_literal (py_strip s)"

section \<open>\<open>str(int)\<close>\<close>

fun py_str_nat :: "nat \<Rightarrow> string" where
  "py_str_nat n =
     (if n < 10 then [digit_char n] else py_str_nat (n div 10) @ [digit_char (n mod 10)])"

definition py_str_int :: "int \<Rightarrow> string" where
  "py_str_int i = (if i < 0 then CHR ''-'' # py_str_nat (nat (- i)) else py_str_nat (nat i))"

section \<open>\<open>str.split(sep)[0]\<close>\<close>

text \<open>The first field of \<open>s.split(sep)\<close> (never an \<open>IndexError\<close>: a split has
  at least one field) is the longest prefix free of the separator.\<close>

definition py_split_first :: "char \<Rightarrow> string \<Rightarrow> string" where
  "py_split_first sep s = takeWhile (\<lambda>c. c \<noteq> sep) s"

text \<open>The value of a run of digits read after the accumulator \<open>acc\<close>.\<close>

definition digits_value :: "nat \<Rightarrow> string \<Rightarrow> nat" where
  "digits_value acc s = foldl (\<lambda>a c. 10 * a + digit_val c) acc s"

section \<open>Lemmas\<close>

declare py_strip_def [py_simps] py_isspace_def [py_simps] py_int_def [py_simps]
  is_digit_def [py_simps] digit_val_def [py_simps] digit_char_def [py_simps]
  int_max_str_digits_def [py_simps]

declare py_str_nat.simps [simp del]

lemma digit_char_is_digit [simp]: "d < 10 \<Longrightarrow> is_digit (digit_char d)"
  by (simp add: is_digit_def digit_char_def of_char_of)

lemma digit_val_digit_char [simp]: "d < 10 \<Longrightarrow> digit_val (digit_char d) = d"
  by (simp add: digit_val_def digit_char_def of_char_of)

lemma digit_not_space [simp]: "is_digit c \<Longrightarrow> \<not> py_isspace c"
  by (simp add: is_digit_def py_isspace_def Let_def)

lemma py_strip_id: "\<not> list_ex py_isspace s \<Longrightarrow> py_strip s = s"
  by (simp add: py_strip_def list_ex_iff)

lemma scan_digits_all: "list_all is_digit s \<Longrightarrow> scan_digits acc s = Some (digits_value acc s)"
  by (induction s arbitrary: acc) (simp_all add: digits_value_def)

lemma py_str_nat_digits: "list_all is_digit (py_str_nat n) \<and> py_str_nat n \<noteq> [] \<and> digits_value 0 (py_str_nat n) = n"
proof (induction n rule: py_str_nat.induct)
  case (1 n)
  show ?case
  proof (cases "n < 10")
    case True
    then show ?thesis by (simp add: py_str_nat.simps digits_value_def)
  next
    case False
    with "1.IH" show ?thesis
      by (simp add: py_str_nat.simps [of n] digits_value_def)
  qed
qed

lemma length_py_str_nat: "n < 10 ^ k \<Longrightarrow> 0 < k \<Longrightarrow> length (py_str_nat n) \<le> k"
proof (induction n arbitrary: k rule: py_str_nat.induct)
  case (1 n)
  show ?case
  proof (cases "n < 10")
    case True
    with "1.prems" show ?thesis by (simp add: py_str_nat.simps [of n])
  next
    case False
    with "1.prems" obtain j where k: "k = Suc j" and j: "0 < j"
      by (cases k; cases "k - 1") (auto simp: not_less)
    with "1.prems" have "n div 10 < 10 ^ j" by (simp add: less_mult_imp_div_less)
    with "1.IH" False j have "length (py_str_nat (n div 10)) \<le> j" by simp
    with False k show ?thesis by (simp add: py_str_nat.simps [of n])
  qed
qed

lemma py_digits_str_nat:
  assumes "n < 10 ^ int_max_str_digits"
  shows "py_digits (py_str_nat n) = Some n"
proof -
  obtain c cs where cs: "py_str_nat n = c # cs" using py_str_nat_digits [of n] by (cases "py_str_nat n") auto
  with py_str_nat_digits [of n] have "is_digit c" "list_all is_digit cs" "digits_value 0 (c # cs) = n" by auto
  moreover have "length (py_str_nat n) \<le> int_max_str_digits"
    using length_py_str_nat [OF assms] by (simp add: int_max_str_digits_def)
  moreover have "filter is_digit (c # cs) = c # cs"
    using \<open>is_digit c\<close> \<open>list_all is_digit cs\<close> by (simp add: list_all_iff)
  ultimately show ?thesis by (simp add: cs scan_digits_all digits_value_def)
qed

lemma py_str_nat_not_space: "\<not> list_ex py_isspace (py_str_nat n)"
  using py_str_nat_digits [of n] by (auto simp: list_all_iff list_ex_iff)

lemma py_str_int_not_space: "\<not> list_ex py_isspace (py_str_int i)"
  using py_str_nat_not_space by (simp add: py_str_int_def py_isspace_def)

text \<open>\<open>int(str(i)) == i\<close>: the decimal rendering of an integer reads back, when it
  has at most 4300 digits.\<close>

lemma py_int_str:
  assumes "nat \<bar>i\<bar> < 10 ^ int_max_str_digits"
  shows "py_int (py_str_int i) = Some i"
proof (cases "i < 0")
  case True
  then have "py_str_int i = CHR ''-'' # py_str_nat (nat (- i))" by (simp add: py_str_int_def)
  with True show ?thesis
    using py_digits_str_nat [of "nat (- i)"] py_strip_id [OF py_str_int_not_space [of i]] assms
    by (simp add: py_int_def)
next
  case False
  obtain c cs where cs: "py_str_nat (nat i) = c # cs" using py_str_nat_digits [of "nat i"] by (cases "py_str_nat (nat i)") auto
  with py_str_nat_digits [of "nat i"] have "is_digit c" by auto
  then have "c \<noteq> CHR ''+'' \<and> c \<noteq> CHR ''-''" by (auto simp: is_digit_def)
  with False cs show ?thesis
    using py_digits_str_nat [of "nat i"] py_strip_id [OF py_str_int_not_space [of i]] assms
    by (simp add: py_int_def py_str_int_def)
qed

subsection \<open>\<open>strip\<close> leaves no white space at either end\<close>

lemma py_strip_hd: "py_strip s \<noteq> [] \<Longrightarrow> \<not> py_isspace (hd (py_strip s))"
proof -
  let ?t = "dropWhile py_isspace s"
  assume ne: "py_strip s \<noteq> []"
  then have ne2: "dropWhile py_isspace (rev ?t) \<noteq> []" by (simp add: py_strip_def)
  then have "?t \<noteq> []" by (cases ?t) auto
  have "hd (py_strip s) = last (dropWhile py_isspace (rev ?t))"
    using ne2 by (simp add: py_strip_def hd_rev)
  also have "\<dots> = last (rev ?t)"
  proof -
    obtain u where "rev ?t = u @ dropWhile py_isspace (rev ?t)"
      by (metis takeWhile_dropWhile_id)
    with ne2 show ?thesis by (metis last_appendR)
  qed
  also have "\<dots> = hd ?t" by (simp add: last_rev)
  finally show ?thesis using \<open>?t \<noteq> []\<close> by (simp add: hd_dropWhile)
qed

lemma py_strip_last: "py_strip s \<noteq> [] \<Longrightarrow> \<not> py_isspace (last (py_strip s))"
proof -
  assume ne: "py_strip s \<noteq> []"
  then have "dropWhile py_isspace (rev (dropWhile py_isspace s)) \<noteq> []" by (simp add: py_strip_def)
  then show ?thesis by (simp add: py_strip_def last_rev hd_dropWhile)
qed

lemma py_strip_idem: "py_strip (py_strip s) = py_strip s"
proof (cases "py_strip s = []")
  case True
  then show ?thesis by (simp only: True) (simp add: py_strip_def)
next
  case False
  have "dropWhile py_isspace (py_strip s) = py_strip s"
    using False py_strip_hd by (simp add: dropWhile_eq_self_iff)
  moreover have "dropWhile py_isspace (rev (py_strip s)) = rev (py_strip s)"
    using False py_strip_last by (simp add: dropWhile_eq_self_iff hd_rev)
  ultimately show ?thesis by (simp add: py_strip_def [of "py_strip s"])
qed
subsection \<open>Consequences for the handlers\<close>

lemma py_int_strip [simp]: "py_int (py_strip s) = py_int s"
  by (simp add: py_int_def py_strip_idem)

lemma py_int_nonempty: "py_int s = Some a \<Longrightarrow> py_strip s \<noteq> []"
  by (auto simp: py_int_def)

lemma py_str_int_nonempty [simp]: "py_str_int i \<noteq> []"
  using py_str_nat_digits by (auto simp: py_str_int_def)

lemma py_strip_str_int [simp]: "py_strip (py_str_int i) = py_str_int i"
  by (rule py_strip_id [OF py_str_int_not_space])

end
