(* ===== verification/Store.thy ===== *)
theory Store
  imports SqlTable PyStr
begin

text \<open>
  The database file \<open>hospital.db\<close>: the four tables created by
  \<open>setup_database\<close> (src/programa_hospital.py, lines 11--43), the rows they hold,
  the conversion of a Python \<open>int\<close> parameter to an SQLite INTEGER, and the error
  outcomes the Tk callbacks share.
\<close>

section \<open>Rows and the database\<close>

text \<open>\<open>patients (id, name, age, address, contact)\<close>\<close>

record patient =
  patient_name :: string
  patient_age :: sqlint
  patient_address :: string
  patient_contact :: string

text \<open>\<open>doctors (id, name, specialty, schedule)\<close>\<close>

record doctor =
  doctor_name :: string
  doctor_specialty :: string
  doctor_schedule :: string

text \<open>\<open>appointments (id, patient_id, doctor_id, date, time)\<close>; the foreign keys are
  declared but SQLite does not enforce them (\<open>PRAGMA foreign_keys\<close> is off by
  default and the program never sets it).\<close>

record appointment =
  appt_patient_id :: sqlint
  appt_doctor_id :: sqlint
  appt_date :: string
  appt_time :: string

text \<open>\<open>users (id, username, password)\<close>\<close>

record user =
  user_username :: string
  user_password :: string

record db =
  patients :: "patient table"
  doctors :: "doctor table"
  appointments :: "appointment table"
  users :: "user table"

section \<open>Outcomes of a callback\<close>

text \<open>
  Each Tk callback ends in one of: a dialog with an error message the code writes
  (one constructor per message), an exception caught by an \<open>except\<close> clause and
  shown in an error dialog (\<open>Reported\<close>), an exception that escapes the callback
  (\<open>Raised\<close>; Tk prints it and the form stays open), or a failed
  file operation shown in an error dialog (\<open>IOFailure\<close>). None of them changes the
  database: every statement of the program commits on its own.
\<close>

text \<open>The \<open>OSError\<close>s of the file operations the program catches: a missing
  source file, a directory where a file is expected, \<open>shutil.SameFileError\<close>.\<close>

datatype io_error = FileNotFound | IsADirectory | SameFile

datatype hosp_error =
    MissingFields
  | AgeNotNumber
  | InvalidSelection
  | BadDateFormat
  | BadTimeFormat
  | NoPatients
  | NoDoctors
  | PatientNotFound
  | DoctorNotFound
  | NoSelection
  | NoAppointmentsToExport
  | Reported sql_error
  | Raised sql_error
  | IOFailure io_error

section \<open>Python \<open>int\<close> parameters\<close>

text \<open>The \<open>sqlite3\<close> module binds a Python \<open>int\<close> as a 64-bit INTEGER and raises
  \<open>OverflowError\<close> outside \<open>[-2^63, 2^63)\<close>.\<close>

definition bind_int :: "int \<Rightarrow> sql_error + sqlint" where
  "bind_int x = (if - (2 ^ 63) \<le> x \<and> x < 2 ^ 63 then Inr (word_of_int x) else Inl IntOverflow)"

text \<open>The integer a rowid column compares equal to: \<open>WHERE id = ?\<close> with an
  INTEGER parameter, or a join on \<open>patient_id = patients.id\<close>.\<close>

definition rowid_of :: "sqlint \<Rightarrow> rowid option" where
  "rowid_of w = (if 0 \<le> sint w then Some (nat (sint w)) else None)"

section \<open>\<open>setup_database\<close>\<close>

definition empty_db :: db where
  "empty_db = \<lparr>patients = empty_table, doctors = empty_table,
               appointments = empty_table, users = empty_table\<rparr>"

definition admin_user :: user where
  "admin_user = \<lparr>user_username = ''admin'', user_password = ''admin''\<rparr>"

text \<open>
  \<open>sqlite3.connect\<close> creates a missing file; \<open>CREATE TABLE IF NOT EXISTS\<close> adds the
  tables an empty file lacks and leaves an existing database as it is; the default
  user is inserted when \<open>users\<close> is empty. The argument is the database in the file,
  \<open>None\<close> when there is no file yet.
\<close>

definition setup_database :: "db option \<Rightarrow> sql_error + db" where
  "setup_database f =
     (let d = (case f of None \<Rightarrow> empty_db | Some d \<Rightarrow> d)
      in if rows (users d) = [] then
           (case table_insert admin_user (users d) of
              Inl e \<Rightarrow> Inl e
            | Inr (_, u) \<Rightarrow> Inr (d\<lparr>users := u\<rparr>))
         else Inr d)"

definition db_inv :: "db \<Rightarrow> bool" where
  "db_inv d =
     (table_inv (patients d) \<and> table_inv (doctors d) \<and> table_inv (appointments d)
      \<and> table_inv (users d))"

section \<open>Lemmas\<close>

declare empty_db_def [table_simps] db_inv_def [table_simps] empty_table_def [table_simps]
  table_inv_def [table_simps] max_rowid_def [table_simps] bind_int_def [table_simps]

lemma bind_int_sint:
  "bind_int x = Inr w \<Longrightarrow> sint w = x"
  by (auto simp: bind_int_def sint_sbintrunc' signed_take_bit_int_eq_self split: if_splits)

lemma bind_int_range:
  "(\<exists>w. bind_int x = Inr w) \<longleftrightarrow> - (2 ^ 63) \<le> x \<and> x < 2 ^ 63"
  by (simp add: bind_int_def)

lemma bind_int_of_sint [simp]: "bind_int (sint w) = Inr w"
proof -
  have "- (2 ^ 63) \<le> sint w" and "sint w < 2 ^ 63"
    using sint_ge [of w] sint_lt [of w] by simp_all
  then show ?thesis by (simp add: bind_int_def)
qed

text \<open>The decimal rendering of a stored INTEGER is within \<open>int\<close>'s digit limit.\<close>

lemma sint_within_digit_limit: "nat \<bar>sint (w :: sqlint)\<bar> < 10 ^ int_max_str_digits"
proof -
  have "\<bar>sint w\<bar> \<le> 2 ^ 63"
    using sint_ge [of w] sint_lt [of w] by simp
  also have "(2 :: int) ^ 63 < 10 ^ 19" by simp
  also have "(10 :: int) ^ 19 \<le> 10 ^ int_max_str_digits"
    by (rule power_increasing) (simp_all add: int_max_str_digits_def)
  finally have "\<bar>sint w\<bar> < 10 ^ int_max_str_digits" .
  then show ?thesis by (simp add: nat_less_iff)
qed

text \<open>An insert into one table keeps the invariant of the database.\<close>

lemma db_inv_insert:
  assumes "db_inv d"
  shows "table_insert r1 (patients d) = Inr (i, t1) \<Longrightarrow> db_inv (d\<lparr>patients := t1\<rparr>)"
    and "table_insert r2 (doctors d) = Inr (i, t2) \<Longrightarrow> db_inv (d\<lparr>doctors := t2\<rparr>)"
    and "table_insert r3 (appointments d) = Inr (i, t3) \<Longrightarrow> db_inv (d\<lparr>appointments := t3\<rparr>)"
    and "table_insert r4 (users d) = Inr (i, t4) \<Longrightarrow> db_inv (d\<lparr>users := t4\<rparr>)"
  using assms table_insert_inv by (auto simp: db_inv_def)

lemma db_inv_empty [table_simps]: "db_inv empty_db"
  by (simp add: db_inv_def empty_db_def table_inv_empty)

lemma setup_database_users:
  assumes "setup_database f = Inr d" shows "rows (users d) \<noteq> []"
proof (cases "rows (users (case f of None \<Rightarrow> empty_db | Some d \<Rightarrow> d)) = []")
  case True
  with assms obtain i u where ins: "table_insert admin_user (users (case f of None \<Rightarrow> empty_db | Some d \<Rightarrow> d)) = Inr (i, u)"
    and d: "d = (case f of None \<Rightarrow> empty_db | Some d \<Rightarrow> d)\<lparr>users := u\<rparr>"
    by (auto simp: setup_database_def Let_def split: sum.splits)
  from table_insert_result [OF ins] d show ?thesis by simp
next
  case False
  with assms show ?thesis by (simp add: setup_database_def Let_def)
qed

text \<open>C23. \<open>setup_database\<close> leaves a credential in every database it accepts and
  is idempotent: run on the database it produced (the next start of the program) it
  changes nothing; and its first run on no file creates the empty tables and the single
  user \<open>admin\<close>/\<open>admin\<close> with id 1.\<close>

theorem setup_database_idempotent:
  assumes "setup_database f = Inr d"
  shows "rows (users d) \<noteq> [] \<and> setup_database (Some d) = Inr d \<and>
         (f = None \<longrightarrow> d = empty_db\<lparr>users := \<lparr>rows = [(1, admin_user)], seq = 1\<rparr>\<rparr>)"
proof (intro conjI impI)
  show ne: "rows (users d) \<noteq> []" using assms by (rule setup_database_users)
  then show "setup_database (Some d) = Inr d" by (simp add: setup_database_def)
  assume "f = None"
  with assms show "d = empty_db\<lparr>users := \<lparr>rows = [(1, admin_user)], seq = 1\<rparr>\<rparr>"
    by (simp add: setup_database_def table_simps table_insert_def)
qed

theorem setup_database_idempotent_witness:
  "rows (users (empty_db\<lparr>users := \<lparr>rows = [(1, admin_user)], seq = 1\<rparr>\<rparr>)) \<noteq> [] \<and>
   setup_database (Some (empty_db\<lparr>users := \<lparr>rows = [(1, admin_user)], seq = 1\<rparr>\<rparr>)) =
     Inr (empty_db\<lparr>users := \<lparr>rows = [(1, admin_user)], seq = 1\<rparr>\<rparr>)"
proof -
  have s: "setup_database None = Inr (empty_db\<lparr>users := \<lparr>rows = [(1, admin_user)], seq = 1\<rparr>\<rparr>)"
    by (simp add: setup_database_def table_simps table_insert_def)
  show ?thesis using setup_database_idempotent [OF s] by simp
qed

end
