(* ===== verification/Like.thy ===== *)
theory Like
  imports Prelude "HOL-Library.Sublist"
begin

text \<open>
  SQLite's \<open>LIKE\<close> operator as \<open>perform_search\<close> uses it
  (src/programa_hospital.py, line 835: \<open>name LIKE ?\<close> with the parameter
  \<open>'%' + search_term + '%'\<close>). With the default build (no ICU, \<open>case_sensitive_like\<close>
  off, no \<open>ESCAPE\<close> clause): \<open>%\<close> matches any sequence, \<open>_\<close> any one character,
  and other characters match up to ASCII case. A pattern longer than
  \<open>SQLITE_MAX_LIKE_PATTERN_LENGTH\<close> (50000 bytes of UTF-8) is refused with
  "LIKE or GLOB pattern too complex".
\<close>

section \<open>Definitions\<close>

definition ascii_lower :: "char \<Rightarrow> char" where
  "ascii_lower c = (let n = (of_char c :: nat) in if 65 \<le> n \<and> n \<le> 90 then char_of (n + 32) else c)"

fun like_match :: "string \<Rightarrow> string \<Rightarrow> bool" where
  "like_match [] s = (s = [])"
| "like_match (p # ps) s =
     (if p = CHR ''%'' then
        like_match ps s \<or> (case s of [] \<Rightarrow> False | c # cs \<Rightarrow> like_match (p # ps) cs)
      else
        (case s of
           [] \<Rightarrow> False
         | c # cs \<Rightarrow> (p = CHR ''_'' \<or> ascii_lower p = ascii_lower c) \<and> like_match ps cs))"

text \<open>The UTF-8 length of a string of code points below 256.\<close>

definition utf8_length :: "string \<Rightarrow> nat" where
  "utf8_length s = sum_list (map (\<lambda>c. if (of_char c :: nat) < 128 then 1 else 2) s)"

definition like_pattern_limit :: nat where
  "like_pattern_limit = 50000"

text \<open>\<open>None\<close>: the statement fails because the pattern is too long.\<close>

definition sql_like :: "string \<Rightarrow> string \<Rightarrow> bool option" where
  "sql_like s pat = (if like_pattern_limit < utf8_length pat then None else Some (like_match pat s))"

definition wildcard_free :: "string \<Rightarrow> bool" where
  "wildcard_free t = (CHR ''%'' \<notin> set t \<and> CHR ''_'' \<notin> set t)"

section \<open>Lemmas\<close>

lemma like_match_percent [simp]: "like_match [CHR ''%''] s"
  by (induction s) auto

lemma like_match_literal_prefix:
  "wildcard_free t \<Longrightarrow>
   like_match (t @ [CHR ''%'']) s = prefix (map ascii_lower t) (map ascii_lower s)"
proof (induction t arbitrary: s)
  case Nil
  show ?case by (simp del: like_match.simps(2))
next
  case (Cons p t)
  then show ?case by (cases s) (auto simp: wildcard_free_def)
qed

lemma like_match_leading_percent:
  "like_match (CHR ''%'' # q) s = (\<exists>u. suffix u s \<and> like_match q u)"
proof (induction s)
  case Nil
  then show ?case by simp
next
  case (Cons c s)
  then show ?case by (auto simp: suffix_Cons)
qed

lemma sublist_as_suffix_prefix:
  "sublist xs ys = (\<exists>u. suffix u ys \<and> prefix xs u)"
  by (auto simp: sublist_def suffix_def prefix_def)

lemma suffix_map_iff:
  "suffix v (map f s) = (\<exists>u. suffix u s \<and> v = map f u)"
  by (auto simp: suffix_def map_eq_append_conv)

text \<open>Without wildcards in the term, \<open>'%' + t + '%'\<close> is a substring test up to
  ASCII case.\<close>

lemma like_substring:
  assumes "wildcard_free t"
  shows "like_match (CHR ''%'' # t @ [CHR ''%'']) s = sublist (map ascii_lower t) (map ascii_lower s)"
proof -
  have "like_match (CHR ''%'' # t @ [CHR ''%'']) s = (\<exists>u. suffix u s \<and> like_match (t @ [CHR ''%'']) u)"
    by (rule like_match_leading_percent)
  also have "\<dots> = (\<exists>u. suffix u s \<and> prefix (map ascii_lower t) (map ascii_lower u))"
    using assms by (simp add: like_match_literal_prefix)
  also have "\<dots> = sublist (map ascii_lower t) (map ascii_lower s)"
    by (auto simp: sublist_as_suffix_prefix suffix_map_iff)
  finally show ?thesis .
qed

text \<open>A pattern with \<open>_\<close> but no \<open>%\<close> inside: the name has a segment
  the pattern matches character by character.\<close>

lemma like_match_prefix_percent:
  "CHR ''%'' \<notin> set t \<Longrightarrow>
   like_match (t @ [CHR ''%'']) s =
     (\<exists>u. prefix u s \<and> list_all2 (\<lambda>p c. p = CHR ''_'' \<or> ascii_lower p = ascii_lower c) t u)"
proof (induction t arbitrary: s)
  case Nil
  show ?case by (simp del: like_match.simps(2))
next
  case (Cons p t)
  note IH = Cons.IH and pct = Cons.prems
  then have p: "p \<noteq> CHR ''%''" and t: "CHR ''%'' \<notin> set t" by auto
  show ?case
  proof (cases s)
    case Nil
    with p show ?thesis by simp
  next
    case (Cons c s')
    have "like_match ((p # t) @ [CHR ''%'']) s =
          ((p = CHR ''_'' \<or> ascii_lower p = ascii_lower c) \<and> like_match (t @ [CHR ''%'']) s')"
      using p Cons by simp
    also have "\<dots> = ((p = CHR ''_'' \<or> ascii_lower p = ascii_lower c) \<and>
        (\<exists>u. prefix u s' \<and> list_all2 (\<lambda>p c. p = CHR ''_'' \<or> ascii_lower p = ascii_lower c) t u))"
      using IH [OF t] by simp
    also have "\<dots> = (\<exists>u. prefix u s \<and>
        list_all2 (\<lambda>p c. p = CHR ''_'' \<or> ascii_lower p = ascii_lower c) (p # t) u)"
    proof
      assume "(p = CHR ''_'' \<or> ascii_lower p = ascii_lower c) \<and>
        (\<exists>u. prefix u s' \<and> list_all2 (\<lambda>p c. p = CHR ''_'' \<or> ascii_lower p = ascii_lower c) t u)"
      then obtain u where "p = CHR ''_'' \<or> ascii_lower p = ascii_lower c" "prefix u s'"
        "list_all2 (\<lambda>p c. p = CHR ''_'' \<or> ascii_lower p = ascii_lower c) t u" by blast
      with Cons show "\<exists>u. prefix u s \<and>
          list_all2 (\<lambda>p c. p = CHR ''_'' \<or> ascii_lower p = ascii_lower c) (p # t) u"
        by (intro exI [of _ "c # u"]) simp
    next
      assume "\<exists>u. prefix u s \<and> list_all2 (\<lambda>p c. p = CHR ''_'' \<or> ascii_lower p = ascii_lower c) (p # t) u"
      then obtain z zs where "prefix (z # zs) s" "p = CHR ''_'' \<or> ascii_lower p = ascii_lower z"
        "list_all2 (\<lambda>p c. p = CHR ''_'' \<or> ascii_lower p = ascii_lower c) t zs"
        by (auto simp: list_all2_Cons1)
      with Cons show "(p = CHR ''_'' \<or> ascii_lower p = ascii_lower c) \<and>
          (\<exists>u. prefix u s' \<and> list_all2 (\<lambda>p c. p = CHR ''_'' \<or> ascii_lower p = ascii_lower c) t u)"
        by auto
    qed
    finally show ?thesis .
  qed
qed

lemma like_search_pattern:
  assumes "CHR ''%'' \<notin> set t"
  shows "like_match (CHR ''%'' # t @ [CHR ''%'']) s =
           (\<exists>u. sublist u s \<and> list_all2 (\<lambda>p c. p = CHR ''_'' \<or> ascii_lower p = ascii_lower c) t u)"
  unfolding like_match_leading_percent like_match_prefix_percent [OF assms] sublist_as_suffix_prefix
  by (auto intro: prefix_order.trans)

text \<open>The pattern of an empty search term matches every name.\<close>

lemma like_match_percent_percent [simp]: "like_match [CHR ''%'', CHR ''%''] s"
  by (metis like_match_leading_percent like_match_percent suffix_order.refl)

end
