(* ===== verification/Patients.thy ===== *)
theory Patients
  imports Store Like
begin

text \<open>
  The patient forms of src/programa_hospital.py: \<open>register_patient.save_patient\<close>
  (lines 240--263), \<open>edit_patient\<close> and its \<open>update_patient\<close> (lines 522--564),
  \<open>view_patients\<close> with its \<open>delete_patient\<close> (lines 472--506; the search window's
  \<open>delete_patient_search\<close>, lines 892--909, is the same code) and
  \<open>search_patients.perform_search\<close> (lines 828--844). Each callback takes the texts
  of its entries and the database, and returns the new database or the outcome that
  ends it.
\<close>

section \<open>Definitions\<close>

text \<open>The checks \<open>save_patient\<close> (lines 241--254) and \<open>update_patient\<close>
  (lines 524--537) both make: strip the four entries, require them non-empty, and
  read the age with \<open>int\<close>.\<close>

definition patient_fields ::
  "string \<Rightarrow> string \<Rightarrow> string \<Rightarrow> string \<Rightarrow> hosp_error + (string \<times> int \<times> string \<times> string)" where
  "patient_fields name age address contact =
     (let name = py_strip name; age = py_strip age;
          address = py_strip address; contact = py_strip contact
      in if name = [] \<or> age = [] \<or> address = [] \<or> contact = [] then Inl MissingFields
         else (case py_int age of
                 None \<Rightarrow> Inl AgeNotNumber
               | Some a \<Rightarrow> Inr (name, a, address, contact)))"

definition make_patient :: "string \<Rightarrow> sqlint \<Rightarrow> string \<Rightarrow> string \<Rightarrow> patient" where
  "make_patient n w ad c =
     \<lparr>patient_name = n, patient_age = w, patient_address = ad, patient_contact = c\<rparr>"

text \<open>\<open>save_patient\<close>: the \<open>INSERT\<close> is outside any \<open>try\<close>, so its exceptions
  escape the callback.\<close>

definition save_patient :: "string \<Rightarrow> string \<Rightarrow> string \<Rightarrow> string \<Rightarrow> db \<Rightarrow> hosp_error + db" where
  "save_patient name age address contact d =
     (case patient_fields name age address contact of
        Inl e \<Rightarrow> Inl e
      | Inr (n, a, ad, c) \<Rightarrow>
          (case bind_int a of
             Inl e \<Rightarrow> Inl (Raised e)
           | Inr w \<Rightarrow>
               (case table_insert (make_patient n w ad c) (patients d) of
                  Inl e \<Rightarrow> Inl (Raised e)
                | Inr (_, t) \<Rightarrow> Inr (d\<lparr>patients := t\<rparr>))))"

text \<open>\<open>edit_patient\<close> opens its form only for an id the \<open>SELECT\<close> finds, and fills
  the entries with the stored values (Tk renders the integer age with \<open>str\<close>).\<close>

definition edit_patient :: "rowid \<Rightarrow> db \<Rightarrow> hosp_error + (string \<times> string \<times> string \<times> string)" where
  "edit_patient pid d =
     (case table_lookup (patients d) pid of
        None \<Rightarrow> Inl PatientNotFound
      | Some p \<Rightarrow> Inr (patient_name p, py_str_int (sint (patient_age p)),
                       patient_address p, patient_contact p))"

text \<open>\<open>update_patient\<close>: the \<open>UPDATE\<close> is inside \<open>try\<close>; it overwrites the four
  columns of the row with the form's id, and changes nothing if there is none.\<close>

definition update_patient ::
  "rowid \<Rightarrow> string \<Rightarrow> string \<Rightarrow> string \<Rightarrow> string \<Rightarrow> db \<Rightarrow> hosp_error + db" where
  "update_patient pid name age address contact d =
     (case patient_fields name age address contact of
        Inl e \<Rightarrow> Inl e
      | Inr (n, a, ad, c) \<Rightarrow>
          (case bind_int a of
             Inl e \<Rightarrow> Inl (Reported e)
           | Inr w \<Rightarrow>
               Inr (d\<lparr>patients := table_update pid (\<lambda>_. make_patient n w ad c) (patients d)\<rparr>)))"

text \<open>\<open>delete_patient\<close>: the selected row of the list (if any) and the answer to the
  confirmation dialog.\<close>

definition delete_patient :: "rowid option \<Rightarrow> bool \<Rightarrow> db \<Rightarrow> hosp_error + db" where
  "delete_patient sel confirm d =
     (case sel of
        None \<Rightarrow> Inl NoSelection
      | Some pid \<Rightarrow> if confirm then Inr (d\<lparr>patients := table_delete pid (patients d)\<rparr>) else Inr d)"

text \<open>\<open>SELECT * FROM patients\<close>: the rows the list shows.\<close>

definition view_patients :: "db \<Rightarrow> patient keyed list" where
  "view_patients d = rows (patients d)"

text \<open>\<open>perform_search\<close>: \<open>LIKE\<close> is evaluated row by row, so a pattern over the
  length limit fails only when there is a row to test.\<close>

definition perform_search :: "string \<Rightarrow> db \<Rightarrow> hosp_error + patient keyed list" where
  "perform_search term d =
     (let pat = CHR ''%'' # py_strip term @ [CHR ''%'']; ps = rows (patients d)
      in if ps \<noteq> [] \<and> like_pattern_limit < utf8_length pat then Inl (Raised PatternTooComplex)
         else Inr (filter (\<lambda>(k, p). like_match pat (patient_name p)) ps))"

text \<open>A patient row as the forms write it: every text field stripped and non-empty.\<close>

definition patient_row_ok :: "patient \<Rightarrow> bool" where
  "patient_row_ok p =
     (patient_name p \<noteq> [] \<and> py_strip (patient_name p) = patient_name p
      \<and> patient_address p \<noteq> [] \<and> py_strip (patient_address p) = patient_address p
      \<and> patient_contact p \<noteq> [] \<and> py_strip (patient_contact p) = patient_contact p)"

section \<open>Lemmas\<close>

lemma patient_fields_Inr:
  "py_strip name \<noteq> [] \<Longrightarrow> py_strip address \<noteq> [] \<Longrightarrow> py_strip contact \<noteq> [] \<Longrightarrow>
   py_int age = Some a \<Longrightarrow>
   patient_fields name age address contact = Inr (py_strip name, a, py_strip address, py_strip contact)"
  by (auto simp: patient_fields_def Let_def dest: py_int_nonempty)

lemma patient_fields_Inr_iff:
  "patient_fields name age address contact = Inr (n, a, ad, c) \<longleftrightarrow>
   n = py_strip name \<and> ad = py_strip address \<and> c = py_strip contact \<and>
   n \<noteq> [] \<and> ad \<noteq> [] \<and> c \<noteq> [] \<and> py_int age = Some a"
  by (auto simp: patient_fields_def Let_def dest: py_int_nonempty split: option.splits)

lemma make_patient_eta [simp]:
  "make_patient (patient_name p) (patient_age p) (patient_address p) (patient_contact p) = p"
  by (simp add: make_patient_def)

subsection \<open>Shared facts of the patient callbacks\<close>

lemma save_patient_Inr:
  "save_patient name age address contact d = Inr d' \<Longrightarrow>
   \<exists>n a ad c w i. patient_fields name age address contact = Inr (n, a, ad, c) \<and> bind_int a = Inr w \<and>
     table_insert (make_patient n w ad c) (patients d) = Inr (i, patients d') \<and>
     d' = d\<lparr>patients := patients d'\<rparr>"
  by (auto simp: save_patient_def split: sum.splits prod.splits)

lemma save_patient_db_inv:
  assumes "db_inv d" and "save_patient name age address contact d = Inr d'"
  shows "db_inv d'"
proof -
  from save_patient_Inr [OF assms(2)] obtain p i where
    "table_insert p (patients d) = Inr (i, patients d')" and d': "d' = d\<lparr>patients := patients d'\<rparr>"
    by blast
  with db_inv_insert(1) [OF assms(1)] show ?thesis by metis
qed

lemma update_patient_db_inv:
  "db_inv d \<Longrightarrow> update_patient pid name age address contact d = Inr d' \<Longrightarrow> db_inv d'"
  by (auto simp: update_patient_def db_inv_def table_update_inv split: sum.splits prod.splits)

lemma delete_patient_db_inv:
  "db_inv d \<Longrightarrow> delete_patient sel confirm d = Inr d' \<Longrightarrow> db_inv d'"
  by (auto simp: delete_patient_def db_inv_def table_delete_inv split: option.splits if_splits)

lemma utf8_length_append [simp]: "utf8_length (xs @ ys) = utf8_length xs + utf8_length ys"
  by (simp add: utf8_length_def)

lemma save_patient_valid:
  assumes "db_inv d"
    and "py_strip name \<noteq> []" "py_strip address \<noteq> []" "py_strip contact \<noteq> []"
    and "py_int age = Some a" "- (2 ^ 63) \<le> a" "a < 2 ^ 63"
  shows "save_patient name age address contact d =
           (if seq (patients d) = max_rowid then Inl (Raised SqliteFull)
            else Inr (d\<lparr>patients := \<lparr>rows = rows (patients d) @
                   [(Suc (seq (patients d)),
                     make_patient (py_strip name) (word_of_int a) (py_strip address) (py_strip contact))],
                  seq = Suc (seq (patients d))\<rparr>\<rparr>))"
proof -
  from assms(1) have inv: "table_inv (patients d)" by (simp add: db_inv_def)
  from assms(2-5) have "patient_fields name age address contact =
      Inr (py_strip name, a, py_strip address, py_strip contact)"
    by (rule patient_fields_Inr)
  moreover from assms(6,7) have "bind_int a = Inr (word_of_int a)" by (simp add: bind_int_def)
  ultimately show ?thesis by (simp add: save_patient_def table_insert_eq [OF inv])
qed

subsection \<open>Properties\<close>

text \<open>C1. Registering a patient whose four entries are non-empty after stripping and
  whose age reads as an integer of 64 bits appends one row at the end of the
  \<open>patients\<close> list, with the next rowid of the table's sequence and the stripped
  texts; the other tables are unchanged.\<close>

theorem save_patient_inserts:
  assumes "db_inv d"
    and "py_strip name \<noteq> []" "py_strip address \<noteq> []" "py_strip contact \<noteq> []"
    and "py_int age = Some a" "- (2 ^ 63) \<le> a" "a < 2 ^ 63"
    and "seq (patients d) \<noteq> max_rowid"
  shows "save_patient name age address contact d =
           Inr (d\<lparr>patients := \<lparr>rows = view_patients d @
                   [(Suc (seq (patients d)),
                     make_patient (py_strip name) (word_of_int a) (py_strip address) (py_strip contact))],
                  seq = Suc (seq (patients d))\<rparr>\<rparr>)"
  using save_patient_valid [OF assms(1-7)] assms(8) by (simp add: view_patients_def)

theorem save_patient_inserts_witness:
  "save_patient '' Ana '' ''30'' ''Rua A'' ''555'' empty_db =
     Inr (empty_db\<lparr>patients := \<lparr>rows = [(1, make_patient ''Ana'' 30 ''Rua A'' ''555'')], seq = 1\<rparr>\<rparr>)"
  using save_patient_inserts [OF db_inv_empty, of "'' Ana ''" "''Rua A''" "''555''" "''30''" 30]
  by (simp add: py_simps table_simps view_patients_def)

text \<open>C2. Registering a patient whose age is not an integer literal is refused with the
  dialog "A idade deve ser um numero" and inserts nothing.\<close>

theorem save_patient_rejects_age:
  assumes "py_strip name \<noteq> []" "py_strip age \<noteq> []" "py_strip address \<noteq> []" "py_strip contact \<noteq> []"
    and "py_int age = None"
  shows "save_patient name age address contact d = Inl AgeNotNumber"
  using assms by (simp add: save_patient_def patient_fields_def Let_def)

theorem save_patient_rejects_age_witness:
  "save_patient ''Ana'' ''trinta'' ''Rua A'' ''555'' empty_db = Inl AgeNotNumber"
  using save_patient_rejects_age [of "''Ana''" "''trinta''" "''Rua A''" "''555''" empty_db]
  by (simp add: py_simps)

text \<open>C3. An age that \<open>int\<close> accepts but that does not fit a 64-bit INTEGER makes the
  \<open>INSERT\<close> raise \<open>OverflowError\<close>, which escapes \<open>save_patient\<close>: nothing is
  inserted and no dialog is shown.\<close>

theorem save_patient_age_overflow:
  assumes "py_strip name \<noteq> []" "py_strip address \<noteq> []" "py_strip contact \<noteq> []"
    and "py_int age = Some a" "\<not> (- (2 ^ 63) \<le> a \<and> a < 2 ^ 63)"
  shows "save_patient name age address contact d = Inl (Raised IntOverflow)"
proof -
  from assms(5) have "bind_int a = Inl IntOverflow" by (simp add: bind_int_def)
  with assms(1-4) show ?thesis by (simp add: save_patient_def patient_fields_Inr)
qed

theorem save_patient_age_overflow_witness:
  "save_patient ''Ana'' ''9223372036854775808'' ''Rua A'' ''555'' empty_db = Inl (Raised IntOverflow)"
  using save_patient_age_overflow [of "''Ana''" "''Rua A''" "''555''" "''9223372036854775808''"
      9223372036854775808 empty_db]
  by (simp add: py_simps)

text \<open>C4. Opening the edit form of a stored patient and saving it unchanged writes the
  same row back: the form shows the stored texts and \<open>str\<close> of the age, and
  \<open>update_patient\<close> reads them back to the stored values.\<close>

theorem edit_update_roundtrip:
  assumes "db_inv d" and "table_lookup (patients d) pid = Some p" and "patient_row_ok p"
  shows "\<exists>n a ad c. edit_patient pid d = Inr (n, a, ad, c) \<and> update_patient pid n a ad c d = Inr d"
proof -
  from assms(1) have inv: "table_inv (patients d)" by (simp add: db_inv_def)
  let ?n = "patient_name p" and ?a = "py_str_int (sint (patient_age p))"
    and ?ad = "patient_address p" and ?c = "patient_contact p"
  have e: "edit_patient pid d = Inr (?n, ?a, ?ad, ?c)"
    using assms(2) by (simp add: edit_patient_def)
  have f: "patient_fields ?n ?a ?ad ?c = Inr (?n, sint (patient_age p), ?ad, ?c)"
    using assms(3) unfolding patient_fields_Inr_iff patient_row_ok_def
    by (simp only: py_int_str [OF sint_within_digit_limit] simp_thms)
  have b: "bind_int (sint (patient_age p)) = Inr (patient_age p)"
    by (rule bind_int_of_sint)
  have u: "table_update pid (\<lambda>_. make_patient ?n (patient_age p) ?ad ?c) (patients d) = patients d"
    using table_update_same [OF inv assms(2)] by (simp only: make_patient_eta)
  have "update_patient pid ?n ?a ?ad ?c d = Inr d"
    by (simp only: update_patient_def f b u sum.case prod.case) simp
  with e show ?thesis by blast
qed

theorem edit_update_roundtrip_witness:
  "\<exists>n a ad c. edit_patient 1 (empty_db\<lparr>patients := \<lparr>rows = [(1, make_patient ''Ana'' 30 ''Rua A'' ''555'')], seq = 1\<rparr>\<rparr>) = Inr (n, a, ad, c) \<and>
     update_patient 1 n a ad c (empty_db\<lparr>patients := \<lparr>rows = [(1, make_patient ''Ana'' 30 ''Rua A'' ''555'')], seq = 1\<rparr>\<rparr>) = Inr (empty_db\<lparr>patients := \<lparr>rows = [(1, make_patient ''Ana'' 30 ''Rua A'' ''555'')], seq = 1\<rparr>\<rparr>)"
  using edit_update_roundtrip [of "(empty_db\<lparr>patients := \<lparr>rows = [(1, make_patient ''Ana'' 30 ''Rua A'' ''555'')], seq = 1\<rparr>\<rparr>)" 1 "make_patient ''Ana'' 30 ''Rua A'' ''555''"]
  by (simp add: py_simps table_simps table_lookup_def patient_row_ok_def make_patient_def)

text \<open>C5. Saving the edit form of a patient that no longer exists (deleted from another
  window after the form was opened) reports success and changes nothing: the
  \<open>UPDATE\<close> matches no row and the code does not look at the row count.\<close>

theorem update_patient_missing_id:
  assumes "pid \<notin> table_ids (patients d)"
    and "py_strip name \<noteq> []" "py_strip address \<noteq> []" "py_strip contact \<noteq> []"
    and "py_int age = Some a" "- (2 ^ 63) \<le> a" "a < 2 ^ 63"
  shows "update_patient pid name age address contact d = Inr d"
  using assms by (simp add: update_patient_def patient_fields_Inr bind_int_def table_update_absent)

theorem update_patient_missing_id_witness:
  "update_patient 7 ''Ana'' ''30'' ''Rua A'' ''555'' empty_db = Inr empty_db"
  using update_patient_missing_id [of 7 empty_db "''Ana''" "''Rua A''" "''555''" "''30''" 30]
  by (simp add: py_simps table_simps table_ids_def)

text \<open>C6. Searching with a term free of the \<open>LIKE\<close> wildcards returns, in rowid order,
  the patients whose name contains the stripped term up to ASCII case.\<close>

theorem perform_search_substring:
  assumes "wildcard_free (py_strip term)" and "utf8_length (py_strip term) + 2 \<le> like_pattern_limit"
  shows "perform_search term d =
           Inr (filter (\<lambda>(k, p). sublist (map ascii_lower (py_strip term)) (map ascii_lower (patient_name p)))
                  (view_patients d))"
proof -
  have "utf8_length (CHR ''%'' # py_strip term @ [CHR ''%'']) = utf8_length (py_strip term) + 2"
    by (simp add: utf8_length_def)
  then have "\<not> like_pattern_limit < utf8_length (CHR ''%'' # py_strip term @ [CHR ''%''])"
    using assms(2) by simp
  then show ?thesis
    using like_substring [OF assms(1)] by (simp add: perform_search_def view_patients_def)
qed


theorem perform_search_substring_witness:
  "perform_search '' ANA '' (empty_db\<lparr>patients := \<lparr>rows = [(1, make_patient ''Mariana'' 30 ''Rua A'' ''555''), (2, make_patient ''Jose'' 40 ''Rua B'' ''556'')], seq = 2\<rparr>\<rparr>) = Inr [(1, make_patient ''Mariana'' 30 ''Rua A'' ''555'')]"
  using perform_search_substring [of "'' ANA ''" "(empty_db\<lparr>patients := \<lparr>rows = [(1, make_patient ''Mariana'' 30 ''Rua A'' ''555''), (2, make_patient ''Jose'' 40 ''Rua B'' ''556'')], seq = 2\<rparr>\<rparr>)"]
  by (simp add: py_simps wildcard_free_def utf8_length_def like_pattern_limit_def
      view_patients_def make_patient_def ascii_lower_def sublist_code prefix_code char_of_def bit_0)

text \<open>C22. The search term goes into the pattern unescaped, so \<open>_\<close> in it is the
  \<open>LIKE\<close> wildcard for one character: for a term without \<open>%\<close>, the search
  returns, in rowid order, the patients whose name has a segment the stripped term
  matches character by character, \<open>_\<close> matching any character and every other
  character matching up to ASCII case. So \<open>a_a\<close> finds Ana.\<close>

theorem perform_search_underscore:
  assumes "CHR ''%'' \<notin> set (py_strip term)" and "utf8_length (py_strip term) + 2 \<le> like_pattern_limit"
  shows "perform_search term d =
           Inr (filter (\<lambda>(k, p). \<exists>u. sublist u (patient_name p) \<and>
                          list_all2 (\<lambda>q c. q = CHR ''_'' \<or> ascii_lower q = ascii_lower c) (py_strip term) u)
                  (view_patients d))"
proof -
  have "utf8_length (CHR ''%'' # py_strip term @ [CHR ''%'']) = utf8_length (py_strip term) + 2"
    by (simp add: utf8_length_def)
  then have "\<not> like_pattern_limit < utf8_length (CHR ''%'' # py_strip term @ [CHR ''%''])"
    using assms(2) by simp
  then show ?thesis
    using like_search_pattern [OF assms(1)] by (simp add: perform_search_def view_patients_def)
qed

theorem perform_search_underscore_witness:
  "perform_search ''a_a'' (empty_db\<lparr>patients := \<lparr>rows = [(1, make_patient ''Ana'' 30 ''Rua A'' ''555''), (2, make_patient ''Bo'' 41 ''Rua B'' ''556'')], seq = 2\<rparr>\<rparr>) =
     Inr [(1, make_patient ''Ana'' 30 ''Rua A'' ''555'')]"
proof -
  have "\<exists>u. sublist u ''Ana'' \<and> list_all2 (\<lambda>q c. q = CHR ''_'' \<or> ascii_lower q = ascii_lower c) ''a_a'' u"
    by (rule exI [of _ "''Ana''"]) (simp add: ascii_lower_def char_of_def bit_0)
  moreover have "\<not> (\<exists>u. sublist u ''Bo'' \<and> list_all2 (\<lambda>q c. q = CHR ''_'' \<or> ascii_lower q = ascii_lower c) ''a_a'' u)"
    by (auto dest!: list_all2_lengthD sublist_length_le)
  ultimately show ?thesis
    using perform_search_underscore [of "''a_a''" "empty_db\<lparr>patients := \<lparr>rows = [(1, make_patient ''Ana'' 30 ''Rua A'' ''555''), (2, make_patient ''Bo'' 41 ''Rua B'' ''556'')], seq = 2\<rparr>\<rparr>"]
    by (simp add: py_simps utf8_length_def like_pattern_limit_def view_patients_def make_patient_def)
qed

text \<open>C26. In the edit form the same 64-bit overflow is caught: \<open>update_patient\<close>
  runs its \<open>UPDATE\<close> inside \<open>try\<close>, so an age outside the 64-bit range ends in the
  error dialog and changes nothing, where \<open>save_patient\<close> lets the exception escape.\<close>

theorem update_patient_age_overflow:
  assumes "py_strip name \<noteq> []" "py_strip address \<noteq> []" "py_strip contact \<noteq> []"
    and "py_int age = Some a" "\<not> (- (2 ^ 63) \<le> a \<and> a < 2 ^ 63)"
  shows "update_patient pid name age address contact d = Inl (Reported IntOverflow)"
proof -
  from assms(5) have "bind_int a = Inl IntOverflow" by (simp add: bind_int_def)
  with assms(1-4) show ?thesis by (simp add: update_patient_def patient_fields_Inr)
qed

theorem update_patient_age_overflow_witness:
  "update_patient 1 ''Ana'' ''-9223372036854775809'' ''Rua A'' ''555'' empty_db = Inl (Reported IntOverflow)"
  using update_patient_age_overflow [of "''Ana''" "''Rua A''" "''555''" "''-9223372036854775809''"
      "-9223372036854775809" 1 empty_db]
  by (simp add: py_simps)

end
