(* ===== verification/Doctors.thy ===== *)
theory Doctors
  imports Store
begin

text \<open>
  The doctor forms of src/programa_hospital.py: \<open>register_doctor.save_doctor\<close>
  (lines 299--315), the first \<open>view_doctors\<close> with its \<open>delete_doctor\<close>
  (lines 603--677), \<open>edit_doctor\<close> and its \<open>update_doctor\<close> (lines 680--747), and
  the second \<open>view_doctors\<close> (lines 925--928), whose body is \<open>pass\<close>. Python binds
  the module-level name \<open>view_doctors\<close> to the last \<open>def\<close>, so every call of
  \<open>view_doctors\<close> made while the program runs (the menu entry, the main window's
  button, and the refresh at the end of \<open>update_doctor\<close>) runs the second one.
\<close>

section \<open>Definitions\<close>

text \<open>The checks of \<open>save_doctor\<close> (lines 300--306), repeated in \<open>update_doctor\<close>
  (lines 682--688): strip the three entries and require them non-empty.\<close>

definition doctor_fields :: "string \<Rightarrow> string \<Rightarrow> string \<Rightarrow> hosp_error + (string \<times> string \<times> string)" where
  "doctor_fields name specialty schedule =
     (let name = py_strip name; specialty = py_strip specialty; schedule = py_strip schedule
      in if name = [] \<or> specialty = [] \<or> schedule = [] then Inl MissingFields
         else Inr (name, specialty, schedule))"

definition make_doctor :: "string \<Rightarrow> string \<Rightarrow> string \<Rightarrow> doctor" where
  "make_doctor n sp sc = \<lparr>doctor_name = n, doctor_specialty = sp, doctor_schedule = sc\<rparr>"

text \<open>\<open>save_doctor\<close>: the \<open>INSERT\<close> is outside any \<open>try\<close>.\<close>

definition save_doctor :: "string \<Rightarrow> string \<Rightarrow> string \<Rightarrow> db \<Rightarrow> hosp_error + db" where
  "save_doctor name specialty schedule d =
     (case doctor_fields name specialty schedule of
        Inl e \<Rightarrow> Inl e
      | Inr (n, sp, sc) \<Rightarrow>
          (case table_insert (make_doctor n sp sc) (doctors d) of
             Inl e \<Rightarrow> Inl (Raised e)
           | Inr (_, t) \<Rightarrow> Inr (d\<lparr>doctors := t\<rparr>)))"

text \<open>The first \<open>view_doctors\<close> (lines 629--635): the rows of \<open>SELECT * FROM doctors\<close>
  its list shows. It is never called: the name is rebound by the second \<open>def\<close>.\<close>

definition view_doctors_first :: "db \<Rightarrow> doctor keyed list" where
  "view_doctors_first d = rows (doctors d)"

text \<open>The \<open>view_doctors\<close> that runs (lines 925--928): it opens no window, so it shows
  no rows; \<open>None\<close> is "no list window".\<close>

definition view_doctors :: "db \<Rightarrow> doctor keyed list option" where
  "view_doctors d = None"

text \<open>\<open>delete_doctor\<close> of the first list window (lines 647--664).\<close>

definition delete_doctor :: "rowid option \<Rightarrow> bool \<Rightarrow> db \<Rightarrow> hosp_error + db" where
  "delete_doctor sel confirm d =
     (case sel of
        None \<Rightarrow> Inl NoSelection
      | Some did \<Rightarrow> if confirm then Inr (d\<lparr>doctors := table_delete did (doctors d)\<rparr>) else Inr d)"

text \<open>\<open>edit_doctor\<close> (lines 706--743): the form opens only for an id the \<open>SELECT\<close>
  finds, filled with the stored texts.\<close>

definition edit_doctor :: "rowid \<Rightarrow> db \<Rightarrow> hosp_error + (string \<times> string \<times> string)" where
  "edit_doctor did d =
     (case table_lookup (doctors d) did of
        None \<Rightarrow> Inl DoctorNotFound
      | Some doc \<Rightarrow> Inr (doctor_name doc, doctor_specialty doc, doctor_schedule doc))"

text \<open>\<open>update_doctor\<close> (lines 681--704): no parameter can overflow, so the \<open>try\<close>
  around the \<open>UPDATE\<close> never catches anything.\<close>

definition update_doctor :: "rowid \<Rightarrow> string \<Rightarrow> string \<Rightarrow> string \<Rightarrow> db \<Rightarrow> hosp_error + db" where
  "update_doctor did name specialty schedule d =
     (case doctor_fields name specialty schedule of
        Inl e \<Rightarrow> Inl e
      | Inr (n, sp, sc) \<Rightarrow>
          Inr (d\<lparr>doctors := table_update did (\<lambda>_. make_doctor n sp sc) (doctors d)\<rparr>))"

text \<open>A doctor row as the forms write it: every text field stripped and non-empty.\<close>

definition doctor_row_ok :: "doctor \<Rightarrow> bool" where
  "doctor_row_ok doc =
     (doctor_name doc \<noteq> [] \<and> py_strip (doctor_name doc) = doctor_name doc
      \<and> doctor_specialty doc \<noteq> [] \<and> py_strip (doctor_specialty doc) = doctor_specialty doc
      \<and> doctor_schedule doc \<noteq> [] \<and> py_strip (doctor_schedule doc) = doctor_schedule doc)"

section \<open>Lemmas\<close>

lemma make_doctor_eta [simp]:
  "make_doctor (doctor_name doc) (doctor_specialty doc) (doctor_schedule doc) = doc"
  by (simp add: make_doctor_def)

lemma doctor_fields_Inr_iff:
  "doctor_fields name specialty schedule = Inr (n, sp, sc) \<longleftrightarrow>
   n = py_strip name \<and> sp = py_strip specialty \<and> sc = py_strip schedule \<and>
   n \<noteq> [] \<and> sp \<noteq> [] \<and> sc \<noteq> []"
  by (auto simp: doctor_fields_def Let_def)

lemma save_doctor_Inr:
  "save_doctor name specialty schedule d = Inr d' \<Longrightarrow>
   \<exists>doc i. table_insert doc (doctors d) = Inr (i, doctors d') \<and> d' = d\<lparr>doctors := doctors d'\<rparr>"
  by (fastforce simp: save_doctor_def split: sum.splits prod.splits)

lemma save_doctor_db_inv:
  assumes "db_inv d" and "save_doctor name specialty schedule d = Inr d'"
  shows "db_inv d'"
proof -
  from save_doctor_Inr [OF assms(2)] obtain doc i where
    "table_insert doc (doctors d) = Inr (i, doctors d')" and d': "d' = d\<lparr>doctors := doctors d'\<rparr>"
    by blast
  with db_inv_insert(2) [OF assms(1)] show ?thesis by metis
qed

lemma update_doctor_db_inv:
  "db_inv d \<Longrightarrow> update_doctor did name specialty schedule d = Inr d' \<Longrightarrow> db_inv d'"
  by (auto simp: update_doctor_def db_inv_def table_update_inv split: sum.splits prod.splits)

lemma delete_doctor_db_inv:
  "db_inv d \<Longrightarrow> delete_doctor sel confirm d = Inr d' \<Longrightarrow> db_inv d'"
  by (auto simp: delete_doctor_def db_inv_def table_delete_inv split: option.splits if_splits)

text \<open>C25. Registering a doctor with three non-empty entries after stripping appends one
  row with the next id of the table's sequence and the stripped texts.\<close>

theorem save_doctor_inserts:
  assumes "db_inv d" and "py_strip name \<noteq> []" "py_strip specialty \<noteq> []" "py_strip schedule \<noteq> []"
    and "seq (doctors d) \<noteq> max_rowid"
  shows "save_doctor name specialty schedule d =
           Inr (d\<lparr>doctors := \<lparr>rows = rows (doctors d) @
                   [(Suc (seq (doctors d)), make_doctor (py_strip name) (py_strip specialty) (py_strip schedule))],
                  seq = Suc (seq (doctors d))\<rparr>\<rparr>)"
proof -
  from assms(1) have inv: "table_inv (doctors d)" by (simp add: db_inv_def)
  from assms(2-4) have "doctor_fields name specialty schedule =
      Inr (py_strip name, py_strip specialty, py_strip schedule)"
    by (simp add: doctor_fields_Inr_iff)
  with assms(5) show ?thesis by (simp add: save_doctor_def table_insert_eq [OF inv])
qed

theorem save_doctor_inserts_witness:
  "save_doctor '' Dr X '' ''Cardio'' ''8-12'' empty_db =
     Inr (empty_db\<lparr>doctors := \<lparr>rows = [(1, make_doctor ''Dr X'' ''Cardio'' ''8-12'')], seq = 1\<rparr>\<rparr>)"
  using save_doctor_inserts [OF db_inv_empty, of "'' Dr X ''" "''Cardio''" "''8-12''"]
  by (simp add: py_simps table_simps)

text \<open>C29. Opening the edit form of a stored doctor and saving it unchanged writes the
  same row back. (The form is reachable only from the first \<open>view_doctors\<close>, which
  the program never runs; see C17.)\<close>

theorem edit_update_doctor_roundtrip:
  assumes "db_inv d" and "table_lookup (doctors d) did = Some doc" and "doctor_row_ok doc"
  shows "\<exists>n sp sc. edit_doctor did d = Inr (n, sp, sc) \<and> update_doctor did n sp sc d = Inr d"
proof -
  from assms(1) have inv: "table_inv (doctors d)" by (simp add: db_inv_def)
  have e: "edit_doctor did d = Inr (doctor_name doc, doctor_specialty doc, doctor_schedule doc)"
    using assms(2) by (simp add: edit_doctor_def)
  have f: "doctor_fields (doctor_name doc) (doctor_specialty doc) (doctor_schedule doc) =
      Inr (doctor_name doc, doctor_specialty doc, doctor_schedule doc)"
    using assms(3) by (simp add: doctor_fields_Inr_iff doctor_row_ok_def)
  have u: "table_update did (\<lambda>_. make_doctor (doctor_name doc) (doctor_specialty doc) (doctor_schedule doc))
             (doctors d) = doctors d"
    using table_update_same [OF inv assms(2)] by simp
  have "update_doctor did (doctor_name doc) (doctor_specialty doc) (doctor_schedule doc) d = Inr d"
    using f u by (simp add: update_doctor_def)
  with e show ?thesis by blast
qed

theorem edit_update_doctor_roundtrip_witness:
  "\<exists>n sp sc. edit_doctor 1 (empty_db\<lparr>doctors := \<lparr>rows = [(1, make_doctor ''Dr X'' ''Cardio'' ''8-12'')], seq = 1\<rparr>\<rparr>) = Inr (n, sp, sc) \<and>
     update_doctor 1 n sp sc (empty_db\<lparr>doctors := \<lparr>rows = [(1, make_doctor ''Dr X'' ''Cardio'' ''8-12'')], seq = 1\<rparr>\<rparr>) =
       Inr (empty_db\<lparr>doctors := \<lparr>rows = [(1, make_doctor ''Dr X'' ''Cardio'' ''8-12'')], seq = 1\<rparr>\<rparr>)"
  using edit_update_doctor_roundtrip [of "empty_db\<lparr>doctors := \<lparr>rows = [(1, make_doctor ''Dr X'' ''Cardio'' ''8-12'')], seq = 1\<rparr>\<rparr>"
      1 "make_doctor ''Dr X'' ''Cardio'' ''8-12''"]
  by (simp add: table_simps table_lookup_def doctor_row_ok_def make_doctor_def py_simps)

end
