(* ===== verification/Regex.thy ===== *)
theory Regex
  imports PyStr
begin

text \<open>
  The two regular expressions of \<open>save_appointment\<close>
  (src/programa_hospital.py, lines 365 and 370) and Python's \<open>re.match\<close>, which
  anchors a match at the start of the string and accepts any suffix after it.
  The patterns use only fixed repetitions of a character class, \<open>^\<close> and \<open>$\<close>,
  so a match is a single deterministic scan: \<open>re_run\<close> below. In Python, \<open>$\<close>
  (without \<open>re.MULTILINE\<close>) matches at the end of the string and also just
  before a newline that ends it.
\<close>

section \<open>Patterns and matching\<close>

datatype re_class = Digit | Lit char

datatype re_node = Rep re_class nat | Caret | Dollar

primrec class_match :: "re_class \<Rightarrow> char \<Rightarrow> bool" where
  "class_match Digit c = is_digit c"
| "class_match (Lit d) c = (c = d)"

text \<open>\<open>re_run p at_start s\<close>: the pattern \<open>p\<close> matches a prefix of the rest \<open>s\<close>
  of the subject; \<open>at_start\<close> says that no character has been consumed yet.\<close>

fun re_run :: "re_node list \<Rightarrow> bool \<Rightarrow> string \<Rightarrow> bool" where
  "re_run [] at_start s = True"
| "re_run (Caret # p) at_start s = (at_start \<and> re_run p at_start s)"
| "re_run (Dollar # p) at_start s = ((s = [] \<or> s = [CHR 0x0A]) \<and> re_run p at_start s)"
| "re_run (Rep k 0 # p) at_start s = re_run p at_start s"
| "re_run (Rep k (Suc n) # p) at_start s =
     (case s of
        [] \<Rightarrow> False
      | c # cs \<Rightarrow> class_match k c \<and> re_run (Rep k n # p) False cs)"

definition py_re_match :: "re_node list \<Rightarrow> string \<Rightarrow> bool" where
  "py_re_match p s = re_run p True s"

text \<open>\<open>r"\d{2}/\d{2}/\d{4}"\<close> and \<open>r"^\d{2}:\d{2}$"\<close>.\<close>

definition date_pattern :: "re_node list" where
  "date_pattern = [Rep Digit 2, Rep (Lit CHR ''/'') 1, Rep Digit 2, Rep (Lit CHR ''/'') 1, Rep Digit 4]"

definition time_pattern :: "re_node list" where
  "time_pattern = [Caret, Rep Digit 2, Rep (Lit CHR '':'') 1, Rep Digit 2, Dollar]"

section \<open>Reference shapes\<close>

text \<open>A template is a list of character classes, one per character.\<close>

fun template_prefix :: "re_class list \<Rightarrow> string \<Rightarrow> bool" where
  "template_prefix [] s = True"
| "template_prefix (k # ks) [] = False"
| "template_prefix (k # ks) (c # cs) = (class_match k c \<and> template_prefix ks cs)"

definition template_exact :: "re_class list \<Rightarrow> string \<Rightarrow> bool" where
  "template_exact ks s = (length s = length ks \<and> template_prefix ks s)"

primrec expand :: "re_node list \<Rightarrow> re_class list" where
  "expand [] = []"
| "expand (n # p) = (case n of Rep k m \<Rightarrow> replicate m k @ expand p | _ \<Rightarrow> expand p)"

primrec is_rep :: "re_node \<Rightarrow> bool" where
  "is_rep (Rep k m) = True"
| "is_rep Caret = False"
| "is_rep Dollar = False"

text \<open>\<open>DD/MM/YYYY\<close> and \<open>HH:MM\<close> as templates.\<close>

definition date_template :: "re_class list" where
  "date_template = expand date_pattern"

definition time_template :: "re_class list" where
  "time_template = [Digit, Digit, Lit CHR '':'', Digit, Digit]"

section \<open>Lemmas\<close>

lemma date_template_eq [py_simps]:
  "date_template = [Digit, Digit, Lit CHR ''/'', Digit, Digit, Lit CHR ''/'', Digit, Digit, Digit, Digit]"
  by (simp add: date_template_def date_pattern_def numeral_eq_Suc)

lemma re_run_Rep:
  "re_run (Rep k n # p) st s =
     (n \<le> length s \<and> list_all (class_match k) (take n s) \<and> re_run p (st \<and> n = 0) (drop n s))"
proof (induction n arbitrary: st s)
  case 0
  then show ?case by simp
next
  case (Suc n)
  then show ?case by (cases s) auto
qed

lemma template_prefix_append:
  "template_prefix (ks @ ls) s =
     (template_prefix ks s \<and> template_prefix ls (drop (length ks) s))"
  by (induction ks s rule: template_prefix.induct) auto

lemma template_prefix_replicate:
  "template_prefix (replicate n k) s = (n \<le> length s \<and> list_all (class_match k) (take n s))"
proof (induction n arbitrary: s)
  case 0
  then show ?case by simp
next
  case (Suc n)
  then show ?case by (cases s) auto
qed

lemma template_prefix_length: "template_prefix ks s \<Longrightarrow> length ks \<le> length s"
  by (induction ks s rule: template_prefix.induct) auto

lemma template_exact_iff:
  "template_exact ks s = (template_prefix ks s \<and> drop (length ks) s = [])"
  by (auto simp: template_exact_def dest: template_prefix_length)

lemma re_run_reps:
  "list_all is_rep p \<Longrightarrow>
   re_run (p @ q) st s =
     (template_prefix (expand p) s \<and> re_run q (st \<and> expand p = []) (drop (length (expand p)) s))"
proof (induction p arbitrary: st s)
  case Nil
  then show ?case by simp
next
  case (Cons x p)
  then obtain k m where x: "x = Rep k m" by (cases x) auto
  with Cons show ?case
    by (auto simp: re_run_Rep template_prefix_append template_prefix_replicate add.commute)
qed

text \<open>The date check is a prefix match: ten characters of the shape \<open>DD/MM/YYYY\<close>
  followed by anything.\<close>

lemma date_match_iff: "py_re_match date_pattern s = template_prefix date_template s"
  using re_run_reps [of date_pattern "[]"]
  by (simp add: py_re_match_def date_template_def date_pattern_def)

text \<open>The time check accepts \<open>HH:MM\<close> and \<open>HH:MM\<close> followed by one newline.\<close>

lemma time_match_iff:
  "py_re_match time_pattern s =
     (template_prefix time_template s \<and> (drop 5 s = [] \<or> drop 5 s = [CHR 0x0A]))"
proof -
  let ?p = "[Rep Digit 2, Rep (Lit CHR '':'') 1, Rep Digit 2]"
  have "py_re_match time_pattern s = re_run (?p @ [Dollar]) True s"
    by (simp only: py_re_match_def time_pattern_def append.simps re_run.simps(2) simp_thms)
  also have "\<dots> = (template_prefix (expand ?p) s \<and>
      re_run [Dollar] (True \<and> expand ?p = []) (drop (length (expand ?p)) s))"
    by (rule re_run_reps) simp
  also have "\<dots> = (template_prefix time_template s \<and> (drop 5 s = [] \<or> drop 5 s = [CHR 0x0A]))"
    by (simp add: time_template_def numeral_eq_Suc)
  finally show ?thesis .
qed

text \<open>On a stripped string (the handler strips first) it is exactly \<open>HH:MM\<close>.\<close>

lemma time_match_stripped:
  "py_re_match time_pattern (py_strip x) = template_exact time_template (py_strip x)"
proof -
  let ?s = "py_strip x"
  have "drop 5 ?s \<noteq> [CHR 0x0A]"
  proof
    assume d: "drop 5 ?s = [CHR 0x0A]"
    then have "?s \<noteq> []" by auto
    moreover have "last ?s = CHR 0x0A"
    proof -
      from d have "length (drop 5 ?s) = 1" by (simp only: list.size)
      then have "5 < length ?s" by simp
      then have "last ?s = last (drop 5 ?s)" by (simp add: last_drop)
      with d show ?thesis by simp
    qed
    ultimately show False using py_strip_last [of x] by (simp add: py_isspace_def)
  qed
  moreover have "length time_template = 5" by (simp add: time_template_def)
  ultimately show ?thesis
    by (simp only: time_match_iff template_exact_iff) simp
qed

end
