(* ===== verification/Appointments.thy ===== *)
theory Appointments
  imports Store Regex
begin

text \<open>
  The appointment forms of src/programa_hospital.py: \<open>schedule_appointment\<close>, which
  reads the patients and doctors, fills two read-only comboboxes with the labels
  \<open>"id: name"\<close> and selects the first of each (lines 383--428), its callback
  \<open>save_appointment\<close> (lines 347--381), and \<open>view_appointments\<close> with
  \<open>delete_appointment\<close> (lines 779--811). The list of appointments is the inner join
  of \<open>appointments\<close> with \<open>patients\<close> and \<open>doctors\<close> (the same query feeds the CSV
  export, lines 82--87).
\<close>

section \<open>Definitions\<close>

text \<open>\<open>f"{patient[0]}: {patient[1]}"\<close> (lines 418 and 425).\<close>

definition option_label :: "rowid \<Rightarrow> string \<Rightarrow> string" where
  "option_label i n = py_str_int (int i) @ '': '' @ n"

text \<open>The rows of \<open>SELECT id, name FROM patients\<close> and \<open>... FROM doctors\<close>, in rowid
  order, as labels; \<open>schedule_appointment\<close> stops with an error dialog when either
  list is empty.\<close>

definition schedule_appointment :: "db \<Rightarrow> hosp_error + (string list \<times> string list)" where
  "schedule_appointment d =
     (let ps = map (\<lambda>(k, p). option_label k (patient_name p)) (rows (patients d));
          ds = map (\<lambda>(k, doc). option_label k (doctor_name doc)) (rows (doctors d))
      in if ps = [] then Inl NoPatients
         else if ds = [] then Inl NoDoctors
         else Inr (ps, ds))"

text \<open>\<open>int(selected.split(":")[0])\<close> (lines 358--359); \<open>None\<close> is the
  \<open>ValueError\<close> the \<open>except\<close> clause turns into "Selecao invalida".\<close>

definition parse_selection :: "string \<Rightarrow> int option" where
  "parse_selection s = py_int (py_split_first CHR '':'' s)"

definition make_appointment :: "sqlint \<Rightarrow> sqlint \<Rightarrow> string \<Rightarrow> string \<Rightarrow> appointment" where
  "make_appointment p doc dt tm =
     \<lparr>appt_patient_id = p, appt_doctor_id = doc, appt_date = dt, appt_time = tm\<rparr>"

text \<open>\<open>save_appointment\<close>: the two selections are the combobox texts (not stripped),
  date and time are stripped entry texts. The \<open>INSERT\<close> is outside any \<open>try\<close>.\<close>

definition save_appointment :: "string \<Rightarrow> string \<Rightarrow> string \<Rightarrow> string \<Rightarrow> db \<Rightarrow> hosp_error + db" where
  "save_appointment selected_patient selected_doctor date time d =
     (let date = py_strip date; time = py_strip time
      in if selected_patient = [] \<or> selected_doctor = [] \<or> date = [] \<or> time = [] then Inl MissingFields
         else (case (parse_selection selected_patient, parse_selection selected_doctor) of
                 (Some pid, Some did) \<Rightarrow>
                   if \<not> py_re_match date_pattern date then Inl BadDateFormat
                   else if \<not> py_re_match time_pattern time then Inl BadTimeFormat
                   else (case bind_int pid of
                           Inl e \<Rightarrow> Inl (Raised e)
                         | Inr wp \<Rightarrow>
                             (case bind_int did of
                                Inl e \<Rightarrow> Inl (Raised e)
                              | Inr wd \<Rightarrow>
                                  (case table_insert (make_appointment wp wd date time) (appointments d) of
                                     Inl e \<Rightarrow> Inl (Raised e)
                                   | Inr (_, t) \<Rightarrow> Inr (d\<lparr>appointments := t\<rparr>))))
               | _ \<Rightarrow> Inl InvalidSelection))"

text \<open>
  The join \<open>appointments JOIN patients ON patient_id = patients.id JOIN doctors ON
  doctor_id = doctors.id\<close>: an appointment yields a row exactly when both ids name
  a stored row. It is listed in rowid order of the appointments, the order of the
  plan SQLite uses for it (a scan of \<open>appointments\<close> with a rowid lookup in the two
  other tables); the statement has no \<open>ORDER BY\<close>.
\<close>

fun join_row :: "db \<Rightarrow> appointment keyed \<Rightarrow> (rowid \<times> string \<times> string \<times> string \<times> string) option" where
  "join_row d (aid, a) =
     (case Option.bind (rowid_of (appt_patient_id a)) (table_lookup (patients d)) of
        None \<Rightarrow> None
      | Some p \<Rightarrow>
          (case Option.bind (rowid_of (appt_doctor_id a)) (table_lookup (doctors d)) of
             None \<Rightarrow> None
           | Some doc \<Rightarrow> Some (aid, patient_name p, doctor_name doc, appt_date a, appt_time a)))"

definition appointment_join :: "db \<Rightarrow> (rowid \<times> string \<times> string \<times> string \<times> string) list" where
  "appointment_join d = List.map_filter (join_row d) (rows (appointments d))"

definition view_appointments :: "db \<Rightarrow> (rowid \<times> string \<times> string \<times> string \<times> string) list" where
  "view_appointments d = appointment_join d"

text \<open>\<open>delete_appointment\<close> (lines 794--811).\<close>

definition delete_appointment :: "rowid option \<Rightarrow> bool \<Rightarrow> db \<Rightarrow> hosp_error + db" where
  "delete_appointment sel confirm d =
     (case sel of
        None \<Rightarrow> Inl NoSelection
      | Some aid \<Rightarrow>
          if confirm then Inr (d\<lparr>appointments := table_delete aid (appointments d)\<rparr>) else Inr d)"

section \<open>Lemmas\<close>

declare join_row.simps [simp del]

lemma max_rowid_within_digit_limit: "i \<le> max_rowid \<Longrightarrow> i < 10 ^ int_max_str_digits"
proof -
  assume "i \<le> max_rowid"
  also have "max_rowid < 10 ^ 19" by (simp add: max_rowid_def)
  also have "(10 :: nat) ^ 19 \<le> 10 ^ int_max_str_digits"
    by (rule power_increasing) (simp_all add: int_max_str_digits_def)
  finally show ?thesis .
qed

lemma py_str_nat_no_colon: "CHR '':'' \<notin> set (py_str_nat n)"
  using py_str_nat_digits [of n] by (auto simp: list_all_iff is_digit_def)

text \<open>A combobox label reads back to its rowid.\<close>

lemma parse_option_label:
  assumes "i \<le> max_rowid"
  shows "parse_selection (option_label i n) = Some (int i)"
proof -
  have "takeWhile (\<lambda>c. c \<noteq> CHR '':'') (py_str_nat i @ '': '' @ n) = py_str_nat i"
    using py_str_nat_no_colon [of i] by (subst takeWhile_append2) auto
  then have "py_split_first CHR '':'' (option_label i n) = py_str_int (int i)"
    by (simp add: py_split_first_def option_label_def py_str_int_def)
  then show ?thesis
    using py_int_str [of "int i"] max_rowid_within_digit_limit [OF assms]
    by (simp add: parse_selection_def)
qed

lemma rowid_bind_int:
  assumes "i \<le> max_rowid"
  shows "bind_int (int i) = Inr (word_of_int (int i))" and "rowid_of (word_of_int (int i)) = Some i"
proof -
  have lt: "int i < 2 ^ 63" using assms by (simp add: max_rowid_def)
  then show "bind_int (int i) = Inr (word_of_int (int i))" by (simp add: bind_int_def)
  then have "sint (word_of_int (int i) :: sqlint) = int i" by (rule bind_int_sint)
  then show "rowid_of (word_of_int (int i)) = Some i" by (simp add: rowid_of_def)
qed

lemma date_template_nonempty: "template_prefix date_template s \<Longrightarrow> s \<noteq> []"
  by (cases s) (simp_all add: date_template_eq)

lemma time_template_nonempty: "template_exact time_template s \<Longrightarrow> s \<noteq> []"
  by (auto simp: template_exact_def time_template_def)

lemma parse_selection_nonempty: "parse_selection s = Some i \<Longrightarrow> s \<noteq> []"
  by (auto simp: parse_selection_def py_split_first_def py_simps)

lemma join_row_appointments [simp]: "join_row (d\<lparr>appointments := t\<rparr>) = join_row d"
proof
  fix x show "join_row (d\<lparr>appointments := t\<rparr>) x = join_row d x"
    by (cases x) (simp add: join_row.simps split: option.split)
qed

text \<open>The join over a new \<open>appointments\<close> table with the same patients and doctors.\<close>

lemma appointment_join_set_appointments:
  "appointment_join (d\<lparr>appointments := t\<rparr>) = List.map_filter (join_row d) (rows t)"
  by (simp add: appointment_join_def)

text \<open>When the selections parse and date and time have their shapes, the callback is
  the \<open>INSERT\<close> of the stripped texts.\<close>

lemma save_appointment_valid:
  assumes "parse_selection sp = Some pid" "parse_selection sd = Some did"
    and "template_prefix date_template (py_strip date)"
    and "template_exact time_template (py_strip time)"
    and "bind_int pid = Inr wp" "bind_int did = Inr wd"
  shows "save_appointment sp sd date time d =
           (case table_insert (make_appointment wp wd (py_strip date) (py_strip time)) (appointments d) of
              Inl e \<Rightarrow> Inl (Raised e)
            | Inr (_, t) \<Rightarrow> Inr (d\<lparr>appointments := t\<rparr>))"
proof -
  have ne: "sp \<noteq> []" "sd \<noteq> []" "py_strip date \<noteq> []" "py_strip time \<noteq> []"
    using assms(1-4) parse_selection_nonempty date_template_nonempty time_template_nonempty by blast+
  have "py_re_match date_pattern (py_strip date)" using assms(3) by (simp add: date_match_iff)
  moreover have "py_re_match time_pattern (py_strip time)" using assms(4) by (simp add: time_match_stripped)
  ultimately show ?thesis
    using ne assms(1,2,5,6) by (simp add: save_appointment_def)
qed

lemma save_appointment_Inr:
  "save_appointment sp sd date time d = Inr d' \<Longrightarrow>
   \<exists>a i. table_insert a (appointments d) = Inr (i, appointments d') \<and>
     d' = d\<lparr>appointments := appointments d'\<rparr>"
  by (fastforce simp: save_appointment_def Let_def split: if_splits option.splits sum.splits prod.splits)

lemma save_appointment_db_inv:
  assumes "db_inv d" and "save_appointment sp sd date time d = Inr d'"
  shows "db_inv d'"
proof -
  from save_appointment_Inr [OF assms(2)] obtain a i where
    "table_insert a (appointments d) = Inr (i, appointments d')"
    and d': "d' = d\<lparr>appointments := appointments d'\<rparr>"
    by blast
  with db_inv_insert(3) [OF assms(1)] show ?thesis by metis
qed

lemma delete_appointment_db_inv:
  "db_inv d \<Longrightarrow> delete_appointment sel confirm d = Inr d' \<Longrightarrow> db_inv d'"
  by (auto simp: delete_appointment_def db_inv_def table_delete_inv split: option.splits if_splits)

text \<open>A row of the joined list comes from a stored appointment whose two ids name a
  stored patient and a stored doctor.\<close>

lemma join_row_key: "join_row d a = Some r \<Longrightarrow> fst r = fst a"
  by (cases a) (auto simp: join_row.simps split: option.splits)

lemma join_row_Some:
  "join_row d (aid, a) = Some r \<longleftrightarrow>
   (\<exists>pk p dk doc. rowid_of (appt_patient_id a) = Some pk \<and> table_lookup (patients d) pk = Some p \<and>
      rowid_of (appt_doctor_id a) = Some dk \<and> table_lookup (doctors d) dk = Some doc \<and>
      r = (aid, patient_name p, doctor_name doc, appt_date a, appt_time a))"
  by (auto simp: join_row.simps bind_eq_Some_conv split: option.splits)

lemma appointment_join_member:
  "(aid, pn, dn, dt, tm) \<in> set (appointment_join d) \<longleftrightarrow>
   (\<exists>a pk p dk doc. (aid, a) \<in> set (rows (appointments d)) \<and>
      rowid_of (appt_patient_id a) = Some pk \<and> table_lookup (patients d) pk = Some p \<and>
      rowid_of (appt_doctor_id a) = Some dk \<and> table_lookup (doctors d) dk = Some doc \<and>
      pn = patient_name p \<and> dn = doctor_name doc \<and> dt = appt_date a \<and> tm = appt_time a)"
proof -
  have "(aid, pn, dn, dt, tm) \<in> set (appointment_join d) \<longleftrightarrow>
        (\<exists>x \<in> set (rows (appointments d)). join_row d x = Some (aid, pn, dn, dt, tm))"
    by (simp add: appointment_join_def set_map_filter_iff)
  also have "\<dots> \<longleftrightarrow> (\<exists>a. (aid, a) \<in> set (rows (appointments d)) \<and> join_row d (aid, a) = Some (aid, pn, dn, dt, tm))"
  proof
    assume "\<exists>x \<in> set (rows (appointments d)). join_row d x = Some (aid, pn, dn, dt, tm)"
    then obtain k a where ka: "(k, a) \<in> set (rows (appointments d))"
      and j: "join_row d (k, a) = Some (aid, pn, dn, dt, tm)" by auto
    from j have "k = aid" unfolding join_row_Some by auto
    with ka j show "\<exists>a. (aid, a) \<in> set (rows (appointments d)) \<and> join_row d (aid, a) = Some (aid, pn, dn, dt, tm)"
      by auto
  next
    assume "\<exists>a. (aid, a) \<in> set (rows (appointments d)) \<and> join_row d (aid, a) = Some (aid, pn, dn, dt, tm)"
    then show "\<exists>x \<in> set (rows (appointments d)). join_row d x = Some (aid, pn, dn, dt, tm)"
      by blast
  qed
  finally show ?thesis by (auto simp: join_row_Some)
qed

subsection \<open>Properties\<close>

text \<open>C7. Scheduling with selections that parse to ids within 64 bits, a date of the
  shape \<open>DD/MM/YYYY\<close> and a time of the shape \<open>HH:MM\<close> (after stripping) appends one
  appointment with the next rowid, the two ids and the stripped texts. The check is on
  the shape only: \<open>15/13/2024\<close> is stored.\<close>

theorem save_appointment_inserts:
  assumes "db_inv d"
    and "parse_selection sp = Some pid" "parse_selection sd = Some did"
    and "template_prefix date_template (py_strip date)"
    and "template_exact time_template (py_strip time)"
    and "bind_int pid = Inr wp" "bind_int did = Inr wd"
    and "seq (appointments d) \<noteq> max_rowid"
  shows "save_appointment sp sd date time d =
           Inr (d\<lparr>appointments := \<lparr>rows = rows (appointments d) @
                   [(Suc (seq (appointments d)), make_appointment wp wd (py_strip date) (py_strip time))],
                  seq = Suc (seq (appointments d))\<rparr>\<rparr>)"
proof -
  from assms(1) have inv: "table_inv (appointments d)" by (simp add: db_inv_def)
  show ?thesis
    using save_appointment_valid [OF assms(2-7)] assms(8) by (simp add: table_insert_eq [OF inv])
qed

theorem save_appointment_inserts_witness:
  "save_appointment ''1: Ana'' ''1: Dr X'' ''15/13/2024'' '' 10:00 '' empty_db =
     Inr (empty_db\<lparr>appointments := \<lparr>rows = [(1, make_appointment 1 1 ''15/13/2024'' ''10:00'')], seq = 1\<rparr>\<rparr>)"
  using save_appointment_inserts [OF db_inv_empty, of "''1: Ana''" 1 "''1: Dr X''" 1 "''15/13/2024''"
      "'' 10:00 ''" 1 1]
  by (simp add: parse_selection_def py_split_first_def py_simps table_simps template_exact_def
      time_template_def)

text \<open>C8. With selections that parse and non-empty date and time, the date is refused
  exactly when the stripped text does not start with \<open>DD/MM/YYYY\<close>: \<open>re.match\<close> is
  not anchored at the end, so any text may follow the year.\<close>

theorem save_appointment_date_check:
  assumes "parse_selection sp = Some pid" "parse_selection sd = Some did"
    and "py_strip date \<noteq> []" "py_strip time \<noteq> []"
  shows "save_appointment sp sd date time d = Inl BadDateFormat \<longleftrightarrow>
         \<not> template_prefix date_template (py_strip date)"
  using assms parse_selection_nonempty [OF assms(1)] parse_selection_nonempty [OF assms(2)]
  by (auto simp: save_appointment_def Let_def date_match_iff split: sum.splits prod.splits)

theorem save_appointment_date_check_witness:
  "save_appointment ''1: Ana'' ''1: Dr X'' ''01/02/2024 de manha'' ''10:00'' empty_db \<noteq> Inl BadDateFormat"
  using save_appointment_date_check [of "''1: Ana''" 1 "''1: Dr X''" 1 "''01/02/2024 de manha''"
      "''10:00''" empty_db]
  by (simp add: parse_selection_def py_split_first_def py_simps)

text \<open>C9. With selections that parse and a date of the right shape, a non-empty time is
  refused exactly when the stripped text is not \<open>HH:MM\<close>: two digits, a colon, two
  digits, nothing else (no range check: \<open>99:99\<close> passes).\<close>

theorem save_appointment_time_check:
  assumes "parse_selection sp = Some pid" "parse_selection sd = Some did"
    and "template_prefix date_template (py_strip date)" "py_strip time \<noteq> []"
  shows "save_appointment sp sd date time d = Inl BadTimeFormat \<longleftrightarrow>
         \<not> template_exact time_template (py_strip time)"
  using assms parse_selection_nonempty [OF assms(1)] parse_selection_nonempty [OF assms(2)]
    date_template_nonempty [OF assms(3)]
  by (auto simp: save_appointment_def Let_def date_match_iff time_match_stripped
      split: sum.splits prod.splits)

theorem save_appointment_time_check_witness:
  "save_appointment ''1: Ana'' ''1: Dr X'' ''01/02/2024'' ''9:30'' empty_db = Inl BadTimeFormat"
  using save_appointment_time_check [of "''1: Ana''" 1 "''1: Dr X''" 1 "''01/02/2024''" "''9:30''" empty_db]
  by (simp add: parse_selection_def py_split_first_def py_simps template_exact_def time_template_def)

text \<open>C10. Opening the scheduling form on a database with patients and doctors and
  saving with the preselected first entries of both comboboxes adds, at the end of
  the appointment list, a row with the next rowid and the names of the first patient
  and the first doctor: the labels \<open>"id: name"\<close> read back to the rowids.\<close>

theorem schedule_first_choice_listed:
  assumes "db_inv d" and "rows (patients d) = (pk, p) # ps" and "rows (doctors d) = (dk, doc) # ds"
    and "template_prefix date_template (py_strip date)"
    and "template_exact time_template (py_strip time)"
    and "seq (appointments d) \<noteq> max_rowid"
  shows "\<exists>pl dl d'. schedule_appointment d = Inr (pl, dl) \<and>
           save_appointment (hd pl) (hd dl) date time d = Inr d' \<and>
           view_appointments d' = view_appointments d @
             [(Suc (seq (appointments d)), patient_name p, doctor_name doc, py_strip date, py_strip time)]"
proof -
  from assms(1) have pinv: "table_inv (patients d)" and dinv: "table_inv (doctors d)"
    and ainv: "table_inv (appointments d)" by (simp_all add: db_inv_def)
  have "pk \<le> max_rowid"
    using table_ids_le_seq [OF pinv, of pk] pinv assms(2) by (auto simp: table_ids_def table_inv_def)
  note pb = rowid_bind_int [OF this] and pl = parse_option_label [OF this]
  have "dk \<le> max_rowid"
    using table_ids_le_seq [OF dinv, of dk] dinv assms(3) by (auto simp: table_ids_def table_inv_def)
  note db = rowid_bind_int [OF this] and dl = parse_option_label [OF this]
  let ?pl = "option_label pk (patient_name p)" and ?dl = "option_label dk (doctor_name doc)"
  let ?a = "make_appointment (word_of_int (int pk)) (word_of_int (int dk)) (py_strip date) (py_strip time)"
  let ?d' = "d\<lparr>appointments := \<lparr>rows = rows (appointments d) @ [(Suc (seq (appointments d)), ?a)],
                  seq = Suc (seq (appointments d))\<rparr>\<rparr>"
  have sched: "schedule_appointment d =
      Inr (?pl # map (\<lambda>(k, p). option_label k (patient_name p)) ps,
           ?dl # map (\<lambda>(k, doc). option_label k (doctor_name doc)) ds)"
    using assms(2,3) by (simp add: schedule_appointment_def)
  have save: "save_appointment ?pl ?dl date time d = Inr ?d'"
    using save_appointment_valid [OF pl dl assms(4,5) pb(1) db(1)] assms(6)
    by (simp add: table_insert_eq [OF ainv])
  have "view_appointments ?d' = view_appointments d @
      [(Suc (seq (appointments d)), patient_name p, doctor_name doc, py_strip date, py_strip time)]"
    using pb(2) db(2) assms(2,3)
    by (simp add: view_appointments_def appointment_join_set_appointments make_appointment_def
        table_lookup_def join_row.simps) (simp add: appointment_join_def)
  with sched save show ?thesis by auto
qed

theorem schedule_first_choice_listed_witness:
  "\<exists>pl dl d'. schedule_appointment (empty_db\<lparr>patients := \<lparr>rows = [(1, \<lparr>patient_name = ''Ana'', patient_age = 30, patient_address = ''Rua A'', patient_contact = ''555''\<rparr>)], seq = 1\<rparr>,
        doctors := \<lparr>rows = [(1, \<lparr>doctor_name = ''Dr X'', doctor_specialty = ''Cardio'', doctor_schedule = ''8-12''\<rparr>)], seq = 1\<rparr>\<rparr>) = Inr (pl, dl) \<and>
     save_appointment (hd pl) (hd dl) '' 01/02/2024 '' ''10:00'' (empty_db\<lparr>patients := \<lparr>rows = [(1, \<lparr>patient_name = ''Ana'', patient_age = 30, patient_address = ''Rua A'', patient_contact = ''555''\<rparr>)], seq = 1\<rparr>,
        doctors := \<lparr>rows = [(1, \<lparr>doctor_name = ''Dr X'', doctor_specialty = ''Cardio'', doctor_schedule = ''8-12''\<rparr>)], seq = 1\<rparr>\<rparr>) = Inr d' \<and>
     view_appointments d' = [(1, ''Ana'', ''Dr X'', ''01/02/2024'', ''10:00'')]"
  using schedule_first_choice_listed [of "empty_db\<lparr>patients := \<lparr>rows = [(1, \<lparr>patient_name = ''Ana'', patient_age = 30, patient_address = ''Rua A'', patient_contact = ''555''\<rparr>)], seq = 1\<rparr>,
        doctors := \<lparr>rows = [(1, \<lparr>doctor_name = ''Dr X'', doctor_specialty = ''Cardio'', doctor_schedule = ''8-12''\<rparr>)], seq = 1\<rparr>\<rparr>"
      1 "\<lparr>patient_name = ''Ana'', patient_age = 30, patient_address = ''Rua A'', patient_contact = ''555''\<rparr>" "[]"
      1 "\<lparr>doctor_name = ''Dr X'', doctor_specialty = ''Cardio'', doctor_schedule = ''8-12''\<rparr>" "[]"
      "'' 01/02/2024 ''" "''10:00''"]
  by (simp add: table_simps py_simps date_template_eq template_exact_def time_template_def
      view_appointments_def appointment_join_def)

text \<open>C24. A confirmed delete of an appointment removes exactly the rows with that id
  from the joined list and keeps the others in order.\<close>

theorem delete_appointment_view:
  "\<exists>d'. delete_appointment (Some aid) True d = Inr d' \<and>
        view_appointments d' = filter (\<lambda>r. fst r \<noteq> aid) (view_appointments d)"
  using map_filter_filter_key [of "join_row d", OF join_row_key]
  by (simp add: delete_appointment_def view_appointments_def appointment_join_def table_delete_def)

text \<open>C30. A scheduling form keeps the option labels it was opened with. If the selected
  patient is deleted meanwhile, saving still inserts the appointment (the foreign key
  is not enforced), and the new appointment never appears in the joined list.\<close>

theorem save_appointment_stale_patient:
  assumes "db_inv d" and "parse_selection sp = Some (int pid)" and "pid \<le> max_rowid"
    and "table_lookup (patients d) pid = None"
    and "parse_selection sd = Some (int did)" and "did \<le> max_rowid"
    and "template_prefix date_template (py_strip date)" and "template_exact time_template (py_strip time)"
    and "seq (appointments d) \<noteq> max_rowid"
  shows "\<exists>d'. save_appointment sp sd date time d = Inr d' \<and>
              length (rows (appointments d')) = Suc (length (rows (appointments d))) \<and>
              view_appointments d' = view_appointments d"
proof -
  from assms(1) have ainv: "table_inv (appointments d)" by (simp add: db_inv_def)
  note pb = rowid_bind_int [OF assms(3)] and db = rowid_bind_int [OF assms(6)]
  let ?a = "make_appointment (word_of_int (int pid)) (word_of_int (int did)) (py_strip date) (py_strip time)"
  let ?d' = "d\<lparr>appointments := \<lparr>rows = rows (appointments d) @ [(Suc (seq (appointments d)), ?a)],
                  seq = Suc (seq (appointments d))\<rparr>\<rparr>"
  have save: "save_appointment sp sd date time d = Inr ?d'"
    using save_appointment_valid [OF assms(2,5,7,8) pb(1) db(1)] assms(9)
    by (simp add: table_insert_eq [OF ainv])
  have "join_row d (Suc (seq (appointments d)), ?a) = None"
    using pb(2) assms(4) by (simp add: join_row.simps make_appointment_def)
  then have "view_appointments ?d' = view_appointments d"
    by (simp add: view_appointments_def appointment_join_set_appointments List.map_filter_def)
      (simp add: appointment_join_def List.map_filter_def)
  with save show ?thesis by simp
qed

theorem save_appointment_stale_patient_witness:
  "\<exists>d'. save_appointment ''7: Ana'' ''1: Dr X'' ''01/02/2024'' ''10:00''
          (empty_db\<lparr>doctors := \<lparr>rows = [(1, \<lparr>doctor_name = ''Dr X'', doctor_specialty = ''Cardio'', doctor_schedule = ''8-12''\<rparr>)], seq = 1\<rparr>\<rparr>) = Inr d' \<and>
        length (rows (appointments d')) = 1 \<and>
        view_appointments d' = view_appointments (empty_db\<lparr>doctors := \<lparr>rows = [(1, \<lparr>doctor_name = ''Dr X'', doctor_specialty = ''Cardio'', doctor_schedule = ''8-12''\<rparr>)], seq = 1\<rparr>\<rparr>)"
  using save_appointment_stale_patient [of "empty_db\<lparr>doctors := \<lparr>rows = [(1, \<lparr>doctor_name = ''Dr X'', doctor_specialty = ''Cardio'', doctor_schedule = ''8-12''\<rparr>)], seq = 1\<rparr>\<rparr>"
      "''7: Ana''" 7 "''1: Dr X''" 1 "''01/02/2024''" "''10:00''"]
  by (simp add: table_simps table_lookup_def parse_selection_def py_split_first_def py_simps
      date_template_eq template_exact_def time_template_def)

end
