(* ===== verification/Files.thy ===== *)
theory Files
  imports Csv Patients Doctors Appointments
begin

text \<open>
  The callbacks that work on files rather than on rows: \<open>export_appointments_to_csv\<close>
  (src/programa_hospital.py, lines 79--106), \<open>backup_database\<close> (lines 109--118) and
  \<open>restore_database\<close> (lines 121--132). The file system is a map from resolved path
  names to directories and files; a file holds either a database image or text. The
  path a file dialog returns is a string, empty when the dialog is cancelled.
\<close>

section \<open>The file system\<close>

datatype fcontent = DbImage db | CsvText string

datatype fnode = Dir | File fcontent

type_synonym fsys = "string \<rightharpoonup> fnode"

text \<open>The database file every callback opens, relative to the working directory.\<close>

definition db_file :: string where
  "db_file = ''hospital.db''"

definition basename :: "string \<Rightarrow> string" where
  "basename p = rev (takeWhile (\<lambda>c. c \<noteq> CHR ''/'') (rev p))"

definition path_join :: "string \<Rightarrow> string \<Rightarrow> string" where
  "path_join d f = (if d \<noteq> [] \<and> last d = CHR ''/'' then d @ f else d @ CHR ''/'' # f)"

text \<open>
  \<open>shutil.copy(src, dst)\<close>: a directory \<open>dst\<close> stands for the file of the same base
  name inside it; \<open>copyfile\<close> raises \<open>SameFileError\<close> when both name the same
  existing file, then opens the source (missing: \<open>FileNotFoundError\<close>; a directory:
  \<open>IsADirectoryError\<close>) and the destination for writing.
\<close>

definition shutil_copy :: "string \<Rightarrow> string \<Rightarrow> fsys \<Rightarrow> io_error + fsys" where
  "shutil_copy src dst fs =
     (let dst = (if fs dst = Some Dir then path_join dst (basename src) else dst)
      in case fs src of
           None \<Rightarrow> Inl FileNotFound
         | Some n \<Rightarrow>
             if src = dst then Inl SameFile
             else (case n of
                     Dir \<Rightarrow> Inl IsADirectory
                   | File c \<Rightarrow> if fs dst = Some Dir then Inl IsADirectory else Inr (fs(dst \<mapsto> File c))))"

text \<open>The database \<open>sqlite3.connect("hospital.db")\<close> sees; \<open>None\<close> when every statement
  on it fails (no file: a new empty file without tables; a text file: "file is not a
  database"; a directory: "unable to open database file").\<close>

definition load_db :: "fsys \<Rightarrow> db option" where
  "load_db fs = (case fs db_file of Some (File (DbImage d)) \<Rightarrow> Some d | _ \<Rightarrow> None)"

section \<open>Export\<close>

definition export_header :: "string list" where
  "export_header = [''ID'', ''Paciente'', ''M'' @ CHR 0xE9 # ''dico'', ''Data'', ''Hora'']"

text \<open>A row of the join as \<open>writerows\<close> writes it: the integer id through \<open>str\<close>.\<close>

definition export_record :: "rowid \<times> string \<times> string \<times> string \<times> string \<Rightarrow> string list" where
  "export_record r = (case r of (i, p, dn, dt, tm) \<Rightarrow> [py_str_int (int i), p, dn, dt, tm])"

definition export_appointments_to_csv :: "db \<Rightarrow> string \<Rightarrow> fsys \<Rightarrow> hosp_error + fsys" where
  "export_appointments_to_csv d file_path fs =
     (let appointments = appointment_join d
      in if appointments = [] then Inl NoAppointmentsToExport
         else if file_path = [] then Inr fs
         else if fs file_path = Some Dir then Inl (IOFailure IsADirectory)
         else Inr (fs(file_path \<mapsto>
                File (CsvText (csv_rows (export_header # map export_record appointments))))))"

section \<open>Backup and restore\<close>

definition backup_database :: "string \<Rightarrow> fsys \<Rightarrow> hosp_error + fsys" where
  "backup_database backup_path fs =
     (if backup_path = [] then Inr fs
      else (case shutil_copy db_file backup_path fs of
              Inl e \<Rightarrow> Inl (IOFailure e)
            | Inr fs' \<Rightarrow> Inr fs'))"

definition restore_database :: "string \<Rightarrow> bool \<Rightarrow> fsys \<Rightarrow> hosp_error + fsys" where
  "restore_database restore_path confirm fs =
     (if restore_path = [] \<or> \<not> confirm then Inr fs
      else (case shutil_copy restore_path db_file fs of
              Inl e \<Rightarrow> Inl (IOFailure e)
            | Inr fs' \<Rightarrow> Inr fs'))"

section \<open>Lemmas\<close>

lemma shutil_copy_file:
  assumes "fs src = Some (File c)" and "fs dst \<noteq> Some Dir" and "src \<noteq> dst"
  shows "shutil_copy src dst fs = Inr (fs(dst \<mapsto> File c))"
  using assms by (simp add: shutil_copy_def)

lemma shutil_copy_Inr:
  assumes "shutil_copy src dst fs = Inr fs'" and "fs dst \<noteq> Some Dir"
  shows "\<exists>c. fs src = Some (File c) \<and> src \<noteq> dst \<and> fs' = fs(dst \<mapsto> File c)"
  using assms by (auto simp: shutil_copy_def split: option.splits fnode.splits if_splits)

lemma export_record_nonempty: "list_all (\<lambda>r. r \<noteq> []) (export_header # map export_record xs)"
  by (induction xs) (auto simp: export_header_def export_record_def)

subsection \<open>Properties\<close>

text \<open>C12. Exporting reports "Nenhuma consulta para exportar" and writes no file
  exactly when the appointment list (the inner join) is empty, whatever the file
  system holds and whichever path would have been chosen.\<close>

theorem export_no_appointments:
  "export_appointments_to_csv d file_path fs = Inl NoAppointmentsToExport \<longleftrightarrow> view_appointments d = []"
  by (simp add: export_appointments_to_csv_def view_appointments_def Let_def)

text \<open>C13. Exporting a non-empty appointment list to a chosen path that is not a
  directory writes one file there and changes no other path; read back as CSV, the
  file is the header row followed by one record per listed appointment, in list
  order: its id in decimal, the patient's and the doctor's names, date and time.\<close>

theorem export_csv_roundtrip:
  assumes "view_appointments d \<noteq> []" and "file_path \<noteq> []" and "fs file_path \<noteq> Some Dir"
  shows "\<exists>t. export_appointments_to_csv d file_path fs = Inr (fs(file_path \<mapsto> File (CsvText t))) \<and>
             csv_read t = Some (export_header # map export_record (view_appointments d))"
proof -
  let ?t = "csv_rows (export_header # map export_record (view_appointments d))"
  have "export_appointments_to_csv d file_path fs = Inr (fs(file_path \<mapsto> File (CsvText ?t)))"
    using assms by (simp add: export_appointments_to_csv_def view_appointments_def Let_def)
  with csv_read_rows [OF export_record_nonempty] show ?thesis by blast
qed

theorem export_csv_roundtrip_witness:
  "\<exists>t. export_appointments_to_csv
         (empty_db\<lparr>patients := \<lparr>rows = [(1, make_patient ''Ana, filha'' 30 ''Rua A'' ''555'')], seq = 1\<rparr>,
                   doctors := \<lparr>rows = [(1, make_doctor ''Dr X'' ''Cardio'' ''8-12'')], seq = 1\<rparr>,
                   appointments := \<lparr>rows = [(1, make_appointment 1 1 ''01/02/2024'' ''10:00'')], seq = 1\<rparr>\<rparr>)
         ''/tmp/c.csv'' Map.empty = Inr [''/tmp/c.csv'' \<mapsto> File (CsvText t)] \<and>
       csv_read t = Some [export_header, [''1'', ''Ana, filha'', ''Dr X'', ''01/02/2024'', ''10:00'']]"
proof -
  have v: "view_appointments
         (empty_db\<lparr>patients := \<lparr>rows = [(1, make_patient ''Ana, filha'' 30 ''Rua A'' ''555'')], seq = 1\<rparr>,
                   doctors := \<lparr>rows = [(1, make_doctor ''Dr X'' ''Cardio'' ''8-12'')], seq = 1\<rparr>,
                   appointments := \<lparr>rows = [(1, make_appointment 1 1 ''01/02/2024'' ''10:00'')], seq = 1\<rparr>\<rparr>)
      = [(1, ''Ana, filha'', ''Dr X'', ''01/02/2024'', ''10:00'')]"
    by (simp add: view_appointments_def appointment_join_def join_row.simps table_lookup_def
        make_appointment_def make_patient_def make_doctor_def rowid_of_def)
  show ?thesis
    using export_csv_roundtrip [of "empty_db\<lparr>patients := \<lparr>rows = [(1, make_patient ''Ana, filha'' 30 ''Rua A'' ''555'')], seq = 1\<rparr>,
                   doctors := \<lparr>rows = [(1, make_doctor ''Dr X'' ''Cardio'' ''8-12'')], seq = 1\<rparr>,
                   appointments := \<lparr>rows = [(1, make_appointment 1 1 ''01/02/2024'' ''10:00'')], seq = 1\<rparr>\<rparr>"
      "''/tmp/c.csv''" Map.empty] v
    by (simp add: export_record_def py_str_int_def py_str_nat.simps digit_char_def char_of_def bit_0)
qed

text \<open>C14. Restoring from a database file other than \<open>hospital.db\<close>, confirmed, replaces
  the database every later callback opens by the backup's: the patient list then
  shows exactly the backup's patients.\<close>

theorem restore_then_view_patients:
  assumes "restore_path \<noteq> []" and "fs restore_path = Some (File (DbImage b))"
    and "restore_path \<noteq> db_file" and "fs db_file \<noteq> Some Dir"
  shows "\<exists>fs'. restore_database restore_path True fs = Inr fs' \<and> load_db fs' = Some b \<and>
               map_option view_patients (load_db fs') = Some (view_patients b)"
proof -
  from assms(1) shutil_copy_file [OF assms(2,4,3)] show ?thesis
    by (simp add: restore_database_def load_db_def)
qed

theorem restore_then_view_patients_witness:
  "\<exists>fs'. restore_database ''/b/backup.db'' True
           [''/b/backup.db'' \<mapsto> File (DbImage (empty_db\<lparr>patients := \<lparr>rows = [(1, make_patient ''Ana'' 30 ''Rua A'' ''555'')], seq = 1\<rparr>\<rparr>)),
            ''hospital.db'' \<mapsto> File (DbImage empty_db)] = Inr fs' \<and>
         load_db fs' = Some (empty_db\<lparr>patients := \<lparr>rows = [(1, make_patient ''Ana'' 30 ''Rua A'' ''555'')], seq = 1\<rparr>\<rparr>) \<and>
         map_option view_patients (load_db fs') = Some [(1, make_patient ''Ana'' 30 ''Rua A'' ''555'')]"
  using restore_then_view_patients [of "''/b/backup.db''" "[''/b/backup.db'' \<mapsto> File (DbImage (empty_db\<lparr>patients := \<lparr>rows = [(1, make_patient ''Ana'' 30 ''Rua A'' ''555'')], seq = 1\<rparr>\<rparr>)),
            ''hospital.db'' \<mapsto> File (DbImage empty_db)]"]
  by (simp add: db_file_def view_patients_def)

text \<open>C15. A backup taken to a path that is not a directory, restored later from the same
  path while that file is untouched, brings back the database file as it was when the
  backup was taken, whatever happened to \<open>hospital.db\<close> in between.\<close>

theorem backup_restore_roundtrip:
  assumes "backup_database p fs = Inr fs1" and "p \<noteq> []" and "fs p \<noteq> Some Dir"
    and "fs2 p = fs1 p" and "fs2 db_file \<noteq> Some Dir"
  shows "\<exists>fs3. restore_database p True fs2 = Inr fs3 \<and> fs3 db_file = fs db_file \<and> load_db fs3 = load_db fs"
proof -
  from assms(1,2) have "shutil_copy db_file p fs = Inr fs1"
    by (simp add: backup_database_def split: sum.splits)
  from shutil_copy_Inr [OF this assms(3)] obtain c where
    c: "fs db_file = Some (File c)" and ne: "db_file \<noteq> p" and fs1: "fs1 = fs(p \<mapsto> File c)"
    by blast
  from assms(4) fs1 have "fs2 p = Some (File c)" by simp
  from shutil_copy_file [OF this assms(5)] ne assms(2)
  have "restore_database p True fs2 = Inr (fs2(db_file \<mapsto> File c))"
    by (simp add: restore_database_def)
  with c show ?thesis by (simp add: load_db_def)
qed

theorem backup_restore_roundtrip_witness:
  "\<exists>fs3. restore_database ''/b/backup.db'' True
           [''/b/backup.db'' \<mapsto> File (DbImage empty_db), ''hospital.db'' \<mapsto> File (CsvText ''x'')] = Inr fs3 \<and>
         fs3 db_file = Some (File (DbImage empty_db)) \<and> load_db fs3 = Some empty_db"
proof -
  have b: "backup_database ''/b/backup.db'' [''hospital.db'' \<mapsto> File (DbImage empty_db)] =
           Inr [''hospital.db'' \<mapsto> File (DbImage empty_db), ''/b/backup.db'' \<mapsto> File (DbImage empty_db)]"
    by (simp add: backup_database_def shutil_copy_def db_file_def)
  show ?thesis
    using backup_restore_roundtrip [OF b, of "[''/b/backup.db'' \<mapsto> File (DbImage empty_db), ''hospital.db'' \<mapsto> File (CsvText ''x'')]"]
    by (simp add: db_file_def load_db_def)
qed

text \<open>C16. Restore copies whatever file is chosen: restoring from a text file (an
  exported CSV, say) succeeds with the success dialog, and from then on no callback
  can read the database.\<close>

theorem restore_non_database:
  assumes "p \<noteq> []" and "fs p = Some (File (CsvText t))" and "p \<noteq> db_file" and "fs db_file \<noteq> Some Dir"
  shows "\<exists>fs'. restore_database p True fs = Inr fs' \<and> load_db fs' = None"
  using assms shutil_copy_file [OF assms(2,4,3)] by (simp add: restore_database_def load_db_def)

theorem restore_non_database_witness:
  "\<exists>fs'. restore_database ''/tmp/c.csv'' True
           [''/tmp/c.csv'' \<mapsto> File (CsvText ''ID''), ''hospital.db'' \<mapsto> File (DbImage empty_db)] = Inr fs' \<and>
         load_db fs' = None"
  using restore_non_database [of "''/tmp/c.csv''" "[''/tmp/c.csv'' \<mapsto> File (CsvText ''ID''), ''hospital.db'' \<mapsto> File (DbImage empty_db)]"]
  by (simp add: db_file_def)

end
