(* ===== verification/App.thy ===== *)
theory App
  imports Files "HOL-Library.Sublist"
begin

text \<open>
  The running application: \<open>main_window\<close> (src/programa_hospital.py, lines 135--236)
  and the \<open>Toplevel\<close> windows its buttons and menus open. The state is the file
  system and the list of open windows, each with what its callbacks close over: the
  option lists of a scheduling form, the ids shown in a list, the id of an edit form.
  A user event (a button, a double click, a dialog answer) runs one callback; the
  step is \<open>None\<close> when the event names no open window of the right kind or no
  shown row. The database a callback opens is \<open>load_db\<close> of the file system, and a
  callback that ends without an exception writes its database back.
\<close>

section \<open>Windows and events\<close>

datatype window =
    RegisterPatientW
  | RegisterDoctorW
  | ScheduleW "string list" "string list"
  | PatientListW "rowid list"
  | SearchW "rowid list"
  | PatientEditW rowid
  | DoctorListW "rowid list"
  | DoctorEditW rowid
  | AppointmentListW "rowid list"

record app =
  app_fs :: fsys
  app_windows :: "window list"

datatype event =
    OpenRegisterPatient
  | OpenViewPatients
  | OpenSearchPatients
  | OpenRegisterDoctor
  | OpenViewDoctors
  | OpenScheduleAppointment
  | OpenViewAppointments
  | ExportCsv string
  | Backup string
  | Restore string bool
  | ClickSavePatient nat string string string string
  | ClickSaveDoctor nat string string string
  | ClickSchedule nat nat nat string string
  | DoubleClickRow nat nat
  | ClickUpdatePatient nat string string string string
  | ClickUpdateDoctor nat string string string
  | ClickDelete nat "nat option" bool
  | ClickSearch nat string
  | CloseWindow nat
  | Quit
  | CloseRoot

section \<open>Callbacks on the application state\<close>

definition remove_nth :: "nat \<Rightarrow> 'a list \<Rightarrow> 'a list" where
  "remove_nth i xs = take i xs @ drop (Suc i) xs"

definition store_db :: "db \<Rightarrow> fsys \<Rightarrow> fsys" where
  "store_db d fs = fs(db_file \<mapsto> File (DbImage d))"

text \<open>Run a callback on the database file: an exception (no readable database, or
  an \<open>Inl\<close> outcome) leaves the state as it is; otherwise the new database is
  written back and \<open>k\<close> updates the windows.\<close>

definition run_db :: "(db \<Rightarrow> hosp_error + db) \<Rightarrow> (db \<Rightarrow> window list \<Rightarrow> window list) \<Rightarrow> app \<Rightarrow> app" where
  "run_db f k s =
     (case load_db (app_fs s) of
        None \<Rightarrow> s
      | Some d \<Rightarrow>
          (case f d of
             Inl _ \<Rightarrow> s
           | Inr d' \<Rightarrow> \<lparr>app_fs = store_db d' (app_fs s), app_windows = k d' (app_windows s)\<rparr>))"

text \<open>Open a window built from the database, if the callback gets that far.\<close>

definition open_with_db :: "(db \<Rightarrow> window option) \<Rightarrow> app \<Rightarrow> app" where
  "open_with_db f s =
     (case load_db (app_fs s) of
        None \<Rightarrow> s
      | Some d \<Rightarrow> (case f d of None \<Rightarrow> s | Some w \<Rightarrow> s\<lparr>app_windows := app_windows s @ [w]\<rparr>))"

definition file_op :: "(fsys \<Rightarrow> hosp_error + fsys) \<Rightarrow> app \<Rightarrow> app" where
  "file_op f s = (case f (app_fs s) of Inl _ \<Rightarrow> s | Inr fs' \<Rightarrow> s\<lparr>app_fs := fs'\<rparr>)"

text \<open>\<open>on_double_click\<close> of the patient list and of the search window: \<open>edit_patient\<close>
  opens its form when the \<open>SELECT\<close> finds the id.\<close>

definition open_patient_edit :: "rowid \<Rightarrow> db \<Rightarrow> window option" where
  "open_patient_edit pid d = (case edit_patient pid d of Inl _ \<Rightarrow> None | Inr _ \<Rightarrow> Some (PatientEditW pid))"

definition open_doctor_edit :: "rowid \<Rightarrow> db \<Rightarrow> window option" where
  "open_doctor_edit did d = (case edit_doctor did d of Inl _ \<Rightarrow> None | Inr _ \<Rightarrow> Some (DoctorEditW did))"

text \<open>The buttons of the main window and of its menus.\<close>

fun main_event :: "event \<Rightarrow> app \<Rightarrow> app option" where
  "main_event OpenRegisterPatient s = Some (s\<lparr>app_windows := app_windows s @ [RegisterPatientW]\<rparr>)"
| "main_event OpenViewPatients s =
     Some (open_with_db (\<lambda>d. Some (PatientListW (map fst (view_patients d)))) s)"
| "main_event OpenSearchPatients s = Some (s\<lparr>app_windows := app_windows s @ [SearchW []]\<rparr>)"
| "main_event OpenRegisterDoctor s = Some (s\<lparr>app_windows := app_windows s @ [RegisterDoctorW]\<rparr>)"
| "main_event OpenViewDoctors s =
     Some (open_with_db (\<lambda>d. map_option (\<lambda>ds. DoctorListW (map fst ds)) (view_doctors d)) s)"
| "main_event OpenScheduleAppointment s =
     Some (open_with_db (\<lambda>d. case schedule_appointment d of
                               Inl _ \<Rightarrow> None | Inr (pl, dl) \<Rightarrow> Some (ScheduleW pl dl)) s)"
| "main_event OpenViewAppointments s =
     Some (open_with_db (\<lambda>d. Some (AppointmentListW (map fst (view_appointments d)))) s)"
| "main_event (ExportCsv p) s =
     Some (case load_db (app_fs s) of
             None \<Rightarrow> s
           | Some d \<Rightarrow> file_op (export_appointments_to_csv d p) s)"
| "main_event (Backup p) s = Some (file_op (backup_database p) s)"
| "main_event (Restore p confirm) s = Some (file_op (restore_database p confirm) s)"
| "main_event _ s = None"

text \<open>\<open>delete_patient\<close>, \<open>delete_patient_search\<close>, \<open>delete_doctor\<close>,
  \<open>delete_appointment\<close>: the selected row's id, the confirmation, and
  \<open>tree.delete\<close> of the row after a confirmed delete.\<close>

definition delete_in_list ::
  "(rowid option \<Rightarrow> bool \<Rightarrow> db \<Rightarrow> hosp_error + db) \<Rightarrow> (rowid list \<Rightarrow> window) \<Rightarrow> rowid list \<Rightarrow>
   nat option \<Rightarrow> bool \<Rightarrow> nat \<Rightarrow> app \<Rightarrow> app option" where
  "delete_in_list del mk ids sel confirm i s =
     (case sel of
        None \<Rightarrow> Some (run_db (del None confirm) (\<lambda>_ ws. ws) s)
      | Some k \<Rightarrow>
          if k < length ids then
            Some (run_db (del (Some (ids ! k)) confirm)
                    (\<lambda>_ ws. if confirm then ws[i := mk (remove_nth k ids)] else ws) s)
          else None)"

text \<open>\<open>perform_search\<close> empties the result list before it runs the query.\<close>

definition search_in :: "nat \<Rightarrow> string \<Rightarrow> app \<Rightarrow> app" where
  "search_in i term s =
     (let cleared = s\<lparr>app_windows := (app_windows s)[i := SearchW []]\<rparr>
      in case load_db (app_fs s) of
           None \<Rightarrow> cleared
         | Some d \<Rightarrow>
             (case perform_search term d of
                Inl _ \<Rightarrow> cleared
              | Inr rs \<Rightarrow> s\<lparr>app_windows := (app_windows s)[i := SearchW (map fst rs)]\<rparr>))"

definition open_row :: "(rowid \<Rightarrow> db \<Rightarrow> window option) \<Rightarrow> rowid list \<Rightarrow> nat \<Rightarrow> app \<Rightarrow> app option" where
  "open_row f ids k s = (if k < length ids then Some (open_with_db (f (ids ! k)) s) else None)"

text \<open>The callbacks each kind of window binds, for the window at index \<open>i\<close>: the
  buttons of the registration forms (\<open>btn_save\<close>), of the scheduling form
  (\<open>btn_schedule\<close>; a readonly combobox selects one of its options), of the edit
  forms (\<open>btn_update\<close>), and the double click, delete button and search button of
  the list windows.\<close>

definition register_patient_event :: "event \<Rightarrow> nat \<Rightarrow> app \<Rightarrow> app option" where
  "register_patient_event e i s =
     (case e of
        ClickSavePatient _ n a ad c \<Rightarrow> Some (run_db (save_patient n a ad c) (\<lambda>_. remove_nth i) s)
      | _ \<Rightarrow> None)"

definition register_doctor_event :: "event \<Rightarrow> nat \<Rightarrow> app \<Rightarrow> app option" where
  "register_doctor_event e i s =
     (case e of
        ClickSaveDoctor _ n sp sc \<Rightarrow> Some (run_db (save_doctor n sp sc) (\<lambda>_. remove_nth i) s)
      | _ \<Rightarrow> None)"

definition schedule_event :: "string list \<Rightarrow> string list \<Rightarrow> event \<Rightarrow> nat \<Rightarrow> app \<Rightarrow> app option" where
  "schedule_event pl dl e i s =
     (case e of
        ClickSchedule _ pk dk date time \<Rightarrow>
          if pk < length pl \<and> dk < length dl
          then Some (run_db (save_appointment (pl ! pk) (dl ! dk) date time) (\<lambda>_. remove_nth i) s)
          else None
      | _ \<Rightarrow> None)"

text \<open>\<open>update_patient\<close> closes its form and opens a fresh patient list
  (\<open>edit_window.destroy(); view_patients()\<close>); \<open>update_doctor\<close> does the same with
  \<open>view_doctors()\<close>, the stub, which opens nothing.\<close>

definition patient_edit_event :: "rowid \<Rightarrow> event \<Rightarrow> nat \<Rightarrow> app \<Rightarrow> app option" where
  "patient_edit_event pid e i s =
     (case e of
        ClickUpdatePatient _ n a ad c \<Rightarrow>
          Some (run_db (update_patient pid n a ad c)
                  (\<lambda>d' ws. remove_nth i ws @ [PatientListW (map fst (view_patients d'))]) s)
      | _ \<Rightarrow> None)"

definition doctor_edit_event :: "rowid \<Rightarrow> event \<Rightarrow> nat \<Rightarrow> app \<Rightarrow> app option" where
  "doctor_edit_event did e i s =
     (case e of
        ClickUpdateDoctor _ n sp sc \<Rightarrow>
          Some (run_db (update_doctor did n sp sc)
                  (\<lambda>d' ws. remove_nth i ws @
                     (case view_doctors d' of None \<Rightarrow> [] | Some ds \<Rightarrow> [DoctorListW (map fst ds)])) s)
      | _ \<Rightarrow> None)"

definition patient_list_event :: "rowid list \<Rightarrow> event \<Rightarrow> nat \<Rightarrow> app \<Rightarrow> app option" where
  "patient_list_event ids e i s =
     (case e of
        DoubleClickRow _ k \<Rightarrow> open_row open_patient_edit ids k s
      | ClickDelete _ sel confirm \<Rightarrow> delete_in_list delete_patient PatientListW ids sel confirm i s
      | _ \<Rightarrow> None)"

definition search_window_event :: "rowid list \<Rightarrow> event \<Rightarrow> nat \<Rightarrow> app \<Rightarrow> app option" where
  "search_window_event ids e i s =
     (case e of
        DoubleClickRow _ k \<Rightarrow> open_row open_patient_edit ids k s
      | ClickDelete _ sel confirm \<Rightarrow> delete_in_list delete_patient SearchW ids sel confirm i s
      | ClickSearch _ term \<Rightarrow> Some (search_in i term s)
      | _ \<Rightarrow> None)"

definition doctor_list_event :: "rowid list \<Rightarrow> event \<Rightarrow> nat \<Rightarrow> app \<Rightarrow> app option" where
  "doctor_list_event ids e i s =
     (case e of
        DoubleClickRow _ k \<Rightarrow> open_row open_doctor_edit ids k s
      | ClickDelete _ sel confirm \<Rightarrow> delete_in_list delete_doctor DoctorListW ids sel confirm i s
      | _ \<Rightarrow> None)"

text \<open>The appointment list binds its double click to \<open>lambda event: None\<close>.\<close>

definition appointment_list_event :: "rowid list \<Rightarrow> event \<Rightarrow> nat \<Rightarrow> app \<Rightarrow> app option" where
  "appointment_list_event ids e i s =
     (case e of
        DoubleClickRow _ k \<Rightarrow> if k < length ids then Some s else None
      | ClickDelete _ sel confirm \<Rightarrow> delete_in_list delete_appointment AppointmentListW ids sel confirm i s
      | _ \<Rightarrow> None)"

text \<open>An event of the \<open>i\<close>-th open window: closing it (its "Fechar" button or the window
  manager) or one of the callbacks it binds.\<close>

definition window_event :: "event \<Rightarrow> window \<Rightarrow> nat \<Rightarrow> app \<Rightarrow> app option" where
  "window_event e w i s =
     (case e of
        CloseWindow _ \<Rightarrow> Some (s\<lparr>app_windows := remove_nth i (app_windows s)\<rparr>)
      | _ \<Rightarrow>
          (case w of
             RegisterPatientW \<Rightarrow> register_patient_event e i s
           | RegisterDoctorW \<Rightarrow> register_doctor_event e i s
           | ScheduleW pl dl \<Rightarrow> schedule_event pl dl e i s
           | PatientListW ids \<Rightarrow> patient_list_event ids e i s
           | SearchW ids \<Rightarrow> search_window_event ids e i s
           | PatientEditW pid \<Rightarrow> patient_edit_event pid e i s
           | DoctorListW ids \<Rightarrow> doctor_list_event ids e i s
           | DoctorEditW did \<Rightarrow> doctor_edit_event did e i s
           | AppointmentListW ids \<Rightarrow> appointment_list_event ids e i s))"

fun event_window :: "event \<Rightarrow> nat option" where
  "event_window (ClickSavePatient i _ _ _ _) = Some i"
| "event_window (ClickSaveDoctor i _ _ _) = Some i"
| "event_window (ClickSchedule i _ _ _ _) = Some i"
| "event_window (DoubleClickRow i _) = Some i"
| "event_window (ClickUpdatePatient i _ _ _ _) = Some i"
| "event_window (ClickUpdateDoctor i _ _ _) = Some i"
| "event_window (ClickDelete i _ _) = Some i"
| "event_window (ClickSearch i _) = Some i"
| "event_window (CloseWindow i) = Some i"
| "event_window _ = None"

definition app_step :: "event \<Rightarrow> app \<Rightarrow> app option" where
  "app_step e s =
     (case event_window e of
        None \<Rightarrow> main_event e s
      | Some i \<Rightarrow> if i < length (app_windows s) then window_event e (app_windows s ! i) i s else None)"

section \<open>Start and reachable states\<close>

text \<open>\<open>setup_database()\<close> then \<open>main_window()\<close>, with no \<open>Toplevel\<close> open. A file
  \<open>hospital.db\<close> that is not a database makes \<open>setup_database\<close> raise, and the
  program stops.\<close>

definition main_start :: "fsys \<Rightarrow> app option" where
  "main_start fs =
     (case (case fs db_file of
              None \<Rightarrow> setup_database None
            | Some (File (DbImage d)) \<Rightarrow> setup_database (Some d)
            | Some (File (CsvText _)) \<Rightarrow> Inl NotADatabase
            | Some Dir \<Rightarrow> Inl CannotOpen) of
        Inl _ \<Rightarrow> None
      | Inr d \<Rightarrow> Some \<lparr>app_fs = store_db d fs, app_windows = []\<rparr>)"

text \<open>Every database file on disk satisfies the table invariant, as SQLite keeps it
  for the files it writes.\<close>

definition node_inv :: "fnode \<Rightarrow> bool" where
  "node_inv n = (case n of File (DbImage d) \<Rightarrow> db_inv d | _ \<Rightarrow> True)"

definition fs_inv :: "fsys \<Rightarrow> bool" where
  "fs_inv fs = (\<forall>n \<in> ran fs. node_inv n)"

inductive reachable :: "app \<Rightarrow> bool" where
  start: "fs_inv fs \<Longrightarrow> main_start fs = Some s \<Longrightarrow> reachable s"
| step: "reachable s \<Longrightarrow> app_step e s = Some s' \<Longrightarrow> reachable s'"

fun is_restore :: "event \<Rightarrow> bool" where
  "is_restore (Restore _ _) = True"
| "is_restore _ = False"

fun doctor_window :: "window \<Rightarrow> bool" where
  "doctor_window (DoctorListW _) = True"
| "doctor_window (DoctorEditW _) = True"
| "doctor_window _ = False"

text \<open>The database changes a window callback can make: one per callback that writes.
  \<open>doctor_step\<close> holds the two callbacks of the doctor list and edit windows.\<close>

inductive callback_step :: "db \<Rightarrow> db \<Rightarrow> bool" where
  "save_patient n a ad c d = Inr d' \<Longrightarrow> callback_step d d'"
| "save_doctor n sp sc d = Inr d' \<Longrightarrow> callback_step d d'"
| "save_appointment sp sd dt tm d = Inr d' \<Longrightarrow> callback_step d d'"
| "update_patient pid n a ad c d = Inr d' \<Longrightarrow> callback_step d d'"
| "delete_patient sel cf d = Inr d' \<Longrightarrow> callback_step d d'"
| "delete_appointment sel cf d = Inr d' \<Longrightarrow> callback_step d d'"

inductive doctor_step :: "db \<Rightarrow> db \<Rightarrow> bool" where
  "update_doctor did n sp sc d = Inr d' \<Longrightarrow> doctor_step d d'"
| "delete_doctor sel cf d = Inr d' \<Longrightarrow> doctor_step d d'"

text \<open>A run: the events one after the other, as \<open>root.mainloop()\<close> dispatches them.\<close>

fun app_run :: "event list \<Rightarrow> app \<Rightarrow> app option" where
  "app_run [] s = Some s"
| "app_run (e # es) s = (case app_step e s of None \<Rightarrow> None | Some s' \<Rightarrow> app_run es s')"

text \<open>The events that end \<open>root.mainloop()\<close>: \<open>root.quit\<close> (\<open>Quit\<close>, the menu
  entry and the button "Sair", lines 191 and 233) and the window manager closing the
  main window (\<open>CloseRoot\<close>: Tk's default \<open>WM_DELETE_WINDOW\<close> handler destroys
  the root window).\<close>

fun ends_loop :: "event \<Rightarrow> bool" where
  "ends_loop Quit = True"
| "ends_loop CloseRoot = True"
| "ends_loop _ = False"

text \<open>\<open>root.mainloop()\<close> (line 236) dispatches the user's events one after the other
  until one ends the loop. The events are a stream; one that no open window can
  receive (\<open>app_step\<close> is \<open>None\<close>) is not delivered and changes nothing. The loop
  returns the state at the first event that ends it, and does not return
  (\<open>None\<close>) when none comes.\<close>

partial_function (option) tk_mainloop :: "(nat \<Rightarrow> event) \<Rightarrow> nat \<Rightarrow> app \<Rightarrow> app option" where
  "tk_mainloop ev n s =
     (if ends_loop (ev n) then Some s
      else tk_mainloop ev (Suc n) (case app_step (ev n) s of None \<Rightarrow> s | Some s' \<Rightarrow> s'))"

text \<open>The events before the one that ends the loop, delivered in order, undeliverable
  ones skipped.\<close>

fun app_run_skip :: "event list \<Rightarrow> app \<Rightarrow> app" where
  "app_run_skip [] s = s"
| "app_run_skip (e # es) s = app_run_skip es (case app_step e s of None \<Rightarrow> s | Some s' \<Rightarrow> s')"

text \<open>A table that only grows: its sequence does not go back, and every id it holds
  that the earlier table did not hold is above the earlier sequence, so no id handed
  out before is handed out again.\<close>

definition table_grows :: "'r table \<Rightarrow> 'r table \<Rightarrow> bool" where
  "table_grows t t' =
     (seq t \<le> seq t' \<and> (\<forall>i \<in> table_ids t'. i \<notin> table_ids t \<longrightarrow> seq t < i))"

definition db_grows :: "db \<Rightarrow> db \<Rightarrow> bool" where
  "db_grows d d' =
     (table_grows (patients d) (patients d') \<and> table_grows (doctors d) (doctors d')
      \<and> table_grows (appointments d) (appointments d') \<and> table_grows (users d) (users d')
      \<and> prefix (rows (doctors d)) (rows (doctors d')))"

text \<open>Every patient row has its text fields stripped and non-empty, as the two patient
  forms write them.\<close>

definition patients_ok :: "db \<Rightarrow> bool" where
  "patients_ok d = list_all (\<lambda>(k, p). patient_row_ok p) (rows (patients d))"

section \<open>Lemmas\<close>

lemmas window_event_defs = window_event_def register_patient_event_def register_doctor_event_def
  schedule_event_def patient_edit_event_def doctor_edit_event_def patient_list_event_def
  search_window_event_def doctor_list_event_def appointment_list_event_def

lemmas callback_db_inv = save_patient_db_inv update_patient_db_inv delete_patient_db_inv
  save_doctor_db_inv update_doctor_db_inv delete_doctor_db_inv
  save_appointment_db_inv delete_appointment_db_inv

lemma fs_inv_upd [intro]: "fs_inv fs \<Longrightarrow> node_inv n \<Longrightarrow> fs_inv (fs(p \<mapsto> n))"
  by (auto simp: fs_inv_def ran_def)

lemma fs_inv_node: "fs_inv fs \<Longrightarrow> fs p = Some n \<Longrightarrow> node_inv n"
  by (auto simp: fs_inv_def ran_def)

lemma fs_inv_load: "fs_inv fs \<Longrightarrow> load_db fs = Some d \<Longrightarrow> db_inv d"
  using fs_inv_node [of fs db_file]
  by (auto simp: load_db_def node_inv_def split: option.splits fnode.splits fcontent.splits)

lemma load_store [simp]: "load_db (store_db d fs) = Some d"
  by (simp add: load_db_def store_db_def)

lemma fs_inv_store: "fs_inv fs \<Longrightarrow> db_inv d \<Longrightarrow> fs_inv (store_db d fs)"
  by (auto simp: store_db_def node_inv_def)

lemma shutil_copy_fs_inv: "fs_inv fs \<Longrightarrow> shutil_copy a b fs = Inr fs' \<Longrightarrow> fs_inv fs'"
  by (auto simp: shutil_copy_def Let_def dest: fs_inv_node split: option.splits fnode.splits if_splits)

lemma run_db_fs_inv:
  assumes "\<And>d d'. db_inv d \<Longrightarrow> f d = Inr d' \<Longrightarrow> db_inv d'" and "fs_inv (app_fs s)"
  shows "fs_inv (app_fs (run_db f k s))"
  using assms fs_inv_load [OF assms(2)]
  by (auto simp: run_db_def fs_inv_store split: option.splits sum.splits)

lemma open_with_db_fs [simp]: "app_fs (open_with_db f s) = app_fs s"
  by (simp add: open_with_db_def split: option.splits)

lemma export_fs_inv:
  "fs_inv fs \<Longrightarrow> export_appointments_to_csv d p fs = Inr fs' \<Longrightarrow> fs_inv fs'"
  by (auto simp: export_appointments_to_csv_def Let_def node_inv_def split: if_splits)

lemma backup_fs_inv: "fs_inv fs \<Longrightarrow> backup_database p fs = Inr fs' \<Longrightarrow> fs_inv fs'"
  by (auto simp: backup_database_def dest: shutil_copy_fs_inv split: if_splits sum.splits)

lemma restore_fs_inv: "fs_inv fs \<Longrightarrow> restore_database p c fs = Inr fs' \<Longrightarrow> fs_inv fs'"
  by (auto simp: restore_database_def dest: shutil_copy_fs_inv split: if_splits sum.splits)

lemma file_op_fs_inv:
  assumes "\<And>fs'. fs_inv (app_fs s) \<Longrightarrow> f (app_fs s) = Inr fs' \<Longrightarrow> fs_inv fs'" and "fs_inv (app_fs s)"
  shows "fs_inv (app_fs (file_op f s))"
  using assms by (simp add: file_op_def split: sum.split)

lemma main_event_fs_inv:
  assumes "fs_inv (app_fs s)" and "main_event e s = Some s'"
  shows "fs_inv (app_fs s')"
proof (cases e)
  case (ExportCsv p)
  with assms show ?thesis
    by (auto intro!: file_op_fs_inv dest: export_fs_inv split: option.splits)
next
  case (Backup p)
  with assms show ?thesis by (auto intro!: file_op_fs_inv dest: backup_fs_inv)
next
  case (Restore p c)
  with assms show ?thesis by (auto intro!: file_op_fs_inv dest: restore_fs_inv)
qed (use assms in auto)


lemma delete_in_list_effect:
  "delete_in_list del mk ids sel cf i s = Some s' \<Longrightarrow> \<exists>x k. s' = run_db (del x cf) k s"
  by (auto simp: delete_in_list_def split: option.splits if_splits)

lemma open_row_fs: "open_row f ids k s = Some s' \<Longrightarrow> app_fs s' = app_fs s"
  by (auto simp: open_row_def open_with_db_def split: if_splits option.splits)

lemma search_in_fs: "app_fs (search_in i term s) = app_fs s"
  by (simp add: search_in_def Let_def split: option.splits sum.splits)

lemma window_event_effect:
  assumes "window_event e w i s = Some s'"
  shows "app_fs s' = app_fs s \<or>
         (\<exists>f k. s' = run_db f k s \<and>
            (\<forall>d d'. f d = Inr d' \<longrightarrow> (if doctor_window w then doctor_step d d' else callback_step d d')))"
  using assms
  by (cases e; cases w)
     (auto simp: window_event_defs search_in_fs dest: open_row_fs delete_in_list_effect
        intro: callback_step.intros doctor_step.intros split: if_splits)
lemma callback_step_db_inv: "callback_step d d' \<Longrightarrow> db_inv d \<Longrightarrow> db_inv d'"
  by (induction rule: callback_step.induct) (auto intro: callback_db_inv)

lemma doctor_step_db_inv: "doctor_step d d' \<Longrightarrow> db_inv d \<Longrightarrow> db_inv d'"
  by (induction rule: doctor_step.induct) (auto intro: callback_db_inv)

lemma window_event_fs_inv:
  assumes "fs_inv (app_fs s)" and "window_event e w i s = Some s'"
  shows "fs_inv (app_fs s')"
  using window_event_effect [OF assms(2)]
proof
  assume "\<exists>f k. s' = run_db f k s \<and>
            (\<forall>d d'. f d = Inr d' \<longrightarrow> (if doctor_window w then doctor_step d d' else callback_step d d'))"
  then obtain f k where s': "s' = run_db f k s"
    and f: "\<And>d d'. f d = Inr d' \<Longrightarrow> (if doctor_window w then doctor_step d d' else callback_step d d')"
    by blast
  have "db_inv d'" if "db_inv d" "f d = Inr d'" for d d'
    using f [OF that(2)] that(1) by (auto intro: callback_step_db_inv doctor_step_db_inv split: if_splits)
  from run_db_fs_inv [OF this assms(1)] s' show ?thesis by simp
qed (use assms(1) in simp)

lemma app_step_fs_inv:
  "fs_inv (app_fs s) \<Longrightarrow> app_step e s = Some s' \<Longrightarrow> fs_inv (app_fs s')"
  by (auto simp: app_step_def intro: main_event_fs_inv window_event_fs_inv split: option.splits if_splits)

lemma setup_database_db_inv:
  assumes "case f of None \<Rightarrow> True | Some d \<Rightarrow> db_inv d" and "setup_database f = Inr d'"
  shows "db_inv d'"
proof -
  let ?d = "case f of None \<Rightarrow> empty_db | Some d \<Rightarrow> d"
  have inv: "db_inv ?d" using assms(1) db_inv_empty by (simp split: option.splits)
  show ?thesis
  proof (cases "rows (users ?d) = []")
    case True
    with assms(2) obtain i u where "table_insert admin_user (users ?d) = Inr (i, u)" "d' = ?d\<lparr>users := u\<rparr>"
      by (auto simp: setup_database_def Let_def split: sum.splits)
    with db_inv_insert(4) [OF inv] show ?thesis by simp
  next
    case False
    with assms(2) inv show ?thesis by (simp add: setup_database_def Let_def)
  qed
qed

lemma main_start_fs_inv:
  assumes "fs_inv fs" and "main_start fs = Some s"
  shows "fs_inv (app_fs s)"
proof -
  obtain d' f where f: "setup_database f = Inr d'" "s = \<lparr>app_fs = store_db d' fs, app_windows = []\<rparr>"
    and inv: "case f of None \<Rightarrow> True | Some d \<Rightarrow> db_inv d"
    using assms fs_inv_node [OF assms(1), of db_file]
    by (auto simp: main_start_def node_inv_def split: option.splits fnode.splits fcontent.splits sum.splits)
  from setup_database_db_inv [OF inv f(1)] assms(1) f(2) show ?thesis by (simp add: fs_inv_store)
qed

lemma reachable_fs_inv: "reachable s \<Longrightarrow> fs_inv (app_fs s)"
  by (induction rule: reachable.induct) (auto intro: main_start_fs_inv app_step_fs_inv)

text \<open>Closing the window opened last.\<close>

lemma remove_nth_last [simp]: "remove_nth (length ws) (ws @ [w]) = ws"
  by (simp add: remove_nth_def)

lemma list_ex_remove_nth: "\<not> list_ex P xs \<Longrightarrow> \<not> list_ex P (remove_nth i xs)"
  by (auto simp: remove_nth_def list_ex_iff dest: in_set_takeD in_set_dropD)

lemma list_ex_update: "\<not> list_ex P xs \<Longrightarrow> \<not> P x \<Longrightarrow> \<not> list_ex P (xs[i := x])"
  by (auto simp: list_ex_iff dest: set_update_subset_insert [THEN subsetD])

lemma main_event_no_doctor_window:
  "main_event e s = Some s' \<Longrightarrow> \<not> list_ex doctor_window (app_windows s) \<Longrightarrow>
   \<not> list_ex doctor_window (app_windows s')"
  by (cases e) (auto simp: open_with_db_def view_doctors_def file_op_def
      split: option.splits sum.splits prod.splits)

lemma window_event_no_doctor_window:
  assumes "window_event e w i s = Some s'" and "\<not> doctor_window w"
    and "\<not> list_ex doctor_window (app_windows s)"
  shows "\<not> list_ex doctor_window (app_windows s')"
  using assms
  by (cases e; cases w)
     (auto simp: window_event_defs run_db_def open_row_def open_with_db_def open_patient_edit_def
        delete_in_list_def search_in_def Let_def
        list_ex_remove_nth list_ex_update split: if_splits option.splits sum.splits)

lemma app_step_no_doctor_window:
  assumes "app_step e s = Some s'" and "\<not> list_ex doctor_window (app_windows s)"
  shows "\<not> list_ex doctor_window (app_windows s')"
proof (cases "event_window e")
  case None
  with assms(1) have "main_event e s = Some s'" by (simp add: app_step_def)
  from main_event_no_doctor_window [OF this assms(2)] show ?thesis .
next
  case (Some i)
  with assms(1) have i: "i < length (app_windows s)"
    and w: "window_event e (app_windows s ! i) i s = Some s'"
    by (auto simp: app_step_def split: if_splits)
  from i assms(2) have "\<not> doctor_window (app_windows s ! i)"
    by (auto simp: list_ex_iff)
  from window_event_no_doctor_window [OF w this assms(2)] show ?thesis .
qed

lemma main_start_windows: "main_start fs = Some s \<Longrightarrow> app_windows s = []"
  by (auto simp: main_start_def split: sum.splits)

lemma shutil_copy_src: "shutil_copy src dst fs = Inr fs' \<Longrightarrow> fs' src = fs src"
  by (auto simp: shutil_copy_def Let_def split: option.splits fnode.splits if_splits)

lemma run_db_load:
  assumes "load_db (app_fs s) = Some d" and "load_db (app_fs (run_db f k s)) = Some d'"
  shows "d' = d \<or> f d = Inr d'"
  using assms by (auto simp: run_db_def split: sum.splits)

lemma run_db_load_None: "load_db (app_fs s) = None \<Longrightarrow> run_db f k s = s"
  by (simp add: run_db_def)

lemma export_db_file:
  "export_appointments_to_csv d p fs = Inr fs' \<Longrightarrow> load_db fs' = None \<or> fs' db_file = fs db_file"
  by (auto simp: export_appointments_to_csv_def Let_def load_db_def split: if_splits)

lemma backup_db_file: "backup_database p fs = Inr fs' \<Longrightarrow> fs' db_file = fs db_file"
  by (auto simp: backup_database_def dest: shutil_copy_src split: if_splits sum.splits)

lemma main_event_load:
  assumes "main_event e s = Some s'" and "\<not> is_restore e"
  shows "load_db (app_fs s') = None \<or> load_db (app_fs s') = load_db (app_fs s)"
proof (cases e)
  case (ExportCsv p)
  with assms show ?thesis
    by (auto simp: file_op_def load_db_def dest!: export_db_file split: option.splits sum.splits)
next
  case (Backup p)
  with assms show ?thesis
    by (auto simp: file_op_def load_db_def dest!: backup_db_file split: sum.splits)
qed (use assms in auto)

lemma app_step_load:
  assumes "app_step e s = Some s'" and "\<not> is_restore e"
    and "\<not> list_ex doctor_window (app_windows s)"
  shows "load_db (app_fs s') = None \<or> load_db (app_fs s') = load_db (app_fs s) \<or>
         (\<exists>d d'. load_db (app_fs s) = Some d \<and> load_db (app_fs s') = Some d' \<and> callback_step d d')"
proof (cases "event_window e")
  case None
  with assms(1) have "main_event e s = Some s'" by (simp add: app_step_def)
  from main_event_load [OF this assms(2)] show ?thesis by blast
next
  case (Some i)
  with assms(1) have i: "i < length (app_windows s)"
    and w: "window_event e (app_windows s ! i) i s = Some s'"
    by (auto simp: app_step_def split: if_splits)
  from i assms(3) have nd: "\<not> doctor_window (app_windows s ! i)"
    by (auto simp: list_ex_iff)
  from window_event_effect [OF w] show ?thesis
  proof
    assume "\<exists>f k. s' = run_db f k s \<and> (\<forall>d d'. f d = Inr d' \<longrightarrow>
        (if doctor_window (app_windows s ! i) then doctor_step d d' else callback_step d d'))"
    with nd obtain f k where s': "s' = run_db f k s"
      and f: "\<And>d d'. f d = Inr d' \<Longrightarrow> callback_step d d'" by auto
    show ?thesis
    proof (cases "load_db (app_fs s)")
      case None
      then show ?thesis using s' by (simp add: run_db_load_None)
    next
      case (Some d)
      show ?thesis
      proof (cases "load_db (app_fs s')")
        case (Some d')
        with \<open>load_db (app_fs s) = Some d\<close> s' run_db_load [of s d f k d'] f show ?thesis by auto
      qed simp
    qed
  qed simp
qed

lemma table_grows_refl [simp]: "table_grows t t"
  by (simp add: table_grows_def)

lemma table_grows_trans: "table_grows t1 t2 \<Longrightarrow> table_grows t2 t3 \<Longrightarrow> table_grows t1 t3"
  by (fastforce simp: table_grows_def)

lemma table_insert_grows: "table_insert r t = Inr (i, t') \<Longrightarrow> table_grows t t'"
  using table_insert_fresh [of r t i t'] table_insert_result [of r t i t']
  by (auto simp: table_grows_def table_ids_def)

lemma table_delete_grows [simp]: "table_grows t (table_delete i t)"
  by (auto simp: table_grows_def table_ids_def table_delete_def)

lemma table_update_grows [simp]: "table_grows t (table_update i g t)"
  by (auto simp: table_grows_def table_ids_def table_update_def image_iff)

lemma table_insert_prefix: "table_insert r t = Inr (i, t') \<Longrightarrow> prefix (rows t) (rows t')"
  using table_insert_result [of r t i t'] by simp

lemma db_grows_refl [simp]: "db_grows d d"
  by (simp add: db_grows_def)

lemma db_grows_trans: "db_grows d1 d2 \<Longrightarrow> db_grows d2 d3 \<Longrightarrow> db_grows d1 d3"
  by (auto simp: db_grows_def intro: table_grows_trans prefix_order.order_trans)

lemma db_grows_update:
  "table_grows (patients d) t1 \<Longrightarrow> db_grows d (d\<lparr>patients := t1\<rparr>)"
  "table_grows (doctors d) t2 \<Longrightarrow> prefix (rows (doctors d)) (rows t2) \<Longrightarrow> db_grows d (d\<lparr>doctors := t2\<rparr>)"
  "table_grows (appointments d) t3 \<Longrightarrow> db_grows d (d\<lparr>appointments := t3\<rparr>)"
  by (simp_all add: db_grows_def)

lemma callback_step_grows: "callback_step d d' \<Longrightarrow> db_grows d d'"
proof (induction rule: callback_step.induct)
  case (1 n a ad c d d')
  from save_patient_Inr [OF this] obtain p i where
    ins: "table_insert p (patients d) = Inr (i, patients d')" and eq: "d' = d\<lparr>patients := patients d'\<rparr>"
    by blast
  show ?case by (subst eq) (rule db_grows_update(1) [OF table_insert_grows [OF ins]])
next
  case (2 n sp sc d d')
  from save_doctor_Inr [OF this] obtain r i where
    ins: "table_insert r (doctors d) = Inr (i, doctors d')" and eq: "d' = d\<lparr>doctors := doctors d'\<rparr>"
    by blast
  show ?case
    by (subst eq) (rule db_grows_update(2) [OF table_insert_grows [OF ins] table_insert_prefix [OF ins]])
next
  case (3 sp sd dt tm d d')
  from save_appointment_Inr [OF this] obtain a i where
    ins: "table_insert a (appointments d) = Inr (i, appointments d')"
    and eq: "d' = d\<lparr>appointments := appointments d'\<rparr>"
    by blast
  show ?case by (subst eq) (rule db_grows_update(3) [OF table_insert_grows [OF ins]])
next
  case (4 pid n a ad c d d')
  then show ?case
    by (auto simp: update_patient_def db_grows_update split: sum.splits prod.splits)
next
  case (5 sel cf d d')
  then show ?case
    by (auto simp: delete_patient_def db_grows_update split: option.splits if_splits)
next
  case (6 sel cf d d')
  then show ?case
    by (auto simp: delete_appointment_def db_grows_update split: option.splits if_splits)
qed

lemma app_step_load_None:
  assumes "app_step e s = Some s'" and "\<not> is_restore e" and "\<not> list_ex doctor_window (app_windows s)"
    and "load_db (app_fs s) = None"
  shows "load_db (app_fs s') = None"
  using app_step_load [OF assms(1-3)] assms(4) by auto

lemma reachable_no_doctor_window: "reachable s \<Longrightarrow> \<not> list_ex doctor_window (app_windows s)"
  by (induction rule: reachable.induct) (auto dest: main_start_windows app_step_no_doctor_window)

lemma app_run_reachable: "app_run es s = Some s' \<Longrightarrow> reachable s \<Longrightarrow> reachable s'"
  by (induction es arbitrary: s) (auto intro: reachable.step split: option.splits)

lemma app_run_load_None:
  "app_run es s = Some s' \<Longrightarrow> reachable s \<Longrightarrow> list_all (\<lambda>e. \<not> is_restore e) es \<Longrightarrow>
   load_db (app_fs s) = None \<Longrightarrow> load_db (app_fs s') = None"
proof (induction es arbitrary: s)
  case (Cons e es)
  then obtain s1 where s1: "app_step e s = Some s1" and r: "app_run es s1 = Some s'"
    by (auto split: option.splits)
  have "load_db (app_fs s1) = None"
    using app_step_load_None [OF s1 _ reachable_no_doctor_window] Cons.prems by simp
  with Cons.IH [OF r] reachable.step [OF Cons.prems(2) s1] Cons.prems(3) show ?case by simp
qed simp

lemma main_start_empty:
  "main_start Map.empty = Some \<lparr>app_fs = [''hospital.db'' \<mapsto> File (DbImage (empty_db\<lparr>users := \<lparr>rows = [(1, admin_user)], seq = 1\<rparr>\<rparr>))], app_windows = []\<rparr>"
  by (simp add: main_start_def setup_database_def table_simps table_insert_def store_db_def db_file_def)

lemma fs_inv_empty: "fs_inv Map.empty"
  by (simp add: fs_inv_def)

lemma run_register_ana:
  "app_run [OpenRegisterPatient, ClickSavePatient 0 ''Ana'' ''30'' ''Rua A'' ''555''] \<lparr>app_fs = [''hospital.db'' \<mapsto> File (DbImage (empty_db\<lparr>users := \<lparr>rows = [(1, admin_user)], seq = 1\<rparr>\<rparr>))], app_windows = []\<rparr> = Some \<lparr>app_fs = [''hospital.db'' \<mapsto> File (DbImage (empty_db\<lparr>patients := \<lparr>rows = [(1, make_patient ''Ana'' 30 ''Rua A'' ''555'')], seq = 1\<rparr>, users := \<lparr>rows = [(1, admin_user)], seq = 1\<rparr>\<rparr>))], app_windows = []\<rparr>"
  by (simp add: app_step_def window_event_defs run_db_def load_db_def db_file_def store_db_def save_patient_def patient_fields_def py_simps table_simps table_insert_def remove_nth_def Let_def)

lemma reachable_register_ana: "reachable \<lparr>app_fs = [''hospital.db'' \<mapsto> File (DbImage (empty_db\<lparr>patients := \<lparr>rows = [(1, make_patient ''Ana'' 30 ''Rua A'' ''555'')], seq = 1\<rparr>, users := \<lparr>rows = [(1, admin_user)], seq = 1\<rparr>\<rparr>))], app_windows = []\<rparr>"
  using app_run_reachable [OF run_register_ana reachable.start [OF fs_inv_empty main_start_empty]] .

lemma patient_fields_row_ok:
  "patient_fields name age address contact = Inr (n, a, ad, c) \<Longrightarrow> patient_row_ok (make_patient n w ad c)"
  by (auto simp: patient_fields_Inr_iff patient_row_ok_def make_patient_def py_strip_idem)

lemma tk_mainloop_exit_at:
  "ends_loop (ev (n + k)) \<Longrightarrow> (\<forall>j<k. \<not> ends_loop (ev (n + j))) \<Longrightarrow>
   tk_mainloop ev n s = Some (app_run_skip (map ev [n..<n + k]) s)"
proof (induction k arbitrary: n s)
  case 0
  then show ?case by (simp add: tk_mainloop.simps)
next
  case (Suc k)
  from Suc.prems(2) have ne: "\<not> ends_loop (ev n)" by (metis add_0_right zero_less_Suc)
  have "ends_loop (ev (Suc n + k))" "\<forall>j<k. \<not> ends_loop (ev (Suc n + j))"
    using Suc.prems by auto
  note IH = Suc.IH [OF this]
  have "[n..<n + Suc k] = n # [Suc n..<Suc n + k]" by (simp add: upt_rec)
  with ne IH show ?case by (simp add: tk_mainloop.simps [of ev n])
qed

lemma table_ids_delete: "table_ids (table_delete i t) = table_ids t - {i}"
  by (auto simp: table_ids_def table_delete_def)

lemma set_remove_nth: "distinct xs \<Longrightarrow> k < length xs \<Longrightarrow> set (remove_nth k xs) = set xs - {xs ! k}"
proof -
  assume d: "distinct xs" and k: "k < length xs"
  have xs: "xs = take k xs @ xs ! k # drop (Suc k) xs" using k by (rule id_take_nth_drop)
  with d have "distinct (take k xs @ xs ! k # drop (Suc k) xs)" by simp
  then have "xs ! k \<notin> set (take k xs) \<union> set (drop (Suc k) xs)" by auto
  then show ?thesis unfolding remove_nth_def by (subst (2) xs) auto
qed

lemma load_db_file: "load_db fs = Some d \<Longrightarrow> fs db_file = Some (File (DbImage d))"
  by (auto simp: load_db_def split: option.splits fnode.splits fcontent.splits)

subsection \<open>Properties\<close>

text \<open>C17. No reachable step runs \<open>delete_doctor\<close> or \<open>update_doctor\<close>: the doctor
  list and edit windows never open, because the \<open>view_doctors\<close> bound at run time is
  the stub of line 925. Apart from a restore, a step leaves the database as it was or
  changes it by one of the six callbacks of the other windows.\<close>

theorem reachable_step_callbacks:
  assumes "reachable s" and "app_step e s = Some s'" and "\<not> is_restore e"
    and "load_db (app_fs s) = Some d" and "load_db (app_fs s') = Some d'"
  shows "d' = d \<or> callback_step d d'"
  using app_step_load [OF assms(2,3) reachable_no_doctor_window [OF assms(1)]] assms(4,5) by auto

theorem reachable_step_callbacks_witness:
  "(empty_db\<lparr>patients := \<lparr>rows = [(1, make_patient ''Ana'' 30 ''Rua A'' ''555'')], seq = 1\<rparr>, users := \<lparr>rows = [(1, admin_user)], seq = 1\<rparr>\<rparr>) = empty_db\<lparr>users := \<lparr>rows = [(1, admin_user)], seq = 1\<rparr>\<rparr> \<or> callback_step (empty_db\<lparr>users := \<lparr>rows = [(1, admin_user)], seq = 1\<rparr>\<rparr>) (empty_db\<lparr>patients := \<lparr>rows = [(1, make_patient ''Ana'' 30 ''Rua A'' ''555'')], seq = 1\<rparr>, users := \<lparr>rows = [(1, admin_user)], seq = 1\<rparr>\<rparr>)"
proof -
  have s1: "app_step OpenRegisterPatient \<lparr>app_fs = [''hospital.db'' \<mapsto> File (DbImage (empty_db\<lparr>users := \<lparr>rows = [(1, admin_user)], seq = 1\<rparr>\<rparr>))], app_windows = []\<rparr> =
      Some \<lparr>app_fs = [''hospital.db'' \<mapsto> File (DbImage (empty_db\<lparr>users := \<lparr>rows = [(1, admin_user)], seq = 1\<rparr>\<rparr>))], app_windows = [RegisterPatientW]\<rparr>"
    by (simp add: app_step_def)
  have r1: "reachable \<lparr>app_fs = [''hospital.db'' \<mapsto> File (DbImage (empty_db\<lparr>users := \<lparr>rows = [(1, admin_user)], seq = 1\<rparr>\<rparr>))], app_windows = [RegisterPatientW]\<rparr>"
    using reachable.step [OF reachable.start [OF fs_inv_empty main_start_empty] s1] .
  have s2: "app_step (ClickSavePatient 0 ''Ana'' ''30'' ''Rua A'' ''555'')
      \<lparr>app_fs = [''hospital.db'' \<mapsto> File (DbImage (empty_db\<lparr>users := \<lparr>rows = [(1, admin_user)], seq = 1\<rparr>\<rparr>))], app_windows = [RegisterPatientW]\<rparr> = Some \<lparr>app_fs = [''hospital.db'' \<mapsto> File (DbImage (empty_db\<lparr>patients := \<lparr>rows = [(1, make_patient ''Ana'' 30 ''Rua A'' ''555'')], seq = 1\<rparr>, users := \<lparr>rows = [(1, admin_user)], seq = 1\<rparr>\<rparr>))], app_windows = []\<rparr>"
    by (simp add: app_step_def window_event_defs run_db_def load_db_def db_file_def store_db_def save_patient_def patient_fields_def py_simps table_simps table_insert_def remove_nth_def Let_def)
  show ?thesis
    using reachable_step_callbacks [OF r1 s2] by (simp add: load_db_def db_file_def)
qed

text \<open>C18. Along any run without a restore, from a reachable state whose database is
  readable to one whose database is readable: no table's sequence goes back, every id
  present at the end and absent at the start is above the starting sequence (no id is
  handed out twice), and the doctor rows of the start are an unchanged prefix of those
  at the end (doctors are never edited or deleted).\<close>

theorem app_run_no_id_reuse:
  assumes "reachable s" and "app_run es s = Some s'" and "list_all (\<lambda>e. \<not> is_restore e) es"
    and "load_db (app_fs s) = Some d" and "load_db (app_fs s') = Some d'"
  shows "db_grows d d'"
  using assms(2,1,3-5)
proof (induction es arbitrary: s d)
  case Nil
  then show ?case by simp
next
  case (Cons e es)
  then obtain s1 where s1: "app_step e s = Some s1" and r: "app_run es s1 = Some s'"
    by (auto split: option.splits)
  have r1: "reachable s1" using reachable.step [OF Cons.prems(2) s1] .
  have ne: "\<not> is_restore e" and nes: "list_all (\<lambda>e. \<not> is_restore e) es" using Cons.prems(3) by simp_all
  show ?case
  proof (cases "load_db (app_fs s1)")
    case None
    with app_run_load_None [OF r r1 nes] Cons.prems(5) show ?thesis by simp
  next
    case (Some d1)
    have "db_grows d d1"
      using app_step_load [OF s1 ne reachable_no_doctor_window [OF Cons.prems(2)]] Cons.prems(4) Some
      by (auto dest: callback_step_grows)
    from this Cons.IH [OF r r1 nes Some Cons.prems(5)] show ?thesis by (rule db_grows_trans)
  qed
qed

theorem app_run_no_id_reuse_witness: "db_grows (empty_db\<lparr>users := \<lparr>rows = [(1, admin_user)], seq = 1\<rparr>\<rparr>) (empty_db\<lparr>patients := \<lparr>rows = [(1, make_patient ''Ana'' 30 ''Rua A'' ''555'')], seq = 1\<rparr>, users := \<lparr>rows = [(1, admin_user)], seq = 1\<rparr>\<rparr>)"
  using app_run_no_id_reuse [OF reachable.start [OF fs_inv_empty main_start_empty] run_register_ana]
  by (simp add: load_db_def db_file_def)

text \<open>C19. A restore rolls back \<open>sqlite_sequence\<close> with the rest of the file, so
  an id handed out after the backup is handed out again: from any reachable state
  with a readable database, back up to a new path, register a patient, restore from
  that backup and register another patient; both get the same id, the next one after
  the backed-up sequence.\<close>

theorem restore_reuses_id:
  assumes "reachable s" and "load_db (app_fs s) = Some d" and "seq (patients d) \<noteq> max_rowid"
    and "p \<noteq> []" and "p \<noteq> db_file" and "app_fs s p = None"
    and "py_strip nA \<noteq> []" "py_strip adA \<noteq> []" "py_strip cA \<noteq> []"
    and "py_int aA = Some xA" "- (2 ^ 63) \<le> xA" "xA < 2 ^ 63"
    and "py_strip nB \<noteq> []" "py_strip adB \<noteq> []" "py_strip cB \<noteq> []"
    and "py_int aB = Some xB" "- (2 ^ 63) \<le> xB" "xB < 2 ^ 63"
  shows "\<exists>s1 s2 d1 d2.
     app_run [Backup p, OpenRegisterPatient, ClickSavePatient (length (app_windows s)) nA aA adA cA] s = Some s1 \<and>
     app_run [Restore p True, OpenRegisterPatient, ClickSavePatient (length (app_windows s)) nB aB adB cB] s1 = Some s2 \<and>
     load_db (app_fs s1) = Some d1 \<and> load_db (app_fs s2) = Some d2 \<and>
     table_lookup (patients d1) (Suc (seq (patients d))) =
       Some (make_patient (py_strip nA) (word_of_int xA) (py_strip adA) (py_strip cA)) \<and>
     table_lookup (patients d2) (Suc (seq (patients d))) =
       Some (make_patient (py_strip nB) (word_of_int xB) (py_strip adB) (py_strip cB))"
proof -
  have inv: "db_inv d" using reachable_fs_inv [OF assms(1)] assms(2) by (rule fs_inv_load)
  have "Suc (seq (patients d)) \<notin> table_ids (patients d)"
    using inv by (auto simp: db_inv_def dest: table_ids_le_seq)
  then have fresh: "Suc (seq (patients d)) \<notin> fst ` set (rows (patients d))"
    by (simp add: table_ids_def)
  have f: "app_fs s db_file = Some (File (DbImage d))" using assms(2) by (rule load_db_file)
  have bk: "backup_database p (app_fs s) = Inr ((app_fs s)(p \<mapsto> File (DbImage d)))"
    using f assms(4-6) by (simp add: backup_database_def shutil_copy_file)
  have "load_db ((app_fs s)(p \<mapsto> File (DbImage d))) = Some d"
    using assms(2,5) by (simp add: load_db_def)
  note sp1 = save_patient_valid [OF inv assms(7-12)] and sp2 = save_patient_valid [OF inv assms(13-18)]
  let ?d1 = "d\<lparr>patients := \<lparr>rows = rows (patients d) @ [(Suc (seq (patients d)),
                 make_patient (py_strip nA) (word_of_int xA) (py_strip adA) (py_strip cA))],
              seq = Suc (seq (patients d))\<rparr>\<rparr>"
  let ?fs1 = "store_db ?d1 ((app_fs s)(p \<mapsto> File (DbImage d)))"
  have run1: "app_run [Backup p, OpenRegisterPatient, ClickSavePatient (length (app_windows s)) nA aA adA cA] s =
              Some \<lparr>app_fs = ?fs1, app_windows = app_windows s\<rparr>"
    using bk sp1 assms(2,3,5) by (simp add: app_step_def window_event_defs run_db_def file_op_def load_db_def)
  have rs: "restore_database p True ?fs1 = Inr ((?fs1)(db_file \<mapsto> File (DbImage d)))"
    using assms(4,5) by (simp add: restore_database_def shutil_copy_file store_db_def)
  let ?d2 = "d\<lparr>patients := \<lparr>rows = rows (patients d) @ [(Suc (seq (patients d)),
                 make_patient (py_strip nB) (word_of_int xB) (py_strip adB) (py_strip cB))],
              seq = Suc (seq (patients d))\<rparr>\<rparr>"
  have run2: "\<exists>s2. app_run [Restore p True, OpenRegisterPatient, ClickSavePatient (length (app_windows s)) nB aB adB cB]
                \<lparr>app_fs = ?fs1, app_windows = app_windows s\<rparr> = Some s2 \<and> load_db (app_fs s2) = Some ?d2"
    using rs sp2 assms(3) by (simp add: app_step_def window_event_defs run_db_def file_op_def load_db_def store_db_def)
  then obtain s2 where r2: "app_run [Restore p True, OpenRegisterPatient,
        ClickSavePatient (length (app_windows s)) nB aB adB cB] \<lparr>app_fs = ?fs1, app_windows = app_windows s\<rparr> = Some s2"
    and l2: "load_db (app_fs s2) = Some ?d2" by blast
  have l1: "load_db (app_fs \<lparr>app_fs = ?fs1, app_windows = app_windows s\<rparr>) = Some ?d1"
    by (simp add: load_store)
  have "table_lookup (patients ?d1) (Suc (seq (patients d))) =
          Some (make_patient (py_strip nA) (word_of_int xA) (py_strip adA) (py_strip cA))"
       "table_lookup (patients ?d2) (Suc (seq (patients d))) =
          Some (make_patient (py_strip nB) (word_of_int xB) (py_strip adB) (py_strip cB))"
    using fresh by (simp_all add: table_lookup_def map_add_dom_app_simps dom_map_of_conv_image_fst)
  with run1 r2 l1 l2 show ?thesis by blast
qed
theorem restore_reuses_id_witness:
  "\<exists>s1 s2 d1 d2.
     app_run [Backup ''/b/backup.db'', OpenRegisterPatient, ClickSavePatient 0 ''Ana'' ''30'' ''Rua A'' ''555''] \<lparr>app_fs = [''hospital.db'' \<mapsto> File (DbImage (empty_db\<lparr>users := \<lparr>rows = [(1, admin_user)], seq = 1\<rparr>\<rparr>))], app_windows = []\<rparr> = Some s1 \<and>
     app_run [Restore ''/b/backup.db'' True, OpenRegisterPatient, ClickSavePatient 0 ''Bia'' ''41'' ''Rua B'' ''556''] s1 = Some s2 \<and>
     load_db (app_fs s1) = Some d1 \<and> load_db (app_fs s2) = Some d2 \<and>
     table_lookup (patients d1) 1 = Some (make_patient ''Ana'' 30 ''Rua A'' ''555'') \<and>
     table_lookup (patients d2) 1 = Some (make_patient ''Bia'' 41 ''Rua B'' ''556'')"
  using restore_reuses_id [where d = "empty_db\<lparr>users := \<lparr>rows = [(1, admin_user)], seq = 1\<rparr>\<rparr>" and p = "''/b/backup.db''" and nA = "''Ana''" and adA = "''Rua A''" and cA = "''555''"
      and aA = "''30''" and xA = 30 and nB = "''Bia''" and adB = "''Rua B''" and cB = "''556''" and aB = "''41''" and xB = 41,
      OF reachable.start [OF fs_inv_empty main_start_empty]]
  by (simp add: load_db_def db_file_def max_rowid_def py_simps empty_db_def empty_table_def)

text \<open>C20. From any reachable state whose database is readable, opening the
  registration form and saving it with four non-empty entries and an age that reads as
  a 64-bit integer appends the patient with the next id and closes the form, unless the
  table's sequence is at the largest rowid.\<close>

theorem register_patient_progress:
  assumes "reachable s" and "load_db (app_fs s) = Some d"
    and "py_strip name \<noteq> []" "py_strip address \<noteq> []" "py_strip contact \<noteq> []"
    and "py_int age = Some a" "- (2 ^ 63) \<le> a" "a < 2 ^ 63"
    and "seq (patients d) \<noteq> max_rowid"
  shows "\<exists>s'. app_run [OpenRegisterPatient, ClickSavePatient (length (app_windows s)) name age address contact] s
                 = Some s' \<and> app_windows s' = app_windows s \<and>
               load_db (app_fs s') = Some (d\<lparr>patients := \<lparr>rows = rows (patients d) @
                   [(Suc (seq (patients d)),
                     make_patient (py_strip name) (word_of_int a) (py_strip address) (py_strip contact))],
                  seq = Suc (seq (patients d))\<rparr>\<rparr>)"
proof -
  have inv: "db_inv d" using reachable_fs_inv [OF assms(1)] assms(2) by (rule fs_inv_load)
  note sp = save_patient_valid [OF inv assms(3-8)]
  with assms(2,9) show ?thesis
    by (simp add: app_step_def window_event_defs run_db_def)
qed

theorem register_patient_progress_witness:
  "\<exists>s'. app_run [OpenRegisterPatient, ClickSavePatient 0 ''Ana'' ''30'' ''Rua A'' ''555''] \<lparr>app_fs = [''hospital.db'' \<mapsto> File (DbImage (empty_db\<lparr>users := \<lparr>rows = [(1, admin_user)], seq = 1\<rparr>\<rparr>))], app_windows = []\<rparr> = Some s' \<and>
        app_windows s' = [] \<and>
        load_db (app_fs s') = Some ((empty_db\<lparr>users := \<lparr>rows = [(1, admin_user)], seq = 1\<rparr>\<rparr>)\<lparr>patients := \<lparr>rows = [(1, make_patient ''Ana'' 30 ''Rua A'' ''555'')], seq = 1\<rparr>\<rparr>)"
  using register_patient_progress [OF reachable.start [OF fs_inv_empty main_start_empty], of "empty_db\<lparr>users := \<lparr>rows = [(1, admin_user)], seq = 1\<rparr>\<rparr>"
      "''Ana''" "''Rua A''" "''555''" "''30''" 30]
  by (simp add: load_db_def db_file_def py_simps table_simps)

text \<open>C27. Double-clicking a row of a patient list or of the search results whose
  patient has been deleted since the list was filled opens no edit form: the
  \<open>SELECT\<close> of \<open>edit_patient\<close> finds nothing and the state is unchanged.\<close>

theorem stale_row_opens_nothing:
  assumes "load_db (app_fs s) = Some d" and "i < length (app_windows s)"
    and "app_windows s ! i = PatientListW ids \<or> app_windows s ! i = SearchW ids"
    and "k < length ids" and "table_lookup (patients d) (ids ! k) = None"
  shows "app_step (DoubleClickRow i k) s = Some s"
  using assms
  by (auto simp: app_step_def window_event_defs open_row_def open_with_db_def open_patient_edit_def
      edit_patient_def)

theorem stale_row_opens_nothing_witness:
  "app_step (DoubleClickRow 0 0) \<lparr>app_fs = [''hospital.db'' \<mapsto> File (DbImage empty_db)], app_windows = [PatientListW [7]]\<rparr> =
     Some \<lparr>app_fs = [''hospital.db'' \<mapsto> File (DbImage empty_db)], app_windows = [PatientListW [7]]\<rparr>"
  using stale_row_opens_nothing [of "\<lparr>app_fs = [''hospital.db'' \<mapsto> File (DbImage empty_db)], app_windows = [PatientListW [7]]\<rparr>"
      empty_db 0 "[7]" 0]
  by (simp add: load_db_def db_file_def table_simps table_lookup_def)

text \<open>C28. Every callback that writes keeps the patient rows well formed: if every stored
  patient has stripped, non-empty name, address and contact, so does every patient
  after the callback (registration and edit strip and check the entries; the other
  callbacks add no patient). This is the hypothesis of the edit round trip (C4).\<close>

theorem callback_step_patients_ok:
  assumes "callback_step d d'" and "patients_ok d"
  shows "patients_ok d'"
  using assms
proof (induction rule: callback_step.induct)
  case (1 n a ad c d d')
  from save_patient_Inr [OF 1(1)] obtain n' a' ad' c' w i where
    f: "patient_fields n a ad c = Inr (n', a', ad', c')"
    and ins: "table_insert (make_patient n' w ad' c') (patients d) = Inr (i, patients d')"
    and eq: "d' = d\<lparr>patients := patients d'\<rparr>"
    by blast
  from table_insert_result [OF ins] patient_fields_row_ok [OF f, of w] 1(2) show ?case
    by (simp add: patients_ok_def)
next
  case (4 pid n a ad c d d')
  from 4(1) obtain n' a' ad' c' w where f: "patient_fields n a ad c = Inr (n', a', ad', c')"
    and d': "d' = d\<lparr>patients := table_update pid (\<lambda>_. make_patient n' w ad' c') (patients d)\<rparr>"
    by (auto simp: update_patient_def split: sum.splits prod.splits)
  have "patient_row_ok (make_patient n' w ad' c')" by (rule patient_fields_row_ok [OF f])
  with 4(2) d' show ?case
    by (auto simp: patients_ok_def table_update_def list_all_iff)
next
  case (5 sel cf d d')
  then show ?case
    by (auto simp: delete_patient_def patients_ok_def table_delete_def list_all_iff
        split: option.splits if_splits)
next
  case (2 n sp sc d d')
  from save_doctor_Inr [OF 2(1)] obtain doc i where eq: "d' = d\<lparr>doctors := doctors d'\<rparr>" by blast
  have "patients d' = patients d" by (subst eq) simp
  with 2(2) show ?case by (simp add: patients_ok_def)
next
  case (3 sp sd dt tm d d')
  from save_appointment_Inr [OF 3(1)] obtain a i where eq: "d' = d\<lparr>appointments := appointments d'\<rparr>"
    by blast
  have "patients d' = patients d" by (subst eq) simp
  with 3(2) show ?case by (simp add: patients_ok_def)
qed (auto simp: patients_ok_def delete_appointment_def split: option.splits if_splits)

theorem callback_step_patients_ok_witness: "patients_ok (empty_db\<lparr>patients := \<lparr>rows = [(1, make_patient ''Ana'' 30 ''Rua A'' ''555'')], seq = 1\<rparr>, users := \<lparr>rows = [(1, admin_user)], seq = 1\<rparr>\<rparr>)"
proof -
  have s: "save_patient ''Ana'' ''30'' ''Rua A'' ''555'' (empty_db\<lparr>users := \<lparr>rows = [(1, admin_user)], seq = 1\<rparr>\<rparr>) = Inr (empty_db\<lparr>patients := \<lparr>rows = [(1, make_patient ''Ana'' 30 ''Rua A'' ''555'')], seq = 1\<rparr>, users := \<lparr>rows = [(1, admin_user)], seq = 1\<rparr>\<rparr>)"
    by (simp add: save_patient_def patient_fields_def py_simps table_simps table_insert_def Let_def)
  show ?thesis
    using callback_step_patients_ok [OF callback_step.intros(1) [OF s]] by (simp add: patients_ok_def table_simps)
qed

text \<open>C31. A confirmed delete in the search results window
  (\<open>delete_patient_search\<close>) removes the selected patient from the database and its
  row from the results, and every other listed patient stays stored: a result list
  of stored patients stays a list of stored patients.\<close>

theorem search_delete_consistent:
  assumes "i < length (app_windows s)" and "app_windows s ! i = SearchW ids"
    and "k < length ids" and "distinct ids" and "load_db (app_fs s) = Some d"
    and "set ids \<subseteq> table_ids (patients d)"
  shows "\<exists>s' d'. app_step (ClickDelete i (Some k) True) s = Some s' \<and> load_db (app_fs s') = Some d' \<and>
           table_lookup (patients d') (ids ! k) = None \<and>
           app_windows s' = (app_windows s)[i := SearchW (remove_nth k ids)] \<and>
           set (remove_nth k ids) \<subseteq> table_ids (patients d')"
proof -
  let ?d' = "d\<lparr>patients := table_delete (ids ! k) (patients d)\<rparr>"
  let ?s' = "\<lparr>app_fs = store_db ?d' (app_fs s), app_windows = (app_windows s)[i := SearchW (remove_nth k ids)]\<rparr>"
  have step: "app_step (ClickDelete i (Some k) True) s = Some ?s'"
    using assms(1,2,3,5) by (simp add: app_step_def window_event_defs delete_in_list_def run_db_def delete_patient_def)
  have "set (remove_nth k ids) \<subseteq> table_ids (patients ?d')"
    using assms(3,4,6) by (auto simp: set_remove_nth table_ids_delete)
  with step show ?thesis
    by (intro exI [of _ ?s'] exI [of _ ?d']) (simp add: table_simps)
qed

theorem search_delete_consistent_witness:
  "\<exists>s' d'. app_step (ClickDelete 0 (Some 0) True) \<lparr>app_fs = [''hospital.db'' \<mapsto> File (DbImage (empty_db\<lparr>patients := \<lparr>rows = [(1, make_patient ''Ana'' 30 ''Rua A'' ''555''), (2, make_patient ''Rui'' 40 ''Rua B'' ''777'')], seq = 2\<rparr>\<rparr>))], app_windows = [SearchW [1, 2]]\<rparr> = Some s' \<and>
     load_db (app_fs s') = Some d' \<and> table_lookup (patients d') 1 = None \<and>
     app_windows s' = [SearchW [2]] \<and> 2 \<in> table_ids (patients d')"
  using search_delete_consistent [where i = 0 and k = 0 and ids = "[1, 2]" and
      s = "\<lparr>app_fs = [''hospital.db'' \<mapsto> File (DbImage (empty_db\<lparr>patients := \<lparr>rows = [(1, make_patient ''Ana'' 30 ''Rua A'' ''555''), (2, make_patient ''Rui'' 40 ''Rua B'' ''777'')], seq = 2\<rparr>\<rparr>))], app_windows = [SearchW [1, 2]]\<rparr>" and d = "empty_db\<lparr>patients := \<lparr>rows = [(1, make_patient ''Ana'' 30 ''Rua A'' ''555''), (2, make_patient ''Rui'' 40 ''Rua B'' ''777'')], seq = 2\<rparr>\<rparr>"]
  by (simp add: load_db_def db_file_def table_ids_def remove_nth_def)

end
