(* ===== verification/StoreSpec.thy ===== *)
theory StoreSpec
  imports App
begin

text \<open>
  The specification's Record Store (spec.md, sections 3 and 4.1) for the four entities
  of the program, and the refinement of the application by it. \<open>hosp_store\<close> holds
  one store of \<open>SqlTable\<close> per entity; \<open>store_op\<close> is one operation of the
  specification: \<open>create\<close> with the constraints the specification names (required
  fields non-empty, date and time of the \<open>DD/MM/YYYY\<close> and \<open>HH:MM\<close> shapes),
  \<open>update\<close> as a full-row overwrite and \<open>delete\<close> by id, for patients and doctors,
  and \<open>create\<close> and \<open>delete\<close> for appointments, which have no edit path. The
  credentials have no lifecycle. \<open>abs_db\<close> reads a database as such a store.
\<close>

section \<open>Definitions\<close>

record hosp_store =
  st_patients :: "patient store"
  st_doctors :: "doctor store"
  st_appointments :: "appointment store"
  st_users :: "user store"

definition abs_db :: "db \<Rightarrow> hosp_store" where
  "abs_db d =
     \<lparr>st_patients = abs_table (patients d), st_doctors = abs_table (doctors d),
      st_appointments = abs_table (appointments d), st_users = abs_table (users d)\<rparr>"

inductive store_op :: "hosp_store \<Rightarrow> hosp_store \<Rightarrow> bool" where
  create_patient:
    "patient_name p \<noteq> [] \<Longrightarrow> store_create p (st_patients S) = Some (i, P) \<Longrightarrow>
     store_op S (S\<lparr>st_patients := P\<rparr>)"
| update_patient:
    "patient_name p \<noteq> [] \<Longrightarrow> store_op S (S\<lparr>st_patients := store_update i p (st_patients S)\<rparr>)"
| delete_patient: "store_op S (S\<lparr>st_patients := store_delete i (st_patients S)\<rparr>)"
| create_doctor:
    "doctor_name doc \<noteq> [] \<Longrightarrow> doctor_specialty doc \<noteq> [] \<Longrightarrow>
     store_create doc (st_doctors S) = Some (i, D) \<Longrightarrow> store_op S (S\<lparr>st_doctors := D\<rparr>)"
| update_doctor:
    "doctor_name doc \<noteq> [] \<Longrightarrow> doctor_specialty doc \<noteq> [] \<Longrightarrow>
     store_op S (S\<lparr>st_doctors := store_update i doc (st_doctors S)\<rparr>)"
| delete_doctor: "store_op S (S\<lparr>st_doctors := store_delete i (st_doctors S)\<rparr>)"
| create_appointment:
    "py_re_match date_pattern (appt_date a) \<Longrightarrow> py_re_match time_pattern (appt_time a) \<Longrightarrow>
     store_create a (st_appointments S) = Some (i, A) \<Longrightarrow> store_op S (S\<lparr>st_appointments := A\<rparr>)"
| delete_appointment: "store_op S (S\<lparr>st_appointments := store_delete i (st_appointments S)\<rparr>)"

section \<open>Lemmas\<close>

lemma table_insert_abs:
  "table_inv t \<Longrightarrow> table_insert r t = Inr (i, t') \<Longrightarrow> store_create r (abs_table t) = Some (i, abs_table t')"
  using table_insert_lookup [of r t i t']
  by (auto simp: table_insert_eq abs_table_def store_create_def split: if_splits)

lemma table_delete_abs [simp]: "abs_table (table_delete i t) = store_delete i (abs_table t)"
  by (simp add: abs_table_def store_delete_def table_simps)

lemma table_update_abs [simp]: "abs_table (table_update i (\<lambda>_. r) t) = store_update i r (abs_table t)"
  by (auto simp: abs_table_def store_update_def table_simps split: option.split)

lemma save_appointment_shapes:
  "save_appointment sp sd date time d = Inr d' \<Longrightarrow>
   \<exists>a i. table_insert a (appointments d) = Inr (i, appointments d') \<and>
     d' = d\<lparr>appointments := appointments d'\<rparr> \<and>
     py_re_match date_pattern (appt_date a) \<and> py_re_match time_pattern (appt_time a)"
  by (fastforce simp: save_appointment_def make_appointment_def Let_def
      split: if_splits option.splits sum.splits prod.splits)

lemma save_doctor_fields:
  "save_doctor name specialty schedule d = Inr d' \<Longrightarrow>
   \<exists>doc i. table_insert doc (doctors d) = Inr (i, doctors d') \<and> d' = d\<lparr>doctors := doctors d'\<rparr> \<and>
     doctor_name doc \<noteq> [] \<and> doctor_specialty doc \<noteq> []"
  by (fastforce simp: save_doctor_def make_doctor_def doctor_fields_Inr_iff split: sum.splits prod.splits)

text \<open>Each callback that writes is one operation of the specification, or changes
  nothing (a delete the user does not confirm, an update of a missing id).\<close>

lemma callback_step_store_op:
  assumes "callback_step d d'" and "db_inv d"
  shows "abs_db d' = abs_db d \<or> store_op (abs_db d) (abs_db d')"
  using assms(1)
proof cases
  case (1 n a ad c)
  then obtain n' a' ad' c' w i where f: "patient_fields n a ad c = Inr (n', a', ad', c')"
    and ins: "table_insert (make_patient n' w ad' c') (patients d) = Inr (i, patients d')"
    and d': "d' = d\<lparr>patients := patients d'\<rparr>"
    by (blast dest: save_patient_Inr)
  have "store_create (make_patient n' w ad' c') (st_patients (abs_db d)) = Some (i, abs_table (patients d'))"
    using table_insert_abs [OF _ ins] assms(2) by (simp add: abs_db_def db_inv_def)
  moreover have "patient_name (make_patient n' w ad' c') \<noteq> []"
    using f by (auto simp: patient_fields_Inr_iff make_patient_def)
  ultimately have "store_op (abs_db d) ((abs_db d)\<lparr>st_patients := abs_table (patients d')\<rparr>)"
    by (rule store_op.create_patient [rotated])
  then show ?thesis by (subst d') (simp add: abs_db_def)
next
  case (2 n sp sc)
  then obtain doc i where ins: "table_insert doc (doctors d) = Inr (i, doctors d')"
    and d': "d' = d\<lparr>doctors := doctors d'\<rparr>" and ne: "doctor_name doc \<noteq> []" "doctor_specialty doc \<noteq> []"
    by (blast dest: save_doctor_fields)
  have "store_create doc (st_doctors (abs_db d)) = Some (i, abs_table (doctors d'))"
    using table_insert_abs [OF _ ins] assms(2) by (simp add: abs_db_def db_inv_def)
  with ne have "store_op (abs_db d) ((abs_db d)\<lparr>st_doctors := abs_table (doctors d')\<rparr>)"
    by (rule store_op.create_doctor)
  then show ?thesis by (subst d') (simp add: abs_db_def)
next
  case (3 sp sd dt tm)
  then obtain a i where ins: "table_insert a (appointments d) = Inr (i, appointments d')"
    and d': "d' = d\<lparr>appointments := appointments d'\<rparr>"
    and sh: "py_re_match date_pattern (appt_date a)" "py_re_match time_pattern (appt_time a)"
    by (blast dest: save_appointment_shapes)
  have "store_create a (st_appointments (abs_db d)) = Some (i, abs_table (appointments d'))"
    using table_insert_abs [OF _ ins] assms(2) by (simp add: abs_db_def db_inv_def)
  with sh have "store_op (abs_db d) ((abs_db d)\<lparr>st_appointments := abs_table (appointments d')\<rparr>)"
    by (rule store_op.create_appointment)
  then show ?thesis by (subst d') (simp add: abs_db_def)
next
  case (4 pid n a ad c)
  then obtain n' a' ad' c' w where f: "patient_fields n a ad c = Inr (n', a', ad', c')"
    and d': "d' = d\<lparr>patients := table_update pid (\<lambda>_. make_patient n' w ad' c') (patients d)\<rparr>"
    by (auto simp: update_patient_def split: sum.splits prod.splits)
  have "patient_name (make_patient n' w ad' c') \<noteq> []"
    using f by (auto simp: patient_fields_Inr_iff make_patient_def)
  then have "store_op (abs_db d) ((abs_db d)\<lparr>st_patients := store_update pid (make_patient n' w ad' c') (st_patients (abs_db d))\<rparr>)"
    by (rule store_op.update_patient)
  then show ?thesis using d' by (simp add: abs_db_def)
next
  case (5 sel cf)
  then show ?thesis
    using store_op.delete_patient [of "abs_db d"]
    by (auto simp: delete_patient_def abs_db_def split: option.splits if_splits)
next
  case (6 sel cf)
  then show ?thesis
    using store_op.delete_appointment [of "abs_db d"]
    by (auto simp: delete_appointment_def abs_db_def split: option.splits if_splits)
qed

lemma app_step_store_op:
  assumes "reachable s" and "app_step e s = Some s'" and "\<not> is_restore e"
    and "load_db (app_fs s) = Some d" and "load_db (app_fs s') = Some d'"
  shows "abs_db d' = abs_db d \<or> store_op (abs_db d) (abs_db d')"
proof -
  have inv: "db_inv d" using assms(1,4) by (blast dest: reachable_fs_inv fs_inv_load)
  from app_step_load [OF assms(2,3) reachable_no_doctor_window [OF assms(1)]] assms(4,5)
  have "d' = d \<or> callback_step d d'" by auto
  then show ?thesis using callback_step_store_op [OF _ inv] by blast
qed

text \<open>C32. The application refines the specification's Record Store: along any run
  without a restore, from a reachable state whose database is readable to one whose
  database is readable, the store the database holds changes by a sequence of the
  specification's operations, each with the constraints the specification gives it.\<close>

theorem app_run_refines_store:
  assumes "app_run es s = Some s'" and "reachable s" and "list_all (\<lambda>e. \<not> is_restore e) es"
    and "load_db (app_fs s) = Some d" and "load_db (app_fs s') = Some d'"
  shows "store_op\<^sup>*\<^sup>* (abs_db d) (abs_db d')"
  using assms
proof (induction es arbitrary: s d)
  case Nil
  then show ?case by simp
next
  case (Cons e es)
  then obtain s1 where s1: "app_step e s = Some s1" and r: "app_run es s1 = Some s'"
    by (auto split: option.splits)
  have re1: "reachable s1" using reachable.step [OF Cons.prems(2) s1] .
  obtain d1 where d1: "load_db (app_fs s1) = Some d1"
  proof (cases "load_db (app_fs s1)")
    case None
    with app_run_load_None [OF r re1] Cons.prems(3,5) show ?thesis by simp
  qed
  have "abs_db d1 = abs_db d \<or> store_op (abs_db d) (abs_db d1)"
    using app_step_store_op [OF Cons.prems(2) s1 _ Cons.prems(4) d1] Cons.prems(3) by simp
  moreover have "store_op\<^sup>*\<^sup>* (abs_db d1) (abs_db d')"
    using Cons.IH [OF r re1 _ d1 Cons.prems(5)] Cons.prems(3) by simp
  ultimately show ?case by (auto intro: converse_rtranclp_into_rtranclp)
qed

theorem app_run_refines_store_witness:
  "store_op\<^sup>*\<^sup>* (abs_db (empty_db\<lparr>users := \<lparr>rows = [(1, admin_user)], seq = 1\<rparr>\<rparr>)) (abs_db (empty_db\<lparr>patients := \<lparr>rows = [(1, make_patient ''Ana'' 30 ''Rua A'' ''555'')], seq = 1\<rparr>, users := \<lparr>rows = [(1, admin_user)], seq = 1\<rparr>\<rparr>))"
  using app_run_refines_store [OF run_register_ana reachable.start [OF fs_inv_empty main_start_empty]]
  by (simp add: load_db_def db_file_def)

text \<open>C33. The specification's first testable property, through the windows: from any
  reachable state whose database is readable, registering a patient with four
  non-empty entries and an integer age within 64 bits and then opening the patient
  list shows a list that ends with a new id, one no stored patient had, and the
  stored row under that id holds the stripped entries.\<close>

theorem register_then_list:
  assumes "reachable s" and "load_db (app_fs s) = Some d"
    and "py_strip name \<noteq> []" "py_strip address \<noteq> []" "py_strip contact \<noteq> []"
    and "py_int age = Some a" "- (2 ^ 63) \<le> a" "a < 2 ^ 63"
    and "seq (patients d) \<noteq> max_rowid"
  shows "\<exists>s' i d'. app_run [OpenRegisterPatient, ClickSavePatient (length (app_windows s)) name age address contact,
                          OpenViewPatients] s = Some s' \<and>
           i \<notin> table_ids (patients d) \<and>
           app_windows s' = app_windows s @ [PatientListW (map fst (rows (patients d)) @ [i])] \<and>
           load_db (app_fs s') = Some d' \<and>
           table_lookup (patients d') i =
             Some (make_patient (py_strip name) (word_of_int a) (py_strip address) (py_strip contact))"
proof -
  have inv: "db_inv d" using reachable_fs_inv [OF assms(1)] assms(2) by (rule fs_inv_load)
  then have fresh: "Suc (seq (patients d)) \<notin> table_ids (patients d)"
    by (auto simp: db_inv_def dest: table_ids_le_seq)
  from save_patient_valid [OF inv assms(3-8)] assms(2,9) fresh show ?thesis
    by (simp add: app_step_def window_event_defs run_db_def open_with_db_def view_patients_def
        table_lookup_def table_ids_def map_add_dom_app_simps dom_map_of_conv_image_fst)
qed

theorem register_then_list_witness:
  "\<exists>s' i d'. app_run [OpenRegisterPatient, ClickSavePatient 0 ''Ana'' ''30'' ''Rua A'' ''555'', OpenViewPatients]
        \<lparr>app_fs = [''hospital.db'' \<mapsto> File (DbImage (empty_db\<lparr>users := \<lparr>rows = [(1, admin_user)], seq = 1\<rparr>\<rparr>))], app_windows = []\<rparr> = Some s' \<and>
      i \<notin> table_ids (patients (empty_db\<lparr>users := \<lparr>rows = [(1, admin_user)], seq = 1\<rparr>\<rparr>)) \<and>
      app_windows s' = [PatientListW [i]] \<and> load_db (app_fs s') = Some d' \<and>
      table_lookup (patients d') i = Some (make_patient ''Ana'' 30 ''Rua A'' ''555'')"
  using register_then_list [OF reachable.start [OF fs_inv_empty main_start_empty], of "empty_db\<lparr>users := \<lparr>rows = [(1, admin_user)], seq = 1\<rparr>\<rparr>"
      "''Ana''" "''Rua A''" "''555''" "''30''" 30]
  by (simp add: load_db_def db_file_def py_simps table_simps)

end
