(* ===== verification/Spec2Isabelle.thy ===== *)
theory Spec2Isabelle
  imports StoreSpec
begin

text \<open>
  \<^bold>\<open>A verification library for the hospital-records program\<close>
  (src/programa_hospital.py, a Tkinter form application over the SQLite file
  \<open>hospital.db\<close>).

  \<^bold>\<open>The program.\<close> Every behaviour of the program is a Tk callback that reads the
  texts of a form's entries, validates them, runs one SQL statement on
  \<open>hospital.db\<close> (opening and closing a connection around it, committing at once)
  and shows a dialog. The callbacks share no state but the database file; they
  interact only through the rows they write and read. The parts are: the schema set
  up by \<open>setup_database\<close>; the patient forms (register, list and delete, edit, search);
  the doctor forms (register, list and delete, edit); the appointment forms
  (schedule, list and delete); CSV export of the appointment list; backup and restore
  of the database file; the main window and its menus, which only dispatch to the
  callbacks. The script's entry point (lines 930--932) runs \<open>setup_database()\<close>
  and then \<open>main_window()\<close>, whose \<open>root.mainloop()\<close> dispatches the events.

  \<^bold>\<open>Theories and what they model.\<close>
  \<^item> \<open>Prelude\<close>: the types of the model (\<open>sqlint\<close>, a 64-bit word for an SQLite
    INTEGER; \<open>rowid\<close>), the rule collections \<open>py_simps\<close>, \<open>table_simps\<close>,
    \<open>handler_simps\<close>, and lemmas on association lists shared by the tables.
  \<^item> \<open>PyStr\<close>: the Python built-ins the callbacks apply to entry texts:
    \<open>str.strip\<close> (\<open>py_strip\<close>), \<open>int(str)\<close> (\<open>py_int\<close>, CPython's digit loop with
    signs and underscores), \<open>str(int)\<close> (\<open>py_str_int\<close>) and \<open>split(sep)[0]\<close>.
    Lemmas: \<open>int(str(i)) = i\<close>, and \<open>strip\<close> is idempotent and leaves no white space
    at either end.
  \<^item> \<open>Regex\<close>: the two patterns of \<open>save_appointment\<close> as a small regular-expression
    syntax with Python's \<open>re.match\<close> semantics (\<open>re_run\<close>), and their
    characterisation by character templates.
  \<^item> \<open>SqlTable\<close>: an \<open>INTEGER PRIMARY KEY AUTOINCREMENT\<close> table as its rows in rowid
    order and its \<open>sqlite_sequence\<close> value; \<open>INSERT\<close> (rowid allocation and
    \<open>SQLITE_FULL\<close>), \<open>DELETE\<close>, \<open>UPDATE\<close> and lookup by id. Invariant \<open>table_inv\<close>
    (sorted positive ids bounded by the sequence), preserved by every statement, and
    refinement of each statement to an update of the map \<open>table_lookup\<close>; the
    specification's record store (\<open>store_create\<close>, \<open>store_delete\<close>,
    \<open>store_update\<close>, \<open>store_ids\<close>) and the refinement of the tables to it through
    \<open>abs_table\<close> (C21).
  \<^item> \<open>Like\<close>: SQLite's \<open>LIKE\<close> (wildcards, ASCII case folding, the pattern length limit)
    as SQLite's backtracking matcher (\<open>like_match\<close>); what the search pattern
    \<open>%term%\<close> matches: a segment of the name matching the term character by
    character (\<open>like_search_pattern\<close>), substring search up to ASCII case when the
    term has no wildcard (\<open>like_substring\<close>).
  \<^item> \<open>Store\<close>: the rows of the four tables as records, the database as a record of
    tables, the callbacks' outcomes (\<open>hosp_error\<close>), the binding of a Python
    \<open>int\<close> to a 64-bit INTEGER (\<open>bind_int\<close>) and \<open>setup_database\<close>, which is
    idempotent and leaves a credential in every database it accepts (C23).
  \<^item> \<open>Patients\<close>: \<open>save_patient\<close>, \<open>edit_patient\<close>/\<open>update_patient\<close>,
    \<open>delete_patient\<close>, \<open>view_patients\<close> and \<open>perform_search\<close> (C1--C6, C22,
    C26).
  \<^item> \<open>Doctors\<close>: \<open>save_doctor\<close>, \<open>edit_doctor\<close>/\<open>update_doctor\<close>, \<open>delete_doctor\<close>,
    the first \<open>view_doctors\<close> (\<open>view_doctors_first\<close>) and the second one, the stub
    of line 925 that Python binds at import (\<open>view_doctors\<close>, which opens nothing)
    (C25, and the round trip of the edit form, C29).
  \<^item> \<open>Appointments\<close>: the combobox labels \<open>"id: name"\<close> of
    \<open>schedule_appointment\<close> and their parse, \<open>save_appointment\<close> with its date and
    time checks, the inner join of \<open>view_appointments\<close> (\<open>appointment_join\<close>) and
    \<open>delete_appointment\<close> (C7--C10, C24; C30: a patient deleted after the form
    opened is still scheduled, and the appointment never shows).
  \<^item> \<open>Csv\<close>: the text \<open>csv.writer\<close> writes with the \<open>excel\<close> dialect, and a reader
    with the states of CPython's \<open>csv.reader\<close>, which ends a record at a line feed
    outside quotes; every list of non-empty records reads back from what the writer
    writes (used by C13).
  \<^item> \<open>Files\<close>: the file system as a map from paths to directories and files (a
    database image or text), \<open>shutil.copy\<close>, \<open>export_appointments_to_csv\<close>,
    \<open>backup_database\<close>, \<open>restore_database\<close> and \<open>load_db\<close>, the database
    \<open>sqlite3.connect("hospital.db")\<close> opens (C12--C16).
  \<^item> \<open>App\<close>: \<open>main_window\<close> and its Toplevel windows as a state (the file system
    and the open windows with the ids or options their callbacks close over) and one
    step per user event (\<open>app_step\<close>): \<open>main_event\<close> for the main window's buttons
    and menus, and for the \<open>i\<close>-th open window \<open>window_event\<close>, which closes it or
    dispatches to the handler of its kind (\<open>register_patient_event\<close>,
    \<open>schedule_event\<close>, \<open>patient_list_event\<close>, \<open>search_window_event\<close>, ...), each
    the callbacks its window binds. \<open>main_start\<close> is \<open>setup_database()\<close> followed by
    \<open>main_window()\<close>; \<open>reachable\<close> is the inductive set of states reached from it,
    \<open>app_run\<close> a run of events, and \<open>tk_mainloop\<close> (a \<open>partial_function\<close> in the
    option monad) is \<open>root.mainloop()\<close> on a stream of events, which returns at the
    first event that ends it (\<open>ends_loop\<close>: "Sair" or the window manager closing
    the main window; \<open>tk_mainloop_exit_at\<close>). Lemmas: every reachable file system holds only
    well-formed databases (\<open>reachable_fs_inv\<close>, by rule induction), the doctor list
    and edit windows never open, each step changes the database by at most one
    callback (\<open>app_step_load\<close>), tables only grow between restores, and the
    patient rows stay well formed (C17, C18, C20, C27, C28); a restore hands out
    again the ids given after the backup (C19); a delete in the search window keeps
    its results stored (C31).
  \<^item> \<open>StoreSpec\<close>: the specification's Record Store (spec.md, 4.1) for the four
    entities (\<open>hosp_store\<close>, read from a database by \<open>abs_db\<close>) and its operations
    with their constraints (\<open>store_op\<close>, an inductive relation). Every callback that
    writes is one such operation or a no-op (\<open>callback_step_store_op\<close>), so every
    run without a restore refines a sequence of them (C32); and the specification's
    first testable property through the windows: a registered patient gets a new id
    and appears at the end of the patient list (C33).
  \<^item> This theory: properties that span the components (C11).

  \<^bold>\<open>Bounds.\<close> Rowids are \<open>nat\<close> bounded by \<open>max_rowid\<close> = 2^63-1, where
  \<open>table_insert\<close> fails with \<open>SQLITE_FULL\<close>; stored integers are 64-bit words read
  with \<open>sint\<close>; \<open>int()\<close> refuses more than 4300 digits, which every stored value
  is below (\<open>sint_within_digit_limit\<close>). No definition needs fuel: every loop of the
  model is structural recursion (\<open>csv_scan\<close>, \<open>re_run\<close>, \<open>like_match\<close>,
  \<open>app_run\<close>) or a fold, except the Tk event loop, which runs for as long as the
  user does not end it: \<open>tk_mainloop\<close> is a \<open>partial_function\<close> in the option
  monad, and returns the state reached by the events before the first one that ends
  it (\<open>tk_mainloop_exit_at\<close>).

  \<^bold>\<open>Plan of the development.\<close> Done: patients, doctors, appointments, export,
  backup and restore with the id reuse a restore causes, the application's event
  loop with its invariants, the refinement of the tables to the specified record
  store, the search with its wildcards, the refinement of the application by the
  specification's Record Store. Left: properties of runs that include restores beyond
  the id reuse they allow (a restore is no operation of the Record Store: it replaces
  the whole store), and a bound on the events a run needs to reach a given database.

  \<^bold>\<open>Not modelled.\<close> Window layout, styles and icons (\<open>configure_styles\<close>, the
  icon files; presentation only, no state a callback reads); a list window opened
  while \<open>hospital.db\<close> is unreadable, whose half-built window has no buttons; the
  creation of an empty file by \<open>sqlite3.connect\<close> when \<open>hospital.db\<close> is missing,
  which no reachable state has; Python strings beyond code point 255 (the model's
  \<open>char\<close> is Latin-1); the byte-level UTF-8 encoding of exported files; paths are
  compared as strings (no symbolic links), and the parent directory of a path is not
  checked; the file dialogs are modelled as returning any string, which includes
  an existing directory that \<open>asksaveasfilename\<close> would open rather than return.
\<close>


section \<open>Properties across components\<close>

text \<open>C11. Deleting a doctor leaves every appointment that refers to the doctor in the
  \<open>appointments\<close> table (no cascade, no check of dependent rows), and that appointment
  no longer appears in the joined list of \<open>view_appointments\<close>, so no list window can
  select it for deletion.\<close>

theorem delete_doctor_dangling:
  assumes "db_inv d" and "delete_doctor (Some did) True d = Inr d'"
    and "(aid, a) \<in> set (rows (appointments d))" and "rowid_of (appt_doctor_id a) = Some did"
  shows "(aid, a) \<in> set (rows (appointments d')) \<and> table_lookup (doctors d') did = None \<and>
         (\<forall>pn dn dt tm. (aid, pn, dn, dt, tm) \<notin> set (view_appointments d'))"
proof -
  from assms(2) have d': "d' = d\<lparr>doctors := table_delete did (doctors d)\<rparr>"
    by (simp add: delete_doctor_def)
  then have gone: "table_lookup (doctors d') did = None" by (simp add: table_delete_lookup)
  have dist: "distinct (map fst (rows (appointments d)))"
    using assms(1) by (auto simp: db_inv_def table_inv_def)
  have "(aid, pn, dn, dt, tm) \<notin> set (view_appointments d')" for pn dn dt tm
  proof
    assume "(aid, pn, dn, dt, tm) \<in> set (view_appointments d')"
    then obtain a' dk doc where a': "(aid, a') \<in> set (rows (appointments d))"
      and dk: "rowid_of (appt_doctor_id a') = Some dk" and doc: "table_lookup (doctors d') dk = Some doc"
      using d' by (auto simp: view_appointments_def appointment_join_member)
    from dist a' assms(3) have "a' = a" by (rule eq_key_imp_eq_value)
    with dk assms(4) have "dk = did" by simp
    with doc gone show False by simp
  qed
  with assms(3) d' gone show ?thesis by simp
qed

theorem delete_doctor_dangling_witness:
  "(1, make_appointment 1 1 ''01/02/2024'' ''10:00'') \<in> set (rows (appointments (empty_db\<lparr>patients := \<lparr>rows = [(1, make_patient ''Ana'' 30 ''Rua A'' ''555'')], seq = 1\<rparr>,
       doctors := \<lparr>rows = [], seq = 1\<rparr>,
       appointments := \<lparr>rows = [(1, make_appointment 1 1 ''01/02/2024'' ''10:00'')], seq = 1\<rparr>\<rparr>))) \<and>
   table_lookup (doctors (empty_db\<lparr>patients := \<lparr>rows = [(1, make_patient ''Ana'' 30 ''Rua A'' ''555'')], seq = 1\<rparr>,
       doctors := \<lparr>rows = [], seq = 1\<rparr>,
       appointments := \<lparr>rows = [(1, make_appointment 1 1 ''01/02/2024'' ''10:00'')], seq = 1\<rparr>\<rparr>)) 1 = None \<and>
   (\<forall>pn dn dt tm. (1, pn, dn, dt, tm) \<notin> set (view_appointments (empty_db\<lparr>patients := \<lparr>rows = [(1, make_patient ''Ana'' 30 ''Rua A'' ''555'')], seq = 1\<rparr>,
       doctors := \<lparr>rows = [], seq = 1\<rparr>,
       appointments := \<lparr>rows = [(1, make_appointment 1 1 ''01/02/2024'' ''10:00'')], seq = 1\<rparr>\<rparr>)))"
proof -
  have inv: "db_inv (empty_db\<lparr>patients := \<lparr>rows = [(1, make_patient ''Ana'' 30 ''Rua A'' ''555'')], seq = 1\<rparr>,
       doctors := \<lparr>rows = [(1, make_doctor ''Dr X'' ''Cardio'' ''8-12'')], seq = 1\<rparr>,
       appointments := \<lparr>rows = [(1, make_appointment 1 1 ''01/02/2024'' ''10:00'')], seq = 1\<rparr>\<rparr>)" by (simp add: table_simps)
  have del: "delete_doctor (Some 1) True (empty_db\<lparr>patients := \<lparr>rows = [(1, make_patient ''Ana'' 30 ''Rua A'' ''555'')], seq = 1\<rparr>,
       doctors := \<lparr>rows = [(1, make_doctor ''Dr X'' ''Cardio'' ''8-12'')], seq = 1\<rparr>,
       appointments := \<lparr>rows = [(1, make_appointment 1 1 ''01/02/2024'' ''10:00'')], seq = 1\<rparr>\<rparr>) = Inr (empty_db\<lparr>patients := \<lparr>rows = [(1, make_patient ''Ana'' 30 ''Rua A'' ''555'')], seq = 1\<rparr>,
       doctors := \<lparr>rows = [], seq = 1\<rparr>,
       appointments := \<lparr>rows = [(1, make_appointment 1 1 ''01/02/2024'' ''10:00'')], seq = 1\<rparr>\<rparr>)"
    by (simp add: delete_doctor_def table_delete_def)
  have ref: "rowid_of (appt_doctor_id (make_appointment 1 1 ''01/02/2024'' ''10:00'')) = Some 1"
    by (simp add: make_appointment_def rowid_of_def)
  show ?thesis
    using delete_doctor_dangling [OF inv del _ ref] by simp
qed

end
